(* ===== verification/Prelude.thy ===== *)
theory Prelude
  imports Main "HOL-Library.Word" "HOL-Library.Sublist"
begin

text \<open>
  Shared vocabulary of the unified-diff development: the byte-string types, the
  characters the wire format is built from, and generic lemmas on lists and
  options that the component theories use through \<open>simp\<close>.  The collection
  \<open>model_defs\<close> gathers the definitions that concrete evaluations (the fixture
  theorems of \<open>Fixtures\<close>) unfold.
\<close>

named_theorems model_defs "definitions unfolded when a concrete encoding is evaluated"

type_synonym bytes = "char list"
type_synonym byte = "8 word"

text \<open>The characters of the wire format.\<close>

abbreviation nl :: char where
  "nl \<equiv> CHR 0x0A"

abbreviation esc_char :: char where
  "esc_char \<equiv> CHR 0x1B"

abbreviation backslash :: char where
  "backslash \<equiv> CHR 0x5C"

text \<open>Joining lines with a separator, as Go's \<open>strings.Join\<close> does.\<close>

fun join_with :: "char \<Rightarrow> bytes list \<Rightarrow> bytes" where
  "join_with c [] = []"
| "join_with c [x] = x"
| "join_with c (x # y # ys) = x @ c # join_with c (y # ys)"

subsection \<open>Generic list lemmas\<close>

lemma join_with_Cons_nonempty [simp]:
  "ys \<noteq> [] \<Longrightarrow> join_with c (x # ys) = x @ c # join_with c ys"
  by (cases ys) auto

lemma join_with_append_single:
  "xs \<noteq> [] \<Longrightarrow> join_with c (xs @ [y]) = join_with c xs @ c # y"
proof (induction xs rule: join_with.induct)
  case (3 c x z zs)
  then show ?case by simp
qed auto

lemma takeWhile_append_all [simp]:
  "list_all P xs \<Longrightarrow> takeWhile P (xs @ ys) = xs @ takeWhile P ys"
  by (induction xs) auto

lemma dropWhile_append_all [simp]:
  "list_all P xs \<Longrightarrow> dropWhile P (xs @ ys) = dropWhile P ys"
  by (induction xs) auto

lemma length_filter_all [simp]:
  "list_all P xs \<Longrightarrow> length (filter P xs) = length xs"
  by (induction xs) auto

lemma list_all_take_drop [intro]:
  "list_all P xs \<Longrightarrow> list_all P (take n xs)"
  "list_all P xs \<Longrightarrow> list_all P (drop n xs)"
  by (auto simp: list_all_iff dest: in_set_takeD in_set_dropD)

lemma concat_map_append_single [simp]:
  "concat (map f (xs @ [x])) = concat (map f xs) @ f x"
  by simp

lemma sorted_le_last: "sorted xs \<Longrightarrow> x \<in> set xs \<Longrightarrow> x \<le> last xs"
  by (induction xs) (auto simp: sorted_append)

lemma sorted_wrt_snoc: "sorted_wrt P (ys @ [y]) \<longleftrightarrow> sorted_wrt P ys \<and> (\<forall>x\<in>set ys. P x y)"
  by (simp add: sorted_wrt_append)

lemma sorted_wrt_butlast_last:
  assumes "xs \<noteq> []" "sorted_wrt P xs"
  shows "sorted_wrt P (butlast xs) \<and> (\<forall>x\<in>set (butlast xs). P x (last xs))"
proof -
  have "xs = butlast xs @ [last xs]" using assms(1) by simp
  with assms(2) show ?thesis by (metis sorted_wrt_snoc)
qed

lemma map_butlast_last: "xs \<noteq> [] \<Longrightarrow> map f (butlast xs) @ [f (last xs)] = map f xs"
  by (induction xs) auto

lemma in_set_butlastI: "x \<in> set xs \<Longrightarrow> x \<noteq> last xs \<Longrightarrow> x \<in> set (butlast xs)"
  by (induction xs) auto

lemma takeWhile_length_le: "i < length xs \<Longrightarrow> \<not> P (xs ! i) \<Longrightarrow> length (takeWhile P xs) \<le> i"
  by (induction xs arbitrary: i) (auto simp: nth_Cons split: nat.splits)

lemma filter_take_drop:
  "filter P (take m (drop s xs)) =
   take (length (filter P (take m (drop s xs)))) (drop (length (filter P (take s xs))) (filter P xs))"
proof -
  have "xs = take s xs @ take m (drop s xs) @ drop m (drop s xs)"
    by (simp only: append_take_drop_id)
  then have "filter P xs = filter P (take s xs) @ filter P (take m (drop s xs)) @ filter P (drop m (drop s xs))"
    by (metis filter_append)
  then show ?thesis by simp
qed

lemma take_split: "s \<le> e \<Longrightarrow> take e xs = take s xs @ take (e - s) (drop s xs)"
  by (metis le_add_diff_inverse take_add)

lemma filter_concat_windows:
  assumes "sorted_wrt (\<lambda>w w'. snd w \<le> fst w') ws"
    "\<forall>w\<in>set ws. m \<le> fst w \<and> fst w \<le> snd w \<and> snd w \<le> length xs"
    "\<forall>j. m \<le> j \<longrightarrow> j < length xs \<longrightarrow> (\<forall>w\<in>set ws. \<not> (fst w \<le> j \<and> j < snd w)) \<longrightarrow> \<not> P (xs ! j)"
  shows "filter P (concat (map (\<lambda>w. take (snd w - fst w) (drop (fst w) xs)) ws)) = filter P (drop m xs)"
  using assms
proof (induction ws arbitrary: m)
  case Nil
  have "\<forall>x\<in>set (drop m xs). \<not> P x"
    using Nil.prems(3) by (auto simp: in_set_conv_nth)
  then show ?case by (simp add: filter_False)
next
  case (Cons w ws)
  have w: "m \<le> fst w" "fst w \<le> snd w" "snd w \<le> length xs" using Cons.prems(2) by auto
  have later: "\<forall>w'\<in>set ws. snd w \<le> fst w'" using Cons.prems(1) by simp
  have split: "drop m xs = take (fst w - m) (drop m xs) @ take (snd w - fst w) (drop (fst w) xs) @ drop (snd w) xs"
  proof -
    have "drop m xs = take (fst w - m) (drop m xs) @ drop (fst w - m) (drop m xs)"
      by (simp only: append_take_drop_id)
    also have "drop (fst w - m) (drop m xs) = drop (fst w) xs" using w(1) by simp
    also have "drop (fst w) xs = take (snd w - fst w) (drop (fst w) xs) @ drop (snd w - fst w) (drop (fst w) xs)"
      by (simp only: append_take_drop_id)
    also have "drop (snd w - fst w) (drop (fst w) xs) = drop (snd w) xs" using w(2) by simp
    finally show ?thesis .
  qed
  have pre: "filter P (take (fst w - m) (drop m xs)) = []"
  proof -
    have "\<not> P x" if "x \<in> set (take (fst w - m) (drop m xs))" for x
    proof -
      from that obtain i where i: "i < fst w - m" "i < length xs - m" "x = xs ! (m + i)"
        by (auto simp: in_set_conv_nth)
      have "\<forall>w'\<in>set (w # ws). \<not> (fst w' \<le> m + i \<and> m + i < snd w')"
        using i(1) later w by fastforce
      then show ?thesis using Cons.prems(3) i by auto
    qed
    then show ?thesis by (simp add: filter_False)
  qed
  have IH: "filter P (concat (map (\<lambda>w. take (snd w - fst w) (drop (fst w) xs)) ws)) = filter P (drop (snd w) xs)"
  proof (rule Cons.IH)
    show "sorted_wrt (\<lambda>w w'. snd w \<le> fst w') ws" using Cons.prems(1) by simp
    show "\<forall>w'\<in>set ws. snd w \<le> fst w' \<and> fst w' \<le> snd w' \<and> snd w' \<le> length xs"
      using Cons.prems(2) later by auto
    show "\<forall>j. snd w \<le> j \<longrightarrow> j < length xs \<longrightarrow> (\<forall>w'\<in>set ws. \<not> (fst w' \<le> j \<and> j < snd w')) \<longrightarrow> \<not> P (xs ! j)"
      using Cons.prems(3) w by auto
  qed
  show ?case by (subst split) (simp add: pre IH)
qed


lemma join_with_chars: "set (join_with c ls) \<subseteq> insert c (\<Union>x\<in>set ls. set x)"
  by (induction c ls rule: join_with.induct) auto

end
