(* ===== verification/Lines.thy ===== *)
theory Lines
  imports Prelude
begin

text \<open>
  Chunks and logical lines (spec sections 3 and 4.3.1).  A chunk is the
  producer's unit: a string of one or more newline-terminated lines, the last
  possibly unterminated, with one operation.  The hunk builder works on logical
  lines; \<open>chunk_lines\<close> splits a chunk on newlines, drops the empty element a
  terminating newline leaves, and flags a non-empty unterminated last element
  with \<open>leof\<close> ("no newline at end of file").  The round trip
  \<open>chunk_lines_roundtrip\<close> shows that the split loses no byte of the chunk.
\<close>

datatype operation = Equal | Add | Delete

record chunk =
  content :: bytes
  ctype :: operation

record line =
  lop :: operation
  ltext :: bytes
  leof :: bool

text \<open>\<open>strings.Split(s, "\n")\<close>: the pieces between newlines, always at least one.\<close>

fun split_nl :: "bytes \<Rightarrow> bytes list" where
  "split_nl [] = [[]]"
| "split_nl (c # cs) =
     (if c = nl then [] # split_nl cs
      else (let r = split_nl cs in (c # hd r) # tl r))"

definition chunk_lines :: "chunk \<Rightarrow> line list" where
  "chunk_lines c =
     (let parts = split_nl (content c); rest = last parts in
      map (\<lambda>t. \<lparr>lop = ctype c, ltext = t, leof = False\<rparr>) (butlast parts) @
      (if rest = [] then [] else [\<lparr>lop = ctype c, ltext = rest, leof = True\<rparr>]))"

definition file_lines :: "chunk list \<Rightarrow> line list" where
  "file_lines cs = concat (map chunk_lines cs)"

text \<open>The bytes a logical line stood for in its chunk.\<close>

definition line_bytes :: "line \<Rightarrow> bytes" where
  "line_bytes l = ltext l @ (if leof l then [] else [nl])"

text \<open>Well-formed line lists: no text holds a newline, and only a non-empty last
  line may carry the end-of-file flag.\<close>

definition lines_wf :: "line list \<Rightarrow> bool" where
  "lines_wf ls \<longleftrightarrow>
     list_all (\<lambda>l. nl \<notin> set (ltext l)) ls \<and>
     list_all (\<lambda>l. \<not> leof l) (butlast ls) \<and>
     (ls \<noteq> [] \<longrightarrow> leof (last ls) \<longrightarrow> ltext (last ls) \<noteq> [])"

text \<open>The two file contents a chunk list describes: the old side is its Equal and
  Delete chunks, the new side its Equal and Add chunks (spec 3 and 7: the encoder
  trusts the producer that these are the two versions of the file).\<close>

definition old_side :: "chunk list \<Rightarrow> bytes" where
  "old_side cs = concat (map content (filter (\<lambda>c. ctype c \<noteq> Add) cs))"

definition new_side :: "chunk list \<Rightarrow> bytes" where
  "new_side cs = concat (map content (filter (\<lambda>c. ctype c \<noteq> Delete) cs))"

declare chunk_lines_def [model_defs] file_lines_def [model_defs]

subsection \<open>Splitting lemmas\<close>

lemma split_nl_nonempty [simp]: "split_nl s \<noteq> []"
  by (induction s) (auto simp: Let_def)

lemma split_nl_join: "join_with nl (split_nl s) = s"
proof (induction s)
  case Nil
  then show ?case by simp
next
  case (Cons c cs)
  show ?case
  proof (cases "c = nl")
    case True
    with Cons show ?thesis by simp
  next
    case False
    obtain r rs where r: "split_nl cs = r # rs"
      by (cases "split_nl cs") auto
    with Cons False show ?thesis by (cases rs) auto
  qed
qed

lemma split_nl_no_nl: "p \<in> set (split_nl s) \<Longrightarrow> nl \<notin> set p"
proof (induction s arbitrary: p)
  case (Cons c cs)
  obtain r rs where r: "split_nl cs = r # rs"
    by (cases "split_nl cs") auto
  with Cons show ?case by (auto simp: Let_def split: if_splits)
qed simp

lemma split_nl_chars: "p \<in> set (split_nl s) \<Longrightarrow> set p \<subseteq> set s"
proof (induction s arbitrary: p)
  case (Cons c cs)
  obtain r rs where r: "split_nl cs = r # rs"
    by (cases "split_nl cs") auto
  have "set r \<subseteq> set cs" "\<forall>q\<in>set rs. set q \<subseteq> set cs" using Cons.IH r by simp_all
  with Cons.prems r show ?case by (auto simp: Let_def split: if_splits)
qed simp

lemma split_nl_line: "nl \<notin> set t \<Longrightarrow> split_nl (t @ nl # rest) = t # split_nl rest"
  by (induction t) (auto simp: Let_def)

lemma split_nl_append_nl: "split_nl (xs @ nl # rest) = split_nl xs @ split_nl rest"
proof (induction xs)
  case (Cons c cs)
  obtain r rs where "split_nl cs = r # rs" by (cases "split_nl cs") auto
  with Cons show ?case by (simp add: Let_def)
qed simp

lemma split_nl_join_lines:
  "ls \<noteq> [] \<Longrightarrow> \<forall>l\<in>set ls. nl \<notin> set l \<Longrightarrow> split_nl (join_with nl ls @ nl # rest) = ls @ split_nl rest"
  by (induction nl ls rule: join_with.induct) (simp_all add: split_nl_line)

lemma concat_map_terminated:
  "concat (map (\<lambda>t. t @ [c]) xs) @ y = join_with c (xs @ [y])"
  by (induction xs rule: join_with.induct) auto

lemma map_line_bytes_chunk_lines:
  "map (line_bytes \<circ> (\<lambda>t. \<lparr>lop = opr, ltext = t, leof = False\<rparr>)) ts =
   map (\<lambda>t. t @ [nl]) ts"
  by (induction ts) (auto simp: line_bytes_def)

subsection \<open>Properties of the split\<close>

text \<open>Splitting a chunk into logical lines and writing each line back with its
  newline (none for the flagged last line) gives the chunk's content byte for byte.\<close>

theorem chunk_lines_roundtrip: "concat (map line_bytes (chunk_lines c)) = content c"
proof -
  let ?p = "split_nl (content c)"
  have p: "butlast ?p @ [last ?p] = ?p" by simp
  have "concat (map line_bytes (chunk_lines c)) =
        concat (map (\<lambda>t. t @ [nl]) (butlast ?p)) @ last ?p"
    by (simp add: chunk_lines_def Let_def map_line_bytes_chunk_lines line_bytes_def)
  also have "\<dots> = join_with nl ?p"
    by (metis concat_map_terminated p)
  also have "\<dots> = content c" by (rule split_nl_join)
  finally show ?thesis .
qed

text \<open>The lines of a chunk carry the chunk's operation, hold no newline, and only
  the last of them, when it is non-empty and unterminated, carries the flag.\<close>

theorem chunk_lines_wf:
  "lines_wf (chunk_lines c) \<and> list_all (\<lambda>l. lop l = ctype c) (chunk_lines c)"
proof -
  let ?p = "split_nl (content c)"
  have texts: "nl \<notin> set t" if "t \<in> set (butlast ?p) \<or> t = last ?p" for t
    using that split_nl_no_nl [of t "content c"] in_set_butlastD last_in_set
      split_nl_nonempty by metis
  show ?thesis
    using texts
    by (auto simp: lines_wf_def chunk_lines_def Let_def list_all_iff butlast_append last_map map_butlast [symmetric]
        dest: in_set_butlastD)
qed

lemma chunk_lines_Nil_iff: "chunk_lines c = [] \<longleftrightarrow> content c = []"
proof
  assume "chunk_lines c = []"
  then show "content c = []" using chunk_lines_roundtrip [of c] by simp
qed (simp add: chunk_lines_def)

text \<open>A chunk list has only Equal lines exactly when each of its chunks is an
  Equal chunk or has no content.\<close>

lemma file_lines_all_equal:
  "(\<forall>l\<in>set (file_lines cs). lop l = Equal) \<longleftrightarrow> (\<forall>c\<in>set cs. ctype c = Equal \<or> content c = [])"
proof -
  have ops: "\<forall>l\<in>set (chunk_lines c). lop l = ctype c" for c
    using chunk_lines_wf [of c] by (simp add: list_all_iff)
  have "(\<forall>l\<in>set (chunk_lines c). lop l = Equal) \<longleftrightarrow> ctype c = Equal \<or> content c = []" for c
  proof (cases "content c = []")
    case False
    then obtain l where "l \<in> set (chunk_lines c)" using chunk_lines_Nil_iff [of c]
      by (metis list.set_sel(1))
    then show ?thesis using ops [of c] False by auto
  qed (simp add: chunk_lines_def)
  then show ?thesis by (auto simp: file_lines_def)
qed


text \<open>Every line text is made of characters of its chunk and holds no newline.\<close>

lemma chunk_lines_chars: "l \<in> set (chunk_lines c) \<Longrightarrow> set (ltext l) \<subseteq> set (content c)"
proof -
  have "set (last (split_nl (content c))) \<subseteq> set (content c)"
    using split_nl_chars last_in_set split_nl_nonempty by blast
  then show "l \<in> set (chunk_lines c) \<Longrightarrow> set (ltext l) \<subseteq> set (content c)"
    unfolding chunk_lines_def Let_def by (auto split: if_splits dest!: in_set_butlastD split_nl_chars)
qed

lemma file_lines_chars: "l \<in> set (file_lines cs) \<Longrightarrow> \<exists>c\<in>set cs. set (ltext l) \<subseteq> set (content c)"
  by (auto simp: file_lines_def dest: chunk_lines_chars)

lemma file_lines_no_nl: "l \<in> set (file_lines cs) \<Longrightarrow> nl \<notin> set (ltext l)"
  using chunk_lines_wf by (fastforce simp: file_lines_def lines_wf_def list_all_iff)

end
