(* ===== verification/Hunks.thy ===== *)
theory Hunks
  imports Lines
begin

text \<open>
  The hunk builder (spec section 4.3.2), the algorithmic heart of the encoder.
  It walks the logical lines of one file patch with the state of the spec:
  the next old and new line numbers, the bounded pre-context window
  \<open>pre_ctx\<close> of at most \<open>k\<close> Equal lines with the last line evicted from it
  (the source of a hunk's function context, 4.3.4), the open hunk, the count
  \<open>esc\<close> of Equal lines appended since its last change, and the hunks already
  flushed.  \<open>step_line\<close> is one iteration of the walk, \<open>finish\<close> the
  end-of-stream flush, \<open>generate\<close> the whole walk.

  Reading of the close rule.  When the open hunk has received \<open>2k + 1\<close>
  Equal lines since its last change, it keeps the first \<open>k\<close> of them and the
  remaining \<open>k + 1\<close> ("the surplus") are pushed through the pre-context window,
  so that the window holds the last \<open>k\<close> of them and the one before them is the
  evicted line.  This is the reading under which the fixtures of the source's
  test file hold (theory \<open>Fixtures\<close>).

  The walk is also given as a transition relation \<open>gen_step\<close> on
  configurations, with the lemmas that it is deterministic, that the run
  from any state ends in the hunks \<open>finish\<close> computes after the fold, and
  that the starts of the hunks a state has flushed or holds open persist to
  the end of the walk (\<open>open_starts\<close>, for \<open>opened_hunks_emitted\<close>).
\<close>

record hunk =
  old_line :: nat
  new_line :: nat
  func_ctx :: "bytes option"
  ops :: "line list"

record hgen =
  old_ln :: nat
  new_ln :: nat
  pre_ctx :: "line list"
  evicted :: "line option"
  cur :: "hunk option"
  esc :: nat
  flushed :: "hunk list"

definition hgen_init :: hgen where
  "hgen_init = \<lparr>old_ln = 1, new_ln = 1, pre_ctx = [], evicted = None, cur = None,
                esc = 0, flushed = []\<rparr>"

text \<open>Push an Equal line onto the pre-context window, evicting the oldest line
  when the window exceeds \<open>k\<close> lines.\<close>

definition push_pre :: "nat \<Rightarrow> line \<Rightarrow> hgen \<Rightarrow> hgen" where
  "push_pre k l st =
     (let p = pre_ctx st @ [l] in
      if k < length p then st\<lparr>pre_ctx := tl p, evicted := Some (hd p)\<rparr>
      else st\<lparr>pre_ctx := p\<rparr>)"

text \<open>Advance the line numbers past a line: an Equal line advances both sides,
  a Delete line the old side, an Add line the new side.\<close>

definition advance :: "operation \<Rightarrow> hgen \<Rightarrow> hgen" where
  "advance opr st =
     st\<lparr>old_ln := (if opr = Add then old_ln st else Suc (old_ln st)),
       new_ln := (if opr = Delete then new_ln st else Suc (new_ln st))\<rparr>"

text \<open>A hunk opened at a change: it starts \<open>|pre_ctx|\<close> lines above the current
  line numbers, its leading context is the window, and its function context is
  the text of the last evicted line.\<close>

definition open_hunk :: "hgen \<Rightarrow> hunk" where
  "open_hunk st =
     \<lparr>old_line = old_ln st - length (pre_ctx st),
      new_line = new_ln st - length (pre_ctx st),
      func_ctx = map_option ltext (evicted st),
      ops = pre_ctx st\<rparr>"

text \<open>An Equal line arriving while a hunk is open.  With \<open>e\<close> Equal lines since
  the last change, once \<open>e > 2k\<close> the hunk is closed keeping \<open>k\<close> of them and
  the surplus goes to the window.\<close>

definition equal_in_hunk :: "nat \<Rightarrow> line \<Rightarrow> hunk \<Rightarrow> hgen \<Rightarrow> hgen" where
  "equal_in_hunk k l h st =
     (let h' = h\<lparr>ops := ops h @ [l]\<rparr>; e = Suc (esc st) in
      if 2 * k < e then
        (let n = length (ops h') - e + k in
         fold (push_pre k) (drop n (ops h'))
           (st\<lparr>flushed := flushed st @ [h'\<lparr>ops := take n (ops h')\<rparr>], cur := None, esc := 0\<rparr>))
      else st\<lparr>cur := Some h', esc := e\<rparr>)"

text \<open>A Delete or Add line: open a hunk if none is open (draining the window),
  append the line, reset the Equal count.\<close>

definition change_line :: "line \<Rightarrow> hgen \<Rightarrow> hgen" where
  "change_line l st =
     (case cur st of
        None \<Rightarrow> let h = open_hunk st in
                 st\<lparr>pre_ctx := [], cur := Some (h\<lparr>ops := ops h @ [l]\<rparr>), esc := 0\<rparr>
      | Some h \<Rightarrow> st\<lparr>cur := Some (h\<lparr>ops := ops h @ [l]\<rparr>), esc := 0\<rparr>)"

definition step_line :: "nat \<Rightarrow> hgen \<Rightarrow> line \<Rightarrow> hgen" where
  "step_line k st l =
     advance (lop l)
       (if lop l = Equal then
          (case cur st of None \<Rightarrow> push_pre k l st | Some h \<Rightarrow> equal_in_hunk k l h st)
        else change_line l st)"

text \<open>End of stream: trim the open hunk's trailing Equal lines to \<open>k\<close> and flush it.\<close>

definition finish :: "nat \<Rightarrow> hgen \<Rightarrow> hunk list" where
  "finish k st =
     (case cur st of
        None \<Rightarrow> flushed st
      | Some h \<Rightarrow> flushed st @ [h\<lparr>ops := take (length (ops h) - esc st + min k (esc st)) (ops h)\<rparr>])"

definition generate :: "nat \<Rightarrow> line list \<Rightarrow> hunk list" where
  "generate k ls = finish k (foldl (step_line k) hgen_init ls)"

definition hunks_of :: "nat \<Rightarrow> chunk list \<Rightarrow> hunk list" where
  "hunks_of k cs = generate k (file_lines cs)"

text \<open>Line counts of a hunk (spec 4.3.3).\<close>

definition old_count :: "hunk \<Rightarrow> nat" where
  "old_count h = length (filter (\<lambda>l. lop l \<noteq> Add) (ops h))"

definition new_count :: "hunk \<Rightarrow> nat" where
  "new_count h = length (filter (\<lambda>l. lop l \<noteq> Delete) (ops h))"

declare hgen_init_def [model_defs] push_pre_def [model_defs] advance_def [model_defs]
  open_hunk_def [model_defs] equal_in_hunk_def [model_defs] change_line_def [model_defs]
  step_line_def [model_defs] finish_def [model_defs] generate_def [model_defs]
  hunks_of_def [model_defs] old_count_def [model_defs] new_count_def [model_defs]


subsection \<open>The loop as a transition system\<close>

text \<open>The walk of \<open>Generate\<close> as a transition relation on configurations: a
  running configuration holds the builder's state and the lines still to
  come; a step consumes one line with \<open>step_line\<close>, and the end of the
  stream flushes with \<open>finish\<close> into the final configuration.\<close>

datatype gen_cfg = Running hgen "line list" | Done "hunk list"

inductive gen_step :: "nat \<Rightarrow> gen_cfg \<Rightarrow> gen_cfg \<Rightarrow> bool" where
  line: "gen_step k (Running st (l # ls)) (Running (step_line k st l) ls)"
| flush: "gen_step k (Running st []) (Done (finish k st))"

inductive_cases gen_step_DoneE [elim!]: "gen_step k (Done r) c"
inductive_cases gen_step_RunningE: "gen_step k (Running st ls) c"

text \<open>The starting line numbers of a hunk, and those of the hunks a state has
  flushed or holds open.\<close>

definition hstart :: "hunk \<Rightarrow> nat \<times> nat" where
  "hstart h = (old_line h, new_line h)"

definition open_starts :: "hgen \<Rightarrow> (nat \<times> nat) set" where
  "open_starts st = hstart ` (set (flushed st) \<union> set_option (cur st))"

lemma gen_run: "(gen_step k)\<^sup>*\<^sup>* (Running st ls) (Done (finish k (foldl (step_line k) st ls)))"
proof (induction ls arbitrary: st)
  case Nil
  show ?case using gen_step.flush [of k st] by (simp add: r_into_rtranclp)
next
  case (Cons l ls)
  then show ?case using gen_step.line [of k st l ls] by (simp add: converse_rtranclp_into_rtranclp)
qed

lemma gen_step_deterministic: "gen_step k c c1 \<Longrightarrow> gen_step k c c2 \<Longrightarrow> c1 = c2"
  by (induction rule: gen_step.induct) (auto elim: gen_step_RunningE)

lemma gen_run_confluent:
  assumes "(gen_step k)\<^sup>*\<^sup>* c0 c" "(gen_step k)\<^sup>*\<^sup>* c0 (Done r)"
  shows "(gen_step k)\<^sup>*\<^sup>* c (Done r)"
  using assms
proof (induction rule: converse_rtranclp_induct)
  case (step c0 c1)
  have "c0 \<noteq> Done r" using step.hyps(1) by auto
  then obtain c1' where c1': "gen_step k c0 c1'" "(gen_step k)\<^sup>*\<^sup>* c1' (Done r)"
    using step.prems by (auto elim: converse_rtranclpE)
  then have "c1' = c1" using gen_step_deterministic step.hyps(1) by blast
  then show ?case using step.IH c1'(2) by simp
qed simp


lemma fold_push_pre_keeps:
  "flushed (fold (push_pre k) xs st) = flushed st \<and> cur (fold (push_pre k) xs st) = cur st"
  by (induction xs arbitrary: st) (simp_all add: push_pre_def Let_def)

lemma step_open_starts: "open_starts st \<subseteq> open_starts (step_line k st l)"
proof (cases "lop l = Equal")
  case True
  show ?thesis
  proof (cases "cur st")
    case None
    with True show ?thesis
      by (simp add: step_line_def advance_def push_pre_def Let_def open_starts_def)
  next
    case (Some h)
    let ?h' = "h\<lparr>ops := ops h @ [l]\<rparr>"
    have "hstart (?h'\<lparr>ops := xs\<rparr>) = hstart h" "hstart ?h' = hstart h" for xs by (simp_all add: hstart_def)
    with True Some show ?thesis
      by (auto simp: step_line_def advance_def equal_in_hunk_def Let_def open_starts_def fold_push_pre_keeps)
  qed
next
  case False
  have "hstart (h\<lparr>ops := xs\<rparr>) = hstart h" for h xs by (simp add: hstart_def)
  with False show ?thesis
    by (auto simp: step_line_def advance_def change_line_def Let_def open_starts_def split: option.splits)
qed

lemma foldl_open_starts: "open_starts st \<subseteq> open_starts (foldl (step_line k) st ls)"
proof (induction ls arbitrary: st)
  case (Cons l ls)
  show ?case using step_open_starts [of st k l] Cons.IH [of "step_line k st l"] by simp
qed simp

lemma finish_open_starts: "open_starts st \<subseteq> hstart ` set (finish k st)"
proof -
  have "hstart (h\<lparr>ops := xs\<rparr>) = hstart h" for h xs by (simp add: hstart_def)
  then show ?thesis by (auto simp: open_starts_def finish_def split: option.splits)
qed

lemma gen_done_unique:
  "(gen_step k)\<^sup>*\<^sup>* c (Done r1) \<Longrightarrow> (gen_step k)\<^sup>*\<^sup>* c (Done r2) \<Longrightarrow> r1 = r2"
  using gen_run_confluent [of k c "Done r1" r2] by (auto elim: converse_rtranclpE)

lemma gen_run_prefix:
  "(gen_step k)\<^sup>*\<^sup>* (Running st (xs @ ys)) (Running (foldl (step_line k) st xs) ys)"
proof (induction xs arbitrary: st)
  case (Cons x xs)
  then show ?case using gen_step.line [of k st x "xs @ ys"] by (simp add: converse_rtranclp_into_rtranclp)
qed simp

end
