(* ===== verification/Format.thy ===== *)
theory Format
  imports Prelude
begin

text \<open>
  The number renderers the wire format uses (spec section 6.3): decimal line
  numbers in hunk headers (\<open>strconv.Itoa\<close>), file modes as six octal digits
  (\<open>%o\<close> of a \<open>filemode.FileMode\<close>, a \<open>uint32\<close>), and object ids as forty
  lowercase hexadecimal characters (\<open>plumbing.Hash.String\<close>, twenty bytes).
  Each renderer comes with a parser and a round-trip theorem, so that a rendered
  number or hash determines the value it was rendered from.
\<close>

subsection \<open>Digits\<close>

definition hex_digits :: bytes where
  "hex_digits = ''0123456789abcdef''"

definition digit_char :: "nat \<Rightarrow> char" where
  "digit_char d = (if d < 16 then hex_digits ! d else CHR ''?'')"

definition digit_val :: "char \<Rightarrow> nat option" where
  "digit_val c =
     (let n = of_char c :: nat in
      if 48 \<le> n \<and> n < 58 then Some (n - 48)
      else if 97 \<le> n \<and> n < 103 then Some (n - 87)
      else None)"

fun digits_in :: "nat \<Rightarrow> nat \<Rightarrow> bytes" where
  "digits_in b n =
     (if b < 2 \<or> n < b then [digit_char n]
      else digits_in b (n div b) @ [digit_char (n mod b)])"

declare digits_in.simps [simp del]

fun parse_digits :: "nat \<Rightarrow> nat \<Rightarrow> bytes \<Rightarrow> nat option" where
  "parse_digits b acc [] = Some acc"
| "parse_digits b acc (c # cs) =
     (case digit_val c of
        None \<Rightarrow> None
      | Some d \<Rightarrow> if d < b then parse_digits b (acc * b + d) cs else None)"

definition parse_nat_in :: "nat \<Rightarrow> bytes \<Rightarrow> nat option" where
  "parse_nat_in b s = (if s = [] then None else parse_digits b 0 s)"

subsection \<open>The renderers\<close>

text \<open>\<open>strconv.Itoa\<close> on the non-negative line numbers and counts of a hunk.\<close>

definition dec_string :: "nat \<Rightarrow> bytes" where
  "dec_string n = digits_in 10 n"

text \<open>A file mode in octal, at least six digits (spec 6.3: "modes are 6 octal digits").\<close>

definition mode_octal :: "32 word \<Rightarrow> bytes" where
  "mode_octal m =
     (let s = digits_in 8 (unat m) in replicate (6 - length s) (CHR ''0'') @ s)"

definition hex_byte :: "byte \<Rightarrow> bytes" where
  "hex_byte x = [digit_char (unat x div 16), digit_char (unat x mod 16)]"

definition hex_string :: "byte list \<Rightarrow> bytes" where
  "hex_string bs = concat (map hex_byte bs)"

fun hex_decode :: "bytes \<Rightarrow> byte list option" where
  "hex_decode [] = Some []"
| "hex_decode [c] = None"
| "hex_decode (c1 # c2 # cs) =
     (case (digit_val c1, digit_val c2) of
        (Some a, Some b) \<Rightarrow>
          if a < 16 \<and> b < 16 then map_option (\<lambda>r. word_of_nat (a * 16 + b) # r) (hex_decode cs)
          else None
      | _ \<Rightarrow> None)"

text \<open>The null object id, forty zeros when rendered.\<close>

definition zero_hash :: "byte list" where
  "zero_hash = replicate 20 0"

declare dec_string_def [model_defs] mode_octal_def [model_defs] digit_char_def [model_defs]
  hex_digits_def [model_defs]

subsection \<open>Digit lemmas\<close>

lemma digit_val_digit_char [simp]:
  assumes "d < 16"
  shows "digit_val (digit_char d) = Some d"
proof -
  have "list_all (\<lambda>d. digit_val (digit_char d) = Some d) [0..<16]"
    by code_simp
  with assms show ?thesis by (simp add: list_all_iff)
qed

lemma digits_in_nonempty [simp]: "digits_in b n \<noteq> []"
  by (subst digits_in.simps) simp

lemma parse_digits_append:
  "parse_digits b acc (xs @ ys) =
     (case parse_digits b acc xs of None \<Rightarrow> None | Some a \<Rightarrow> parse_digits b a ys)"
  by (induction b acc xs rule: parse_digits.induct) (auto split: option.splits)

lemma parse_digits_digits_in:
  assumes "2 \<le> b" "b \<le> 16"
  shows "parse_digits b acc (digits_in b n) = Some (acc * b ^ length (digits_in b n) + n)"
  using assms
proof (induction b n arbitrary: acc rule: digits_in.induct)
  case (1 b n)
  show ?case
  proof (cases "n < b")
    case True
    with "1.prems" show ?thesis by (simp add: digits_in.simps [of b n])
  next
    case False
    let ?L = "length (digits_in b (n div b))"
    have IH: "parse_digits b acc (digits_in b (n div b)) = Some (acc * b ^ ?L + n div b)"
      using "1.IH" False "1.prems" by simp
    have "n mod b < b" using "1.prems" by simp
    then have "n mod b < 16" using "1.prems"(2) by linarith
    with \<open>n mod b < b\<close> have last: "parse_digits b a [digit_char (n mod b)] = Some (a * b + n mod b)" for a
      by simp
    have "(acc * b ^ ?L + n div b) * b + n mod b = acc * b ^ Suc ?L + n"
      by (simp add: algebra_simps)
    with False "1.prems" IH last show ?thesis
      by (simp add: digits_in.simps [of b n] parse_digits_append)
  qed
qed

lemma parse_digits_leading_zeros:
  assumes "2 \<le> b"
  shows "parse_digits b 0 (replicate m (CHR ''0'') @ s) = parse_digits b 0 s"
proof -
  have "digit_val (CHR ''0'') = Some 0" by (simp add: digit_val_def)
  with assms show ?thesis by (induction m) auto
qed

lemma hex_byte_digits:
  "unat (x :: byte) div 16 < 16" "unat (x :: byte) mod 16 < 16"
proof -
  have "unat x < 256" using unsigned_less [of x] by simp
  then show "unat x div 16 < 16" by simp
qed simp

lemma word_of_hex_digits:
  "(word_of_nat (unat (x :: byte) div 16 * 16 + unat x mod 16) :: byte) = x"
  by (simp add: mult.commute)

lemma hex_string_zero_hash [model_defs]:
  "hex_string zero_hash = ''0000000000000000000000000000000000000000''"
  by code_simp

subsection \<open>Round trips and shape\<close>

lemma parse_nat_in_digits_in:
  "2 \<le> b \<Longrightarrow> b \<le> 16 \<Longrightarrow> parse_nat_in b (digits_in b n) = Some n"
  by (simp add: parse_nat_in_def parse_digits_digits_in)

text \<open>Decimal rendering of line numbers is injective: reading the digits back gives the number.\<close>

theorem dec_string_roundtrip: "parse_nat_in 10 (dec_string n) = Some n"
  by (simp add: dec_string_def parse_nat_in_digits_in)

lemma length_digits_in_less:
  assumes "2 \<le> b" "n < b ^ m"
  shows "length (digits_in b n) \<le> max 1 m"
  using assms
proof (induction b n arbitrary: m rule: digits_in.induct)
  case (1 b n)
  show ?case
  proof (cases "n < b")
    case True
    then show ?thesis using "1.prems" by (simp add: digits_in.simps [of b n])
  next
    case False
    with "1.prems" obtain m' where m: "m = Suc m'"
      by (cases m) auto
    with "1.prems" have lt: "n div b < b ^ m'"
      by (simp add: less_mult_imp_div_less mult.commute)
    have "0 < n div b" using False "1.prems" by (simp add: div_greater_zero_iff)
    with lt have "m' \<noteq> 0" by (cases m') auto
    have "length (digits_in b (n div b)) \<le> max 1 m'"
      using "1.IH" False "1.prems"(1) lt by simp
    with \<open>m' \<noteq> 0\<close> have "length (digits_in b (n div b)) \<le> m'"
      by simp
    with False "1.prems" m show ?thesis
      by (simp add: digits_in.simps [of b n])
  qed
qed

text \<open>The octal mode field reads back as the mode, and a mode below \<open>8^6\<close> (every
  git file mode: 100644, 100755, 120000, 160000, 040000) is exactly six digits.\<close>

theorem mode_octal_roundtrip:
  "parse_nat_in 8 (mode_octal m) = Some (unat m) \<and>
   (unat m < 8 ^ 6 \<longrightarrow> length (mode_octal m) = 6)"
proof
  show "parse_nat_in 8 (mode_octal m) = Some (unat m)"
    by (simp add: mode_octal_def Let_def parse_nat_in_def parse_digits_leading_zeros
        parse_digits_digits_in)
  show "unat m < 8 ^ 6 \<longrightarrow> length (mode_octal m) = 6"
    using length_digits_in_less [of 8 "unat m" 6] by (simp add: mode_octal_def Let_def)
qed

lemma hex_decode_hex_string: "hex_decode (hex_string bs) = Some bs"
proof (induction bs)
  case Nil
  then show ?case by (simp add: hex_string_def)
next
  case (Cons x bs)
  then show ?case
    by (simp add: hex_string_def hex_byte_def hex_byte_digits word_of_hex_digits)
qed

lemma length_hex_string [simp]: "length (hex_string bs) = 2 * length bs"
  by (induction bs) (auto simp: hex_string_def hex_byte_def)

lemma hex_string_inj:
  "hex_string a = hex_string b \<Longrightarrow> a = b"
  by (metis hex_decode_hex_string option.inject)

lemma digit_char_hex_alphabet:
  "d < 16 \<Longrightarrow> digit_char d \<in> set hex_digits"
proof -
  have "length hex_digits = 16" by (simp add: hex_digits_def)
  moreover assume "d < 16"
  ultimately show ?thesis using nth_mem [of d hex_digits] by (simp add: digit_char_def)
qed

lemma hex_byte_alphabet: "set (hex_byte x) \<subseteq> set hex_digits"
proof -
  have "digit_char (unat x div 16) \<in> set hex_digits"
    "digit_char (unat x mod 16) \<in> set hex_digits"
    using hex_byte_digits [of x] by (simp_all only: digit_char_hex_alphabet)
  then show ?thesis by (simp add: hex_byte_def)
qed

text \<open>An object id of twenty bytes renders as forty lowercase hexadecimal
  characters that decode back to it (spec 6.3).\<close>

theorem hex_string_roundtrip:
  "hex_decode (hex_string bs) = Some bs \<and>
   (length bs = 20 \<longrightarrow> length (hex_string bs) = 40) \<and>
   set (hex_string bs) \<subseteq> set hex_digits"
proof (intro conjI)
  show "set (hex_string bs) \<subseteq> set hex_digits"
    using hex_byte_alphabet by (fastforce simp: hex_string_def simp del: set_simps)
qed (simp_all add: hex_decode_hex_string)


subsection \<open>The alphabet of rendered numbers\<close>

text \<open>Rendered numbers are made of digits (and \<open>?\<close> for an out-of-range digit), so
  they hold none of the separators and control characters of the format.\<close>

lemma format_chars_not_digits:
  "nl \<notin> set hex_digits" "esc_char \<notin> set hex_digits" "CHR '' '' \<notin> set hex_digits"
  "CHR '','' \<notin> set hex_digits" "CHR ''0'' \<in> set hex_digits"
  by (simp_all add: hex_digits_def)

lemma digit_char_plain: "digit_char d \<in> set hex_digits \<union> {CHR ''?''}"
proof (cases "d < 16")
  case True
  then show ?thesis using digit_char_hex_alphabet by blast
next
  case False
  then show ?thesis by (simp add: digit_char_def)
qed

lemma digits_in_plain: "set (digits_in b n) \<subseteq> set hex_digits \<union> {CHR ''?''}"
proof (induction b n rule: digits_in.induct)
  case (1 b n)
  then show ?case using digit_char_plain by (subst digits_in.simps) auto
qed

lemma numbers_avoid:
  assumes "c \<notin> set hex_digits" "c \<noteq> CHR ''?''"
  shows "c \<notin> set (dec_string n)" "c \<notin> set (mode_octal m)" "c \<notin> set (hex_string bs)"
proof -
  have d: "c \<notin> set (digits_in b x)" for b x using digits_in_plain assms by blast
  then show "c \<notin> set (dec_string n)" by (simp add: dec_string_def)
  show "c \<notin> set (mode_octal m)"
    using d assms(1) format_chars_not_digits(5) by (auto simp: mode_octal_def Let_def)
  show "c \<notin> set (hex_string bs)"
    using hex_byte_alphabet assms(1) by (fastforce simp: hex_string_def)
qed

end
