(* ===== verification/Render.thy ===== *)
theory Render
  imports Hunks Format
begin

text \<open>
  The line writer and colour framer (spec section 4.4 and 4.3.3, 4.3.5).  A
  colour configuration maps each of the six semantic roles to an escape
  sequence; a role bound to the empty string is uncoloured, and its reset is
  empty too.  \<open>write_line\<close> writes a context, deleted or added line with its
  prefix and, for a line flagged \<open>leof\<close>, the "no newline" marker line;
  \<open>hunk_header\<close> writes the \<open>@@\<close> line with the count rules of 4.3.3 and the
  function context; \<open>write_hunk\<close> writes a whole hunk.
\<close>

datatype role = Meta | Frag | Old | New | Context | Func

type_synonym color_config = "role \<Rightarrow> bytes"

text \<open>Select Graphic Rendition escapes of \<open>plumbing/color\<close>.\<close>

definition sgr :: "bytes \<Rightarrow> bytes" where
  "sgr code = esc_char # CHR ''['' # code @ ''m''"

definition reset_seq :: bytes where
  "reset_seq = sgr []"

definition color_Bold :: bytes where "color_Bold = sgr ''1''"
definition color_Reverse :: bytes where "color_Reverse = sgr ''7''"
definition color_Red :: bytes where "color_Red = sgr ''31''"
definition color_Green :: bytes where "color_Green = sgr ''32''"
definition color_Cyan :: bytes where "color_Cyan = sgr ''36''"

definition no_color :: color_config where
  "no_color = (\<lambda>_. [])"

definition color_reset :: "color_config \<Rightarrow> role \<Rightarrow> bytes" where
  "color_reset cfg r = (if cfg r = [] then [] else reset_seq)"

text \<open>\<open>NewColorConfig(opts...)\<close>: the defaults of spec 6.2, then each option in
  order; \<open>WithColor(r, c)\<close> is the option binding role \<open>r\<close> to \<open>c\<close>.\<close>

definition default_color :: color_config where
  "default_color r =
     (case r of Meta \<Rightarrow> color_Bold | Frag \<Rightarrow> color_Cyan | Old \<Rightarrow> color_Red
      | New \<Rightarrow> color_Green | Context \<Rightarrow> [] | Func \<Rightarrow> [])"

definition WithColor :: "role \<Rightarrow> bytes \<Rightarrow> color_config \<Rightarrow> color_config" where
  "WithColor r c cfg = cfg(r := c)"

definition NewColorConfig :: "(color_config \<Rightarrow> color_config) list \<Rightarrow> color_config" where
  "NewColorConfig opts = fold (\<lambda>opt cfg. opt cfg) opts default_color"

subsection \<open>Lines and hunks\<close>

definition op_prefix :: "operation \<Rightarrow> char" where
  "op_prefix opr = (case opr of Equal \<Rightarrow> CHR '' '' | Delete \<Rightarrow> CHR ''-'' | Add \<Rightarrow> CHR ''+'')"

definition op_role :: "operation \<Rightarrow> role" where
  "op_role opr = (case opr of Equal \<Rightarrow> Context | Delete \<Rightarrow> Old | Add \<Rightarrow> New)"

definition no_newline_marker :: bytes where
  "no_newline_marker = backslash # '' No newline at end of file'' @ [nl]"

definition write_line :: "color_config \<Rightarrow> line \<Rightarrow> bytes" where
  "write_line cfg l =
     (let r = op_role (lop l) in
      cfg r @ op_prefix (lop l) # ltext l @ color_reset cfg r @ [nl] @
      (if leof l then no_newline_marker else []))"

text \<open>One side of the \<open>@@\<close> header: \<open>,1\<close> omitted, an empty side written as the
  line before it with count 0.\<close>

definition range_string :: "nat \<Rightarrow> nat \<Rightarrow> bytes" where
  "range_string ln cnt =
     (if cnt = 1 then dec_string ln
      else if cnt = 0 then dec_string (ln - 1) @ '',0''
      else dec_string ln @ CHR '','' # dec_string cnt)"

definition hunk_header :: "color_config \<Rightarrow> hunk \<Rightarrow> bytes" where
  "hunk_header cfg h =
     cfg Frag @ ''@@ -'' @ range_string (old_line h) (old_count h) @
     '' +'' @ range_string (new_line h) (new_count h) @ '' @@'' @ color_reset cfg Frag @
     (case func_ctx h of
        None \<Rightarrow> []
      | Some f \<Rightarrow> if f = [] then [] else CHR '' '' # cfg Func @ f @ color_reset cfg Func) @
     [nl]"

definition write_hunk :: "color_config \<Rightarrow> hunk \<Rightarrow> bytes" where
  "write_hunk cfg h = hunk_header cfg h @ concat (map (write_line cfg) (ops h))"

declare sgr_def [model_defs] reset_seq_def [model_defs] color_Bold_def [model_defs]
  color_Reverse_def [model_defs] color_Red_def [model_defs] color_Green_def [model_defs]
  color_Cyan_def [model_defs] no_color_def [model_defs] color_reset_def [model_defs]
  default_color_def [model_defs] WithColor_def [model_defs] NewColorConfig_def [model_defs]
  op_prefix_def [model_defs] op_role_def [model_defs] no_newline_marker_def [model_defs]
  write_line_def [model_defs] range_string_def [model_defs] hunk_header_def [model_defs]
  write_hunk_def [model_defs]


lemma op_prefix_plain: "op_prefix opr \<noteq> nl \<and> op_prefix opr \<noteq> esc_char"
  by (cases opr) (simp_all add: op_prefix_def)

lemma range_string_avoids:
  "c \<notin> set hex_digits \<Longrightarrow> c \<noteq> CHR ''?'' \<Longrightarrow> c \<noteq> CHR '','' \<Longrightarrow> c \<notin> set (range_string ln cnt)"
  using numbers_avoid(1) format_chars_not_digits(5) by (auto simp: range_string_def)

end
