(* ===== verification/Header.thy ===== *)
theory Header
  imports Render
begin

text \<open>
  The file-header emitter (spec section 4.2).  A file patch names its two sides,
  each an optional file with a path, a mode and an object id.  \<open>header_lines\<close>
  lists, in the order of 4.2, the lines that apply to the patch: the
  \<open>diff --git\<close> line, mode change, deletion or creation, rename, \<open>index\<close>, and
  either the \<open>---\<close>/\<open>+++\<close> markers or the binary sentinel.  Whether content
  changed is read from the object ids, the only attribute that tells a pure
  mode change or rename from an edit of a binary file (both have no chunks).
  \<open>render_header\<close> writes the block with the Meta colour around it.
\<close>

record diff_file =
  path :: bytes
  mode :: "32 word"
  hash :: "byte list"

record file_patch =
  from_file :: "diff_file option"
  to_file :: "diff_file option"
  is_binary :: bool
  chunks :: "chunk list"

text \<open>Either the binary sentinel or the two marker lines.\<close>

definition path_lines :: "bytes \<Rightarrow> bytes \<Rightarrow> bytes \<Rightarrow> bytes \<Rightarrow> bool \<Rightarrow> bytes list" where
  "path_lines from_label to_label src_marker dst_marker bin =
     (if bin then [''Binary files '' @ from_label @ '' and '' @ to_label @ '' differ'']
      else [''--- '' @ src_marker, ''+++ '' @ dst_marker])"

definition diff_git_line :: "bytes \<Rightarrow> bytes \<Rightarrow> bytes" where
  "diff_git_line from_label to_label = ''diff --git '' @ from_label @ CHR '' '' # to_label"

definition index_line :: "byte list \<Rightarrow> byte list \<Rightarrow> bytes" where
  "index_line h1 h2 = ''index '' @ hex_string h1 @ ''..'' @ hex_string h2"

definition header_lines :: "bytes \<Rightarrow> bytes \<Rightarrow> file_patch \<Rightarrow> bytes list" where
  "header_lines src dst fp =
     (case (from_file fp, to_file fp) of
        (None, None) \<Rightarrow> []
      | (Some f, Some t) \<Rightarrow>
          [diff_git_line (src @ path f) (dst @ path t)] @
          (if mode f \<noteq> mode t
           then [''old mode '' @ mode_octal (mode f), ''new mode '' @ mode_octal (mode t)] else []) @
          (if path f \<noteq> path t
           then [''rename from '' @ path f, ''rename to '' @ path t] else []) @
          (if hash f \<noteq> hash t
           then [index_line (hash f) (hash t) @
                   (if mode f = mode t then CHR '' '' # mode_octal (mode f) else [])] @
                path_lines (src @ path f) (dst @ path t) (src @ path f) (dst @ path t) (is_binary fp)
           else [])
      | (None, Some t) \<Rightarrow>
          [diff_git_line (src @ path t) (dst @ path t),
           ''new file mode '' @ mode_octal (mode t),
           index_line zero_hash (hash t)] @
          path_lines (src @ path t) (dst @ path t) ''/dev/null'' (dst @ path t) (is_binary fp)
      | (Some f, None) \<Rightarrow>
          [diff_git_line (src @ path f) (dst @ path f),
           ''deleted file mode '' @ mode_octal (mode f),
           index_line (hash f) zero_hash] @
          path_lines (src @ path f) (dst @ path f) (src @ path f) ''/dev/null'' (is_binary fp))"

definition render_header :: "color_config \<Rightarrow> bytes list \<Rightarrow> bytes" where
  "render_header cfg ls =
     (if ls = [] then [] else cfg Meta @ join_with nl ls @ color_reset cfg Meta @ [nl])"

declare path_lines_def [model_defs] diff_git_line_def [model_defs] index_line_def [model_defs]
  header_lines_def [model_defs] render_header_def [model_defs]

end
