(* ===== verification/Encoder.thy ===== *)
theory Encoder
  imports Header
begin

text \<open>
  The patch driver (spec section 4.1) and the sink (sections 5, 6.1, 7).  The
  encoder is its configuration: context size, colours, source and destination
  prefixes, set by \<open>NewUnifiedEncoder\<close> and the builder-style setters.
  \<open>encode_writes\<close> is the sequence of writes \<open>Encode\<close> makes: the message (with
  a newline appended when it lacks one), then per file patch its header block
  and its hunks.  A sink is a write capability over a state of type \<open>'s\<close>
  that either accepts the bytes or fails with an error of type \<open>'e\<close>;
  \<open>write_all\<close> stops at the first failure, as \<open>Encode\<close> does, and returns the
  error with the sink's state at that point.
\<close>

record encoder =
  context_lines :: nat
  color :: color_config
  src_prefix :: bytes
  dst_prefix :: bytes

definition NewUnifiedEncoder :: "nat \<Rightarrow> encoder" where
  "NewUnifiedEncoder k = \<lparr>context_lines = k, color = no_color, src_prefix = ''a/'', dst_prefix = ''b/''\<rparr>"

definition SetColor :: "color_config \<Rightarrow> encoder \<Rightarrow> encoder" where
  "SetColor c e = e\<lparr>color := c\<rparr>"

definition SetSrcPrefix :: "bytes \<Rightarrow> encoder \<Rightarrow> encoder" where
  "SetSrcPrefix p e = e\<lparr>src_prefix := p\<rparr>"

definition SetDstPrefix :: "bytes \<Rightarrow> encoder \<Rightarrow> encoder" where
  "SetDstPrefix p e = e\<lparr>dst_prefix := p\<rparr>"

record patch =
  message :: bytes
  file_patches :: "file_patch list"

definition message_bytes :: "bytes \<Rightarrow> bytes" where
  "message_bytes m = (if last m = nl then m else m @ [nl])"

definition file_patch_writes :: "encoder \<Rightarrow> file_patch \<Rightarrow> bytes list" where
  "file_patch_writes e fp =
     (if from_file fp = None \<and> to_file fp = None then []
      else render_header (color e) (header_lines (src_prefix e) (dst_prefix e) fp) #
           map (write_hunk (color e)) (hunks_of (context_lines e) (chunks fp)))"

definition encode_writes :: "encoder \<Rightarrow> patch \<Rightarrow> bytes list" where
  "encode_writes e p =
     (if message p = [] then [] else [message_bytes (message p)]) @
     concat (map (file_patch_writes e) (file_patches p))"

definition encoded :: "encoder \<Rightarrow> patch \<Rightarrow> bytes" where
  "encoded e p = concat (encode_writes e p)"

subsection \<open>Sinks\<close>

type_synonym ('s, 'e) sink = "'s \<Rightarrow> bytes \<Rightarrow> ('e \<times> 's) + 's"

fun write_all :: "('s, 'e) sink \<Rightarrow> 's \<Rightarrow> bytes list \<Rightarrow> ('e \<times> 's) + 's" where
  "write_all w s [] = Inr s"
| "write_all w s (x # xs) = (case w s x of Inl r \<Rightarrow> Inl r | Inr s' \<Rightarrow> write_all w s' xs)"

definition Encode :: "encoder \<Rightarrow> ('s, 'e) sink \<Rightarrow> 's \<Rightarrow> patch \<Rightarrow> ('e \<times> 's) + 's" where
  "Encode e w s p = write_all w s (encode_writes e p)"

text \<open>\<open>bytes.Buffer\<close>: a sink that never fails and appends.\<close>

definition buffer_write :: "(bytes, unit) sink" where
  "buffer_write b x = Inr (b @ x)"

text \<open>A sink of bounded capacity: a write that would take the content past \<open>n\<close>
  bytes fails and leaves the content as it was.\<close>

definition cap_write :: "nat \<Rightarrow> (bytes, unit) sink" where
  "cap_write n b x = (if length (b @ x) \<le> n then Inr (b @ x) else Inl ((), b))"

declare NewUnifiedEncoder_def [model_defs] SetColor_def [model_defs] SetSrcPrefix_def [model_defs]
  SetDstPrefix_def [model_defs] message_bytes_def [model_defs] file_patch_writes_def [model_defs]
  encode_writes_def [model_defs] encoded_def [model_defs] Encode_def [model_defs]
  buffer_write_def [model_defs]

text \<open>Writing through a bounded sink: either everything fits and the content is all
  the writes, or a write fails, the content is a prefix of all the writes and
  all the writes exceed the capacity.\<close>

lemma write_all_cap:
  "length s \<le> n \<Longrightarrow>
   (case write_all (cap_write n) s xs of
      Inr s' \<Rightarrow> s' = s @ concat xs \<and> length s' \<le> n
    | Inl (_, s') \<Rightarrow> prefix s' (s @ concat xs) \<and> n < length (s @ concat xs))"
proof (induction xs arbitrary: s)
  case Nil
  then show ?case by simp
next
  case (Cons x xs)
  show ?case
  proof (cases "length (s @ x) \<le> n")
    case True
    then show ?thesis using Cons.IH [of "s @ x"] by (simp add: cap_write_def split: sum.splits prod.splits)
  next
    case False
    then show ?thesis by (simp add: cap_write_def)
  qed
qed

end
