(* ===== verification/Producer.thy ===== *)
theory Producer
  imports Encoder
begin

text \<open>
  The in-memory producer of patches of the test file
  (\<open>unified_encoder_test.go\<close>, lines 1000 to 1077): the structs \<open>testPatch\<close>,
  \<open>testFilePatch\<close>, \<open>testFile\<close> and \<open>testChunk\<close> and their methods, which
  implement the interface the encoder consumes (spec 6.1).  Each Go method is a
  definition named \<open><type>_<method>\<close>; \<open>testPatch_Patch\<close> and the other
  \<open>..._Patch\<close>, \<open>..._FilePatch\<close>, \<open>..._File\<close>, \<open>..._Chunk\<close> views collect
  the methods into the encoder's record types.  A test file's object id is
  \<open>plumbing.ComputeHash(BlobObject, seed)\<close>, a SHA-1 that is not modelled: the
  hasher is a parameter \<open>H\<close> of type \<open>blob_hasher\<close>.
\<close>

text \<open>File modes of \<open>plumbing/filemode\<close>: octal 100644 and 100755.\<close>

definition filemode_Regular :: "32 word" where
  "filemode_Regular = 0x81A4"

definition filemode_Executable :: "32 word" where
  "filemode_Executable = 0x81ED"

record testFile =
  tf_path :: bytes
  tf_mode :: "32 word"
  tf_seed :: bytes

record testChunk =
  tc_content :: bytes
  tc_op :: operation

record testFilePatch =
  tfp_from :: "testFile option"
  tfp_to :: "testFile option"
  tfp_chunks :: "testChunk list"

record testPatch =
  tp_message :: bytes
  tp_filePatches :: "testFilePatch list"

type_synonym blob_hasher = "bytes \<Rightarrow> byte list"

definition testFile_Hash :: "blob_hasher \<Rightarrow> testFile \<Rightarrow> byte list" where
  "testFile_Hash H t = H (tf_seed t)"

definition testFile_Mode :: "testFile \<Rightarrow> 32 word" where
  "testFile_Mode t = tf_mode t"

definition testFile_Path :: "testFile \<Rightarrow> bytes" where
  "testFile_Path t = tf_path t"

text \<open>A \<open>*testFile\<close> seen through the \<open>File\<close> interface.\<close>

definition testFile_File :: "blob_hasher \<Rightarrow> testFile \<Rightarrow> diff_file" where
  "testFile_File H t = \<lparr>path = testFile_Path t, mode = testFile_Mode t, hash = testFile_Hash H t\<rparr>"

definition testChunk_Content :: "testChunk \<Rightarrow> bytes" where
  "testChunk_Content t = tc_content t"

definition testChunk_Type :: "testChunk \<Rightarrow> operation" where
  "testChunk_Type t = tc_op t"

definition testChunk_Chunk :: "testChunk \<Rightarrow> chunk" where
  "testChunk_Chunk t = \<lparr>content = testChunk_Content t, ctype = testChunk_Type t\<rparr>"

definition testFilePatch_IsBinary :: "testFilePatch \<Rightarrow> bool" where
  "testFilePatch_IsBinary t = (tfp_chunks t = [])"

text \<open>A Go interface value: \<open>nil\<close>, or a value of a dynamic type, here a
  pointer that may itself be \<open>nil\<close> (a "typed nil", which is not equal to
  \<open>nil\<close> in an interface comparison).\<close>

datatype 'a go_iface = NilIface | Boxed "'a option"

text \<open>\<open>Files()\<close> (lines 1026 to 1038): the switch returns an untyped \<open>nil\<close>
  for each nil \<open>*testFile\<close> and the pointer itself otherwise; the last
  \<open>return t.from, t.to\<close> converts both pointers to \<open>File\<close> values.\<close>

definition testFilePatch_Files :: "testFilePatch \<Rightarrow> testFile go_iface \<times> testFile go_iface" where
  "testFilePatch_Files t =
     (if tfp_from t = None \<and> tfp_to t = None then (NilIface, NilIface)
      else if tfp_from t = None then (NilIface, Boxed (tfp_to t))
      else if tfp_to t = None then (Boxed (tfp_from t), NilIface)
      else (Boxed (tfp_from t), Boxed (tfp_to t)))"

text \<open>What a caller of the \<open>File\<close> methods reads from such a value: \<open>nil\<close> is an
  absent side; a \<open>*testFile\<close> answers \<open>Path\<close>, \<open>Mode\<close> and \<open>Hash\<close> through
  their value receivers (lines 1054 to 1064), which dereference the pointer,
  so a typed nil panics (\<open>Inl\<close>).\<close>

definition file_side :: "blob_hasher \<Rightarrow> testFile go_iface \<Rightarrow> unit + diff_file option" where
  "file_side H v =
     (case v of
        NilIface \<Rightarrow> Inr None
      | Boxed None \<Rightarrow> Inl ()
      | Boxed (Some f) \<Rightarrow> Inr (Some (testFile_File H f)))"

text \<open>The side as the encoder's record holds it; a panic, which
  \<open>Files_no_typed_nil\<close> shows never happens, would leave it absent.\<close>

definition side_file :: "blob_hasher \<Rightarrow> testFile go_iface \<Rightarrow> diff_file option" where
  "side_file H v = (case file_side H v of Inl _ \<Rightarrow> None | Inr x \<Rightarrow> x)"

definition testFilePatch_Chunks :: "testFilePatch \<Rightarrow> chunk list" where
  "testFilePatch_Chunks t = map testChunk_Chunk (tfp_chunks t)"

definition testFilePatch_FilePatch :: "blob_hasher \<Rightarrow> testFilePatch \<Rightarrow> file_patch" where
  "testFilePatch_FilePatch H t =
     \<lparr>from_file = side_file H (fst (testFilePatch_Files t)), to_file = side_file H (snd (testFilePatch_Files t)),
      is_binary = testFilePatch_IsBinary t, chunks = testFilePatch_Chunks t\<rparr>"

definition testPatch_FilePatches :: "blob_hasher \<Rightarrow> testPatch \<Rightarrow> file_patch list" where
  "testPatch_FilePatches H t = map (testFilePatch_FilePatch H) (tp_filePatches t)"

definition testPatch_Message :: "testPatch \<Rightarrow> bytes" where
  "testPatch_Message t = tp_message t"

definition testPatch_Patch :: "blob_hasher \<Rightarrow> testPatch \<Rightarrow> patch" where
  "testPatch_Patch H t = \<lparr>message = testPatch_Message t, file_patches = testPatch_FilePatches H t\<rparr>"

text \<open>A hasher used to instantiate the producer's theorems: each character as its
  code.\<close>

definition char_bytes :: blob_hasher where
  "char_bytes s = map (\<lambda>c. word_of_nat (of_char c)) s"

lemmas test_producer_defs = filemode_Regular_def filemode_Executable_def testFile_Hash_def
  testFile_Mode_def testFile_Path_def testFile_File_def testChunk_Content_def testChunk_Type_def
  testChunk_Chunk_def testFilePatch_IsBinary_def testFilePatch_Files_def file_side_def side_file_def testFilePatch_Chunks_def
  testFilePatch_FilePatch_def testPatch_FilePatches_def testPatch_Message_def testPatch_Patch_def

lemma side_file_Files:
  "side_file H (fst (testFilePatch_Files t)) = map_option (testFile_File H) (tfp_from t) \<and>
   side_file H (snd (testFilePatch_Files t)) = map_option (testFile_File H) (tfp_to t)"
  by (simp add: testFilePatch_Files_def side_file_def file_side_def split: option.splits)

subsection \<open>Properties of the producer\<close>

text \<open>C4: \<open>Files()\<close> never hands the encoder a typed nil: reading either side
  through the \<open>File\<close> methods never panics and gives the side's file, or an
  absent side where the pointer is nil.  The switch is what makes this so:
  the plain \<open>return t.from, t.to\<close> would box a nil pointer, and reading it
  panics exactly for the file patches with an absent side (creations,
  deletions, and the empty file patch of \<open>TestBothFilesEmpty\<close>).\<close>

theorem Files_no_typed_nil:
  "file_side H (fst (testFilePatch_Files t)) = Inr (map_option (testFile_File H) (tfp_from t)) \<and>
   file_side H (snd (testFilePatch_Files t)) = Inr (map_option (testFile_File H) (tfp_to t)) \<and>
   ((\<exists>e. file_side H (Boxed (tfp_from t)) = Inl e \<or> file_side H (Boxed (tfp_to t)) = Inl e) \<longleftrightarrow>
      tfp_from t = None \<or> tfp_to t = None)"
  by (simp add: testFilePatch_Files_def file_side_def split: option.splits)

end
