(* ===== verification/Fixtures.thy ===== *)
theory Fixtures
  imports Producer
begin

text \<open>
  The test suite of the encoder (\<open>unified_encoder_test.go\<close>), translated: the
  twenty-six fixtures pairing a patch of the producer (theory \<open>Producer\<close>), a
  context size and a colour configuration with the exact bytes the encoder
  must write, and the four tests.  The fixture theorems hold for every hasher
  \<open>H\<close> that agrees with git on the fourteen seeds the fixtures use
  (\<open>blob_ids_ok\<close>, the table \<open>known_blob_ids\<close> of ids printed in the
  fixtures' expected output).
\<close>

record fixture =
  fx_desc :: bytes
  fx_context :: nat
  fx_color :: color_config
  fx_diff :: bytes
  fx_patch :: testPatch

subsection \<open>Object ids of the fixture seeds\<close>

definition known_blob_ids :: "(bytes \<times> bytes) list" where
  "known_blob_ids = [
    (''hello\<newline>world\<newline>'', ''94954abda49de8615a048f8d2e64b5de848e27a1''),
    (''hello\<newline>bug\<newline>'', ''f3dad9514629b9ff9136283ae331ad1fc95748a8''),
    (''test\<newline>'', ''9daeafb9864cf43055ae93beb0afd6c7d144bfa4''),
    (''test1\<newline>'', ''a5bce3fd2565d8f458555a0c6f42d0504a848bd5''),
    (''test2\<newline>'', ''180cf8328022becee9aaa2577a8f84ea2b9f3827''),
    (''test'', ''30d74d258442c7c65512eafab474568dd706c430''),
    (''test2'', ''d606037cb232bfda7788a8322492312d55b2ae9d''),
    (''test\<newline>test2\<newline>test3'', ''3ceaab5442b64a0c2b33dd25fae67ccdb4fd1ea8''),
    (''something'', ''a459bc245bdbc45e1bca99e7fe61731da5c48da4''),
    (''otherthing'', ''6879395eacf3cc7e5634064ccb617ac7aa62be7d''),
    (''A\<newline>B\<newline>C\<newline>D\<newline>E\<newline>F\<newline>G\<newline>H\<newline>I\<newline>J\<newline>K\<newline>L\<newline>M\<newline>N\<newline>'' @ [CHR 0xC3, CHR 0x91] @
       ''\<newline>O\<newline>P\<newline>Q\<newline>R\<newline>S\<newline>T\<newline>U\<newline>V\<newline>W\<newline>X\<newline>Y\<newline>Z'', ''ab5eed5d4a2c33aeef67e0188ee79bed666bde6f''),
    (''B\<newline>C\<newline>D\<newline>E\<newline>F\<newline>G\<newline>I\<newline>J\<newline>K\<newline>L\<newline>M\<newline>N\<newline>O\<newline>P\<newline>Q\<newline>R\<newline>S\<newline>T\<newline>V\<newline>W\<newline>X\<newline>Y\<newline>Z'',
       ''0adddcde4fd38042c354518351820eb06c417c82''),
    (''B\<newline>C\<newline>D\<newline>E\<newline>F\<newline>G\<newline>I\<newline>J\<newline>K\<newline>L\<newline>M\<newline>N\<newline>O\<newline>P\<newline>Q\<newline>R\<newline>S\<newline>T\<newline>V\<newline>W\<newline>X\<newline>Y\<newline>'',
       ''553ae669c7a9303cf848fcc749a2569228ac5309''),
    (''B\<newline>C\<newline>D\<newline>E\<newline>F\<newline>G\<newline>I\<newline>J\<newline>K\<newline>L\<newline>M\<newline>N\<newline>O\<newline>P\<newline>Q\<newline>R\<newline>S\<newline>T\<newline>V\<newline>W\<newline>X\<newline>Y'',
       ''d39ae38aad7ba9447b5e7998b2e4714f26c9218d'')]"

definition blob_ids_ok :: "blob_hasher \<Rightarrow> bool" where
  "blob_ids_ok H \<longleftrightarrow> list_all (\<lambda>(s, x). hex_string (H s) = x) known_blob_ids"

text \<open>A hasher meeting the table: the table itself, read back through \<open>hex_decode\<close>.\<close>

definition table_hasher :: blob_hasher where
  "table_hasher s =
     (case map_of known_blob_ids s of
        Some x \<Rightarrow> (case hex_decode x of Some b \<Rightarrow> b | None \<Rightarrow> zero_hash)
      | None \<Rightarrow> zero_hash)"


subsection \<open>The fixtures\<close>

definition oneChunkPatch :: testPatch where
  "oneChunkPatch =
     \<lparr>tp_message = '''',
      tp_filePatches = [\<lparr>tfp_from = Some \<lparr>tf_path = ''onechunk.txt'', tf_mode = filemode_Regular,
           tf_seed = ''A\<newline>B\<newline>C\<newline>D\<newline>E\<newline>F\<newline>G\<newline>H\<newline>I\<newline>J\<newline>K\<newline>L\<newline>M\<newline>N\<newline>'' @ [CHR 0xC3, CHR 0x91] @ ''\<newline>O\<newline>P\<newline>Q\<newline>R\<newline>S\<newline>T\<newline>U\<newline>V\<newline>W\<newline>X\<newline>Y\<newline>Z''\<rparr>,
        tfp_to = Some \<lparr>tf_path = ''onechunk.txt'', tf_mode = filemode_Regular,
           tf_seed = ''B\<newline>C\<newline>D\<newline>E\<newline>F\<newline>G\<newline>I\<newline>J\<newline>K\<newline>L\<newline>M\<newline>N\<newline>O\<newline>P\<newline>Q\<newline>R\<newline>S\<newline>T\<newline>V\<newline>W\<newline>X\<newline>Y\<newline>Z''\<rparr>,
        tfp_chunks = [\<lparr>tc_content = ''A\<newline>'', tc_op = Delete\<rparr>,
           \<lparr>tc_content = ''B\<newline>C\<newline>D\<newline>E\<newline>F\<newline>G\<newline>'', tc_op = Equal\<rparr>,
           \<lparr>tc_content = ''H\<newline>'', tc_op = Delete\<rparr>,
           \<lparr>tc_content = ''I\<newline>J\<newline>K\<newline>L\<newline>M\<newline>N\<newline>'', tc_op = Equal\<rparr>,
           \<lparr>tc_content = [CHR 0xC3, CHR 0x91] @ ''\<newline>'', tc_op = Delete\<rparr>,
           \<lparr>tc_content = ''O\<newline>P\<newline>Q\<newline>R\<newline>S\<newline>T\<newline>'', tc_op = Equal\<rparr>,
           \<lparr>tc_content = ''U\<newline>'', tc_op = Delete\<rparr>,
           \<lparr>tc_content = ''V\<newline>W\<newline>X\<newline>Y\<newline>Z'', tc_op = Equal\<rparr>]\<rparr>]\<rparr>"

definition oneChunkPatchInverted :: testPatch where
  "oneChunkPatchInverted =
     \<lparr>tp_message = '''',
      tp_filePatches = [\<lparr>tfp_from = Some \<lparr>tf_path = ''onechunk.txt'', tf_mode = filemode_Regular,
           tf_seed = ''B\<newline>C\<newline>D\<newline>E\<newline>F\<newline>G\<newline>I\<newline>J\<newline>K\<newline>L\<newline>M\<newline>N\<newline>O\<newline>P\<newline>Q\<newline>R\<newline>S\<newline>T\<newline>V\<newline>W\<newline>X\<newline>Y\<newline>Z''\<rparr>,
        tfp_to = Some \<lparr>tf_path = ''onechunk.txt'', tf_mode = filemode_Regular,
           tf_seed = ''A\<newline>B\<newline>C\<newline>D\<newline>E\<newline>F\<newline>G\<newline>H\<newline>I\<newline>J\<newline>K\<newline>L\<newline>M\<newline>N\<newline>'' @ [CHR 0xC3, CHR 0x91] @ ''\<newline>O\<newline>P\<newline>Q\<newline>R\<newline>S\<newline>T\<newline>U\<newline>V\<newline>W\<newline>X\<newline>Y\<newline>Z''\<rparr>,
        tfp_chunks = [\<lparr>tc_content = ''A\<newline>'', tc_op = Add\<rparr>,
           \<lparr>tc_content = ''B\<newline>C\<newline>D\<newline>E\<newline>F\<newline>G\<newline>'', tc_op = Equal\<rparr>,
           \<lparr>tc_content = ''H\<newline>'', tc_op = Add\<rparr>,
           \<lparr>tc_content = ''I\<newline>J\<newline>K\<newline>L\<newline>M\<newline>N\<newline>'', tc_op = Equal\<rparr>,
           \<lparr>tc_content = [CHR 0xC3, CHR 0x91] @ ''\<newline>'', tc_op = Add\<rparr>,
           \<lparr>tc_content = ''O\<newline>P\<newline>Q\<newline>R\<newline>S\<newline>T\<newline>'', tc_op = Equal\<rparr>,
           \<lparr>tc_content = ''U\<newline>'', tc_op = Add\<rparr>,
           \<lparr>tc_content = ''V\<newline>W\<newline>X\<newline>Y\<newline>Z'', tc_op = Equal\<rparr>]\<rparr>]\<rparr>"

definition fx_positive_negative_number :: fixture where
  "fx_positive_negative_number = \<lparr>
     fx_desc = ''positive negative number'',
     fx_context = 2,
     fx_color = no_color,
     fx_diff =
       ''diff --git a/README.md b/README.md\<newline>'' @
       ''index 94954abda49de8615a048f8d2e64b5de848e27a1..f3dad9514629b9ff9136283ae331ad1fc95748a8 100644\<newline>'' @
       ''--- a/README.md\<newline>'' @
       ''+++ b/README.md\<newline>'' @
       ''@@ -1,2 +1,2 @@\<newline>'' @
       '' hello\<newline>'' @
       ''-world\<newline>'' @
       ''+bug\<newline>'',
     fx_patch =
       \<lparr>tp_message = '''',
        tp_filePatches = [\<lparr>tfp_from = Some \<lparr>tf_path = ''README.md'', tf_mode = filemode_Regular,
             tf_seed = ''hello\<newline>world\<newline>''\<rparr>,
          tfp_to = Some \<lparr>tf_path = ''README.md'', tf_mode = filemode_Regular,
             tf_seed = ''hello\<newline>bug\<newline>''\<rparr>,
          tfp_chunks = [\<lparr>tc_content = ''hello\<newline>'', tc_op = Equal\<rparr>,
             \<lparr>tc_content = ''world\<newline>'', tc_op = Delete\<rparr>,
             \<lparr>tc_content = ''bug\<newline>'', tc_op = Add\<rparr>]\<rparr>]\<rparr>\<rparr>"

definition fx_make_executable :: fixture where
  "fx_make_executable = \<lparr>
     fx_desc = ''make executable'',
     fx_context = 1,
     fx_color = no_color,
     fx_diff =
       ''diff --git a/test.txt b/test.txt\<newline>'' @
       ''old mode 100644\<newline>'' @
       ''new mode 100755\<newline>'',
     fx_patch =
       \<lparr>tp_message = '''',
        tp_filePatches = [\<lparr>tfp_from = Some \<lparr>tf_path = ''test.txt'', tf_mode = filemode_Regular,
             tf_seed = ''test''\<rparr>,
          tfp_to = Some \<lparr>tf_path = ''test.txt'', tf_mode = filemode_Executable,
             tf_seed = ''test''\<rparr>,
          tfp_chunks = []\<rparr>]\<rparr>\<rparr>"

definition fx_rename_file :: fixture where
  "fx_rename_file = \<lparr>
     fx_desc = ''rename file'',
     fx_context = 1,
     fx_color = no_color,
     fx_diff =
       ''diff --git a/test.txt b/test1.txt\<newline>'' @
       ''rename from test.txt\<newline>'' @
       ''rename to test1.txt\<newline>'',
     fx_patch =
       \<lparr>tp_message = '''',
        tp_filePatches = [\<lparr>tfp_from = Some \<lparr>tf_path = ''test.txt'', tf_mode = filemode_Regular,
             tf_seed = ''test''\<rparr>,
          tfp_to = Some \<lparr>tf_path = ''test1.txt'', tf_mode = filemode_Regular,
             tf_seed = ''test''\<rparr>,
          tfp_chunks = []\<rparr>]\<rparr>\<rparr>"

definition fx_rename_file_with_changes :: fixture where
  "fx_rename_file_with_changes = \<lparr>
     fx_desc = ''rename file with changes'',
     fx_context = 1,
     fx_color = no_color,
     fx_diff =
       ''diff --git a/test.txt b/test1.txt\<newline>'' @
       ''rename from test.txt\<newline>'' @
       ''rename to test1.txt\<newline>'' @
       ''index 9daeafb9864cf43055ae93beb0afd6c7d144bfa4..a5bce3fd2565d8f458555a0c6f42d0504a848bd5 100644\<newline>'' @
       ''--- a/test.txt\<newline>'' @
       ''+++ b/test1.txt\<newline>'' @
       ''@@ -1 +1 @@\<newline>'' @
       ''-test\<newline>'' @
       ''+test1\<newline>'',
     fx_patch =
       \<lparr>tp_message = '''',
        tp_filePatches = [\<lparr>tfp_from = Some \<lparr>tf_path = ''test.txt'', tf_mode = filemode_Regular,
             tf_seed = ''test\<newline>''\<rparr>,
          tfp_to = Some \<lparr>tf_path = ''test1.txt'', tf_mode = filemode_Regular,
             tf_seed = ''test1\<newline>''\<rparr>,
          tfp_chunks = [\<lparr>tc_content = ''test\<newline>'', tc_op = Delete\<rparr>,
             \<lparr>tc_content = ''test1\<newline>'', tc_op = Add\<rparr>]\<rparr>]\<rparr>\<rparr>"

definition fx_rename_with_file_mode_change :: fixture where
  "fx_rename_with_file_mode_change = \<lparr>
     fx_desc = ''rename with file mode change'',
     fx_context = 1,
     fx_color = no_color,
     fx_diff =
       ''diff --git a/test.txt b/test1.txt\<newline>'' @
       ''old mode 100644\<newline>'' @
       ''new mode 100755\<newline>'' @
       ''rename from test.txt\<newline>'' @
       ''rename to test1.txt\<newline>'',
     fx_patch =
       \<lparr>tp_message = '''',
        tp_filePatches = [\<lparr>tfp_from = Some \<lparr>tf_path = ''test.txt'', tf_mode = filemode_Regular,
             tf_seed = ''test''\<rparr>,
          tfp_to = Some \<lparr>tf_path = ''test1.txt'', tf_mode = filemode_Executable,
             tf_seed = ''test''\<rparr>,
          tfp_chunks = []\<rparr>]\<rparr>\<rparr>"

definition fx_one_line_change :: fixture where
  "fx_one_line_change = \<lparr>
     fx_desc = ''one line change'',
     fx_context = 1,
     fx_color = no_color,
     fx_diff =
       ''diff --git a/test.txt b/test.txt\<newline>'' @
       ''index 9daeafb9864cf43055ae93beb0afd6c7d144bfa4..180cf8328022becee9aaa2577a8f84ea2b9f3827 100644\<newline>'' @
       ''--- a/test.txt\<newline>'' @
       ''+++ b/test.txt\<newline>'' @
       ''@@ -1 +1 @@\<newline>'' @
       ''-test\<newline>'' @
       ''+test2\<newline>'',
     fx_patch =
       \<lparr>tp_message = '''',
        tp_filePatches = [\<lparr>tfp_from = Some \<lparr>tf_path = ''test.txt'', tf_mode = filemode_Regular,
             tf_seed = ''test\<newline>''\<rparr>,
          tfp_to = Some \<lparr>tf_path = ''test.txt'', tf_mode = filemode_Regular,
             tf_seed = ''test2\<newline>''\<rparr>,
          tfp_chunks = [\<lparr>tc_content = ''test\<newline>'', tc_op = Delete\<rparr>,
             \<lparr>tc_content = ''test2\<newline>'', tc_op = Add\<rparr>]\<rparr>]\<rparr>\<rparr>"

definition fx_one_line_change_with_message :: fixture where
  "fx_one_line_change_with_message = \<lparr>
     fx_desc = ''one line change with message'',
     fx_context = 1,
     fx_color = no_color,
     fx_diff =
       ''this is the message\<newline>'' @
       ''diff --git a/test.txt b/test.txt\<newline>'' @
       ''index 9daeafb9864cf43055ae93beb0afd6c7d144bfa4..180cf8328022becee9aaa2577a8f84ea2b9f3827 100644\<newline>'' @
       ''--- a/test.txt\<newline>'' @
       ''+++ b/test.txt\<newline>'' @
       ''@@ -1 +1 @@\<newline>'' @
       ''-test\<newline>'' @
       ''+test2\<newline>'',
     fx_patch =
       \<lparr>tp_message = ''this is the message\<newline>'',
        tp_filePatches = [\<lparr>tfp_from = Some \<lparr>tf_path = ''test.txt'', tf_mode = filemode_Regular,
             tf_seed = ''test\<newline>''\<rparr>,
          tfp_to = Some \<lparr>tf_path = ''test.txt'', tf_mode = filemode_Regular,
             tf_seed = ''test2\<newline>''\<rparr>,
          tfp_chunks = [\<lparr>tc_content = ''test\<newline>'', tc_op = Delete\<rparr>,
             \<lparr>tc_content = ''test2\<newline>'', tc_op = Add\<rparr>]\<rparr>]\<rparr>\<rparr>"

definition fx_one_line_change_with_message_no_eol :: fixture where
  "fx_one_line_change_with_message_no_eol = \<lparr>
     fx_desc = ''one line change with message and no end of line'',
     fx_context = 1,
     fx_color = no_color,
     fx_diff =
       ''this is the message\<newline>'' @
       ''diff --git a/test.txt b/test.txt\<newline>'' @
       ''index 30d74d258442c7c65512eafab474568dd706c430..d606037cb232bfda7788a8322492312d55b2ae9d 100644\<newline>'' @
       ''--- a/test.txt\<newline>'' @
       ''+++ b/test.txt\<newline>'' @
       ''@@ -1 +1 @@\<newline>'' @
       ''-test\<newline>'' @
       [CHR 0x5C] @ '' No newline at end of file\<newline>'' @
       ''+test2\<newline>'' @
       [CHR 0x5C] @ '' No newline at end of file\<newline>'',
     fx_patch =
       \<lparr>tp_message = ''this is the message'',
        tp_filePatches = [\<lparr>tfp_from = Some \<lparr>tf_path = ''test.txt'', tf_mode = filemode_Regular,
             tf_seed = ''test''\<rparr>,
          tfp_to = Some \<lparr>tf_path = ''test.txt'', tf_mode = filemode_Regular,
             tf_seed = ''test2''\<rparr>,
          tfp_chunks = [\<lparr>tc_content = ''test'', tc_op = Delete\<rparr>,
             \<lparr>tc_content = ''test2'', tc_op = Add\<rparr>]\<rparr>]\<rparr>\<rparr>"

definition fx_new_file :: fixture where
  "fx_new_file = \<lparr>
     fx_desc = ''new file'',
     fx_context = 1,
     fx_color = no_color,
     fx_diff =
       ''diff --git a/new.txt b/new.txt\<newline>'' @
       ''new file mode 100644\<newline>'' @
       ''index 0000000000000000000000000000000000000000..3ceaab5442b64a0c2b33dd25fae67ccdb4fd1ea8\<newline>'' @
       ''--- /dev/null\<newline>'' @
       ''+++ b/new.txt\<newline>'' @
       ''@@ -0,0 +1,3 @@\<newline>'' @
       ''+test\<newline>'' @
       ''+test2\<newline>'' @
       ''+test3\<newline>'' @
       [CHR 0x5C] @ '' No newline at end of file\<newline>'',
     fx_patch =
       \<lparr>tp_message = '''',
        tp_filePatches = [\<lparr>tfp_from = None,
          tfp_to = Some \<lparr>tf_path = ''new.txt'', tf_mode = filemode_Regular,
             tf_seed = ''test\<newline>test2\<newline>test3''\<rparr>,
          tfp_chunks = [\<lparr>tc_content = ''test\<newline>test2\<newline>test3'', tc_op = Add\<rparr>]\<rparr>]\<rparr>\<rparr>"

definition fx_delete_file :: fixture where
  "fx_delete_file = \<lparr>
     fx_desc = ''delete file'',
     fx_context = 1,
     fx_color = no_color,
     fx_diff =
       ''diff --git a/old.txt b/old.txt\<newline>'' @
       ''deleted file mode 100644\<newline>'' @
       ''index 30d74d258442c7c65512eafab474568dd706c430..0000000000000000000000000000000000000000\<newline>'' @
       ''--- a/old.txt\<newline>'' @
       ''+++ /dev/null\<newline>'' @
       ''@@ -1 +0,0 @@\<newline>'' @
       ''-test\<newline>'' @
       [CHR 0x5C] @ '' No newline at end of file\<newline>'',
     fx_patch =
       \<lparr>tp_message = '''',
        tp_filePatches = [\<lparr>tfp_from = Some \<lparr>tf_path = ''old.txt'', tf_mode = filemode_Regular,
             tf_seed = ''test''\<rparr>,
          tfp_to = None,
          tfp_chunks = [\<lparr>tc_content = ''test'', tc_op = Delete\<rparr>]\<rparr>]\<rparr>\<rparr>"

definition fx_deleting_lines_ctx1 :: fixture where
  "fx_deleting_lines_ctx1 = \<lparr>
     fx_desc = ''modified deleting lines file with context to 1'',
     fx_context = 1,
     fx_color = no_color,
     fx_diff =
       ''diff --git a/onechunk.txt b/onechunk.txt\<newline>'' @
       ''index ab5eed5d4a2c33aeef67e0188ee79bed666bde6f..0adddcde4fd38042c354518351820eb06c417c82 100644\<newline>'' @
       ''--- a/onechunk.txt\<newline>'' @
       ''+++ b/onechunk.txt\<newline>'' @
       ''@@ -1,2 +1 @@\<newline>'' @
       ''-A\<newline>'' @
       '' B\<newline>'' @
       ''@@ -7,3 +6,2 @@ F\<newline>'' @
       '' G\<newline>'' @
       ''-H\<newline>'' @
       '' I\<newline>'' @
       ''@@ -14,3 +12,2 @@ M\<newline>'' @
       '' N\<newline>'' @
       ''-'' @ [CHR 0xC3, CHR 0x91] @ ''\<newline>'' @
       '' O\<newline>'' @
       ''@@ -21,3 +18,2 @@ S\<newline>'' @
       '' T\<newline>'' @
       ''-U\<newline>'' @
       '' V\<newline>'',
     fx_patch =
       oneChunkPatch\<rparr>"

definition fx_deleting_lines_ctx2 :: fixture where
  "fx_deleting_lines_ctx2 = \<lparr>
     fx_desc = ''modified deleting lines file with context to 2'',
     fx_context = 2,
     fx_color = no_color,
     fx_diff =
       ''diff --git a/onechunk.txt b/onechunk.txt\<newline>'' @
       ''index ab5eed5d4a2c33aeef67e0188ee79bed666bde6f..0adddcde4fd38042c354518351820eb06c417c82 100644\<newline>'' @
       ''--- a/onechunk.txt\<newline>'' @
       ''+++ b/onechunk.txt\<newline>'' @
       ''@@ -1,3 +1,2 @@\<newline>'' @
       ''-A\<newline>'' @
       '' B\<newline>'' @
       '' C\<newline>'' @
       ''@@ -6,5 +5,4 @@ E\<newline>'' @
       '' F\<newline>'' @
       '' G\<newline>'' @
       ''-H\<newline>'' @
       '' I\<newline>'' @
       '' J\<newline>'' @
       ''@@ -13,5 +11,4 @@ L\<newline>'' @
       '' M\<newline>'' @
       '' N\<newline>'' @
       ''-'' @ [CHR 0xC3, CHR 0x91] @ ''\<newline>'' @
       '' O\<newline>'' @
       '' P\<newline>'' @
       ''@@ -20,5 +17,4 @@ R\<newline>'' @
       '' S\<newline>'' @
       '' T\<newline>'' @
       ''-U\<newline>'' @
       '' V\<newline>'' @
       '' W\<newline>'',
     fx_patch =
       oneChunkPatch\<rparr>"

definition fx_deleting_lines_ctx6 :: fixture where
  "fx_deleting_lines_ctx6 = \<lparr>
     fx_desc = ''modified deleting lines file with context to 6'',
     fx_context = 6,
     fx_color = no_color,
     fx_diff =
       ''diff --git a/onechunk.txt b/onechunk.txt\<newline>'' @
       ''index ab5eed5d4a2c33aeef67e0188ee79bed666bde6f..0adddcde4fd38042c354518351820eb06c417c82 100644\<newline>'' @
       ''--- a/onechunk.txt\<newline>'' @
       ''+++ b/onechunk.txt\<newline>'' @
       ''@@ -1,27 +1,23 @@\<newline>'' @
       ''-A\<newline>'' @
       '' B\<newline>'' @
       '' C\<newline>'' @
       '' D\<newline>'' @
       '' E\<newline>'' @
       '' F\<newline>'' @
       '' G\<newline>'' @
       ''-H\<newline>'' @
       '' I\<newline>'' @
       '' J\<newline>'' @
       '' K\<newline>'' @
       '' L\<newline>'' @
       '' M\<newline>'' @
       '' N\<newline>'' @
       ''-'' @ [CHR 0xC3, CHR 0x91] @ ''\<newline>'' @
       '' O\<newline>'' @
       '' P\<newline>'' @
       '' Q\<newline>'' @
       '' R\<newline>'' @
       '' S\<newline>'' @
       '' T\<newline>'' @
       ''-U\<newline>'' @
       '' V\<newline>'' @
       '' W\<newline>'' @
       '' X\<newline>'' @
       '' Y\<newline>'' @
       '' Z\<newline>'' @
       [CHR 0x5C] @ '' No newline at end of file\<newline>'',
     fx_patch =
       oneChunkPatch\<rparr>"

definition fx_deleting_lines_ctx3 :: fixture where
  "fx_deleting_lines_ctx3 = \<lparr>
     fx_desc = ''modified deleting lines file with context to 3'',
     fx_context = 3,
     fx_color = no_color,
     fx_diff =
       ''diff --git a/onechunk.txt b/onechunk.txt\<newline>'' @
       ''index ab5eed5d4a2c33aeef67e0188ee79bed666bde6f..0adddcde4fd38042c354518351820eb06c417c82 100644\<newline>'' @
       ''--- a/onechunk.txt\<newline>'' @
       ''+++ b/onechunk.txt\<newline>'' @
       ''@@ -1,25 +1,21 @@\<newline>'' @
       ''-A\<newline>'' @
       '' B\<newline>'' @
       '' C\<newline>'' @
       '' D\<newline>'' @
       '' E\<newline>'' @
       '' F\<newline>'' @
       '' G\<newline>'' @
       ''-H\<newline>'' @
       '' I\<newline>'' @
       '' J\<newline>'' @
       '' K\<newline>'' @
       '' L\<newline>'' @
       '' M\<newline>'' @
       '' N\<newline>'' @
       ''-'' @ [CHR 0xC3, CHR 0x91] @ ''\<newline>'' @
       '' O\<newline>'' @
       '' P\<newline>'' @
       '' Q\<newline>'' @
       '' R\<newline>'' @
       '' S\<newline>'' @
       '' T\<newline>'' @
       ''-U\<newline>'' @
       '' V\<newline>'' @
       '' W\<newline>'' @
       '' X\<newline>'',
     fx_patch =
       oneChunkPatch\<rparr>"

definition fx_deleting_lines_ctx4 :: fixture where
  "fx_deleting_lines_ctx4 = \<lparr>
     fx_desc = ''modified deleting lines file with context to 4'',
     fx_context = 4,
     fx_color = no_color,
     fx_diff =
       ''diff --git a/onechunk.txt b/onechunk.txt\<newline>'' @
       ''index ab5eed5d4a2c33aeef67e0188ee79bed666bde6f..0adddcde4fd38042c354518351820eb06c417c82 100644\<newline>'' @
       ''--- a/onechunk.txt\<newline>'' @
       ''+++ b/onechunk.txt\<newline>'' @
       ''@@ -1,26 +1,22 @@\<newline>'' @
       ''-A\<newline>'' @
       '' B\<newline>'' @
       '' C\<newline>'' @
       '' D\<newline>'' @
       '' E\<newline>'' @
       '' F\<newline>'' @
       '' G\<newline>'' @
       ''-H\<newline>'' @
       '' I\<newline>'' @
       '' J\<newline>'' @
       '' K\<newline>'' @
       '' L\<newline>'' @
       '' M\<newline>'' @
       '' N\<newline>'' @
       ''-'' @ [CHR 0xC3, CHR 0x91] @ ''\<newline>'' @
       '' O\<newline>'' @
       '' P\<newline>'' @
       '' Q\<newline>'' @
       '' R\<newline>'' @
       '' S\<newline>'' @
       '' T\<newline>'' @
       ''-U\<newline>'' @
       '' V\<newline>'' @
       '' W\<newline>'' @
       '' X\<newline>'' @
       '' Y\<newline>'',
     fx_patch =
       oneChunkPatch\<rparr>"

definition fx_deleting_lines_ctx0 :: fixture where
  "fx_deleting_lines_ctx0 = \<lparr>
     fx_desc = ''modified deleting lines file with context to 0'',
     fx_context = 0,
     fx_color = no_color,
     fx_diff =
       ''diff --git a/onechunk.txt b/onechunk.txt\<newline>'' @
       ''index ab5eed5d4a2c33aeef67e0188ee79bed666bde6f..0adddcde4fd38042c354518351820eb06c417c82 100644\<newline>'' @
       ''--- a/onechunk.txt\<newline>'' @
       ''+++ b/onechunk.txt\<newline>'' @
       ''@@ -1 +0,0 @@\<newline>'' @
       ''-A\<newline>'' @
       ''@@ -8 +6,0 @@ G\<newline>'' @
       ''-H\<newline>'' @
       ''@@ -15 +12,0 @@ N\<newline>'' @
       ''-'' @ [CHR 0xC3, CHR 0x91] @ ''\<newline>'' @
       ''@@ -22 +18,0 @@ T\<newline>'' @
       ''-U\<newline>'',
     fx_patch =
       oneChunkPatch\<rparr>"

definition fx_adding_lines_ctx1 :: fixture where
  "fx_adding_lines_ctx1 = \<lparr>
     fx_desc = ''modified adding lines file with context to 1'',
     fx_context = 1,
     fx_color = no_color,
     fx_diff =
       ''diff --git a/onechunk.txt b/onechunk.txt\<newline>'' @
       ''index 0adddcde4fd38042c354518351820eb06c417c82..ab5eed5d4a2c33aeef67e0188ee79bed666bde6f 100644\<newline>'' @
       ''--- a/onechunk.txt\<newline>'' @
       ''+++ b/onechunk.txt\<newline>'' @
       ''@@ -1 +1,2 @@\<newline>'' @
       ''+A\<newline>'' @
       '' B\<newline>'' @
       ''@@ -6,2 +7,3 @@ F\<newline>'' @
       '' G\<newline>'' @
       ''+H\<newline>'' @
       '' I\<newline>'' @
       ''@@ -12,2 +14,3 @@ M\<newline>'' @
       '' N\<newline>'' @
       ''+'' @ [CHR 0xC3, CHR 0x91] @ ''\<newline>'' @
       '' O\<newline>'' @
       ''@@ -18,2 +21,3 @@ S\<newline>'' @
       '' T\<newline>'' @
       ''+U\<newline>'' @
       '' V\<newline>'',
     fx_patch =
       oneChunkPatchInverted\<rparr>"

definition fx_adding_lines_ctx2 :: fixture where
  "fx_adding_lines_ctx2 = \<lparr>
     fx_desc = ''modified adding lines file with context to 2'',
     fx_context = 2,
     fx_color = no_color,
     fx_diff =
       ''diff --git a/onechunk.txt b/onechunk.txt\<newline>'' @
       ''index 0adddcde4fd38042c354518351820eb06c417c82..ab5eed5d4a2c33aeef67e0188ee79bed666bde6f 100644\<newline>'' @
       ''--- a/onechunk.txt\<newline>'' @
       ''+++ b/onechunk.txt\<newline>'' @
       ''@@ -1,2 +1,3 @@\<newline>'' @
       ''+A\<newline>'' @
       '' B\<newline>'' @
       '' C\<newline>'' @
       ''@@ -5,4 +6,5 @@ E\<newline>'' @
       '' F\<newline>'' @
       '' G\<newline>'' @
       ''+H\<newline>'' @
       '' I\<newline>'' @
       '' J\<newline>'' @
       ''@@ -11,4 +13,5 @@ L\<newline>'' @
       '' M\<newline>'' @
       '' N\<newline>'' @
       ''+'' @ [CHR 0xC3, CHR 0x91] @ ''\<newline>'' @
       '' O\<newline>'' @
       '' P\<newline>'' @
       ''@@ -17,4 +20,5 @@ R\<newline>'' @
       '' S\<newline>'' @
       '' T\<newline>'' @
       ''+U\<newline>'' @
       '' V\<newline>'' @
       '' W\<newline>'',
     fx_patch =
       oneChunkPatchInverted\<rparr>"

definition fx_adding_lines_ctx3 :: fixture where
  "fx_adding_lines_ctx3 = \<lparr>
     fx_desc = ''modified adding lines file with context to 3'',
     fx_context = 3,
     fx_color = no_color,
     fx_diff =
       ''diff --git a/onechunk.txt b/onechunk.txt\<newline>'' @
       ''index 0adddcde4fd38042c354518351820eb06c417c82..ab5eed5d4a2c33aeef67e0188ee79bed666bde6f 100644\<newline>'' @
       ''--- a/onechunk.txt\<newline>'' @
       ''+++ b/onechunk.txt\<newline>'' @
       ''@@ -1,21 +1,25 @@\<newline>'' @
       ''+A\<newline>'' @
       '' B\<newline>'' @
       '' C\<newline>'' @
       '' D\<newline>'' @
       '' E\<newline>'' @
       '' F\<newline>'' @
       '' G\<newline>'' @
       ''+H\<newline>'' @
       '' I\<newline>'' @
       '' J\<newline>'' @
       '' K\<newline>'' @
       '' L\<newline>'' @
       '' M\<newline>'' @
       '' N\<newline>'' @
       ''+'' @ [CHR 0xC3, CHR 0x91] @ ''\<newline>'' @
       '' O\<newline>'' @
       '' P\<newline>'' @
       '' Q\<newline>'' @
       '' R\<newline>'' @
       '' S\<newline>'' @
       '' T\<newline>'' @
       ''+U\<newline>'' @
       '' V\<newline>'' @
       '' W\<newline>'' @
       '' X\<newline>'',
     fx_patch =
       oneChunkPatchInverted\<rparr>"

definition fx_adding_lines_ctx4 :: fixture where
  "fx_adding_lines_ctx4 = \<lparr>
     fx_desc = ''modified adding lines file with context to 4'',
     fx_context = 4,
     fx_color = no_color,
     fx_diff =
       ''diff --git a/onechunk.txt b/onechunk.txt\<newline>'' @
       ''index 0adddcde4fd38042c354518351820eb06c417c82..ab5eed5d4a2c33aeef67e0188ee79bed666bde6f 100644\<newline>'' @
       ''--- a/onechunk.txt\<newline>'' @
       ''+++ b/onechunk.txt\<newline>'' @
       ''@@ -1,22 +1,26 @@\<newline>'' @
       ''+A\<newline>'' @
       '' B\<newline>'' @
       '' C\<newline>'' @
       '' D\<newline>'' @
       '' E\<newline>'' @
       '' F\<newline>'' @
       '' G\<newline>'' @
       ''+H\<newline>'' @
       '' I\<newline>'' @
       '' J\<newline>'' @
       '' K\<newline>'' @
       '' L\<newline>'' @
       '' M\<newline>'' @
       '' N\<newline>'' @
       ''+'' @ [CHR 0xC3, CHR 0x91] @ ''\<newline>'' @
       '' O\<newline>'' @
       '' P\<newline>'' @
       '' Q\<newline>'' @
       '' R\<newline>'' @
       '' S\<newline>'' @
       '' T\<newline>'' @
       ''+U\<newline>'' @
       '' V\<newline>'' @
       '' W\<newline>'' @
       '' X\<newline>'' @
       '' Y\<newline>'',
     fx_patch =
       oneChunkPatchInverted\<rparr>"

definition fx_adding_lines_ctx0 :: fixture where
  "fx_adding_lines_ctx0 = \<lparr>
     fx_desc = ''modified adding lines file with context to 0'',
     fx_context = 0,
     fx_color = no_color,
     fx_diff =
       ''diff --git a/onechunk.txt b/onechunk.txt\<newline>'' @
       ''index 0adddcde4fd38042c354518351820eb06c417c82..ab5eed5d4a2c33aeef67e0188ee79bed666bde6f 100644\<newline>'' @
       ''--- a/onechunk.txt\<newline>'' @
       ''+++ b/onechunk.txt\<newline>'' @
       ''@@ -0,0 +1 @@\<newline>'' @
       ''+A\<newline>'' @
       ''@@ -6,0 +8 @@ G\<newline>'' @
       ''+H\<newline>'' @
       ''@@ -12,0 +15 @@ N\<newline>'' @
       ''+'' @ [CHR 0xC3, CHR 0x91] @ ''\<newline>'' @
       ''@@ -18,0 +22 @@ T\<newline>'' @
       ''+U\<newline>'',
     fx_patch =
       oneChunkPatchInverted\<rparr>"

definition fx_remove_last_letter :: fixture where
  "fx_remove_last_letter = \<lparr>
     fx_desc = ''remove last letter'',
     fx_context = 0,
     fx_color = no_color,
     fx_diff =
       ''diff --git a/onechunk.txt b/onechunk.txt\<newline>'' @
       ''index 0adddcde4fd38042c354518351820eb06c417c82..553ae669c7a9303cf848fcc749a2569228ac5309 100644\<newline>'' @
       ''--- a/onechunk.txt\<newline>'' @
       ''+++ b/onechunk.txt\<newline>'' @
       ''@@ -23 +22,0 @@ Y\<newline>'' @
       ''-Z\<newline>'' @
       [CHR 0x5C] @ '' No newline at end of file\<newline>'',
     fx_patch =
       \<lparr>tp_message = '''',
        tp_filePatches = [\<lparr>tfp_from = Some \<lparr>tf_path = ''onechunk.txt'', tf_mode = filemode_Regular,
             tf_seed = ''B\<newline>C\<newline>D\<newline>E\<newline>F\<newline>G\<newline>I\<newline>J\<newline>K\<newline>L\<newline>M\<newline>N\<newline>O\<newline>P\<newline>Q\<newline>R\<newline>S\<newline>T\<newline>V\<newline>W\<newline>X\<newline>Y\<newline>Z''\<rparr>,
          tfp_to = Some \<lparr>tf_path = ''onechunk.txt'', tf_mode = filemode_Regular,
             tf_seed = ''B\<newline>C\<newline>D\<newline>E\<newline>F\<newline>G\<newline>I\<newline>J\<newline>K\<newline>L\<newline>M\<newline>N\<newline>O\<newline>P\<newline>Q\<newline>R\<newline>S\<newline>T\<newline>V\<newline>W\<newline>X\<newline>Y\<newline>''\<rparr>,
          tfp_chunks = [\<lparr>tc_content = ''B\<newline>C\<newline>D\<newline>E\<newline>F\<newline>G\<newline>I\<newline>J\<newline>K\<newline>L\<newline>M\<newline>N\<newline>O\<newline>P\<newline>Q\<newline>R\<newline>S\<newline>T\<newline>V\<newline>W\<newline>X\<newline>Y\<newline>'', tc_op = Equal\<rparr>,
             \<lparr>tc_content = ''Z'', tc_op = Delete\<rparr>]\<rparr>]\<rparr>\<rparr>"

definition fx_remove_last_letter_no_eol :: fixture where
  "fx_remove_last_letter_no_eol = \<lparr>
     fx_desc = ''remove last letter and no newline at end of file'',
     fx_context = 0,
     fx_color = no_color,
     fx_diff =
       ''diff --git a/onechunk.txt b/onechunk.txt\<newline>'' @
       ''index 0adddcde4fd38042c354518351820eb06c417c82..d39ae38aad7ba9447b5e7998b2e4714f26c9218d 100644\<newline>'' @
       ''--- a/onechunk.txt\<newline>'' @
       ''+++ b/onechunk.txt\<newline>'' @
       ''@@ -22,2 +21 @@ X\<newline>'' @
       ''-Y\<newline>'' @
       ''-Z\<newline>'' @
       [CHR 0x5C] @ '' No newline at end of file\<newline>'' @
       ''+Y\<newline>'' @
       [CHR 0x5C] @ '' No newline at end of file\<newline>'',
     fx_patch =
       \<lparr>tp_message = '''',
        tp_filePatches = [\<lparr>tfp_from = Some \<lparr>tf_path = ''onechunk.txt'', tf_mode = filemode_Regular,
             tf_seed = ''B\<newline>C\<newline>D\<newline>E\<newline>F\<newline>G\<newline>I\<newline>J\<newline>K\<newline>L\<newline>M\<newline>N\<newline>O\<newline>P\<newline>Q\<newline>R\<newline>S\<newline>T\<newline>V\<newline>W\<newline>X\<newline>Y\<newline>Z''\<rparr>,
          tfp_to = Some \<lparr>tf_path = ''onechunk.txt'', tf_mode = filemode_Regular,
             tf_seed = ''B\<newline>C\<newline>D\<newline>E\<newline>F\<newline>G\<newline>I\<newline>J\<newline>K\<newline>L\<newline>M\<newline>N\<newline>O\<newline>P\<newline>Q\<newline>R\<newline>S\<newline>T\<newline>V\<newline>W\<newline>X\<newline>Y''\<rparr>,
          tfp_chunks = [\<lparr>tc_content = ''B\<newline>C\<newline>D\<newline>E\<newline>F\<newline>G\<newline>I\<newline>J\<newline>K\<newline>L\<newline>M\<newline>N\<newline>O\<newline>P\<newline>Q\<newline>R\<newline>S\<newline>T\<newline>V\<newline>W\<newline>X\<newline>'', tc_op = Equal\<rparr>,
             \<lparr>tc_content = ''Y\<newline>Z'', tc_op = Delete\<rparr>,
             \<lparr>tc_content = ''Y'', tc_op = Add\<rparr>]\<rparr>]\<rparr>\<rparr>"

definition fx_positive_negative_number_color :: fixture where
  "fx_positive_negative_number_color = \<lparr>
     fx_desc = ''positive negative number with color'',
     fx_context = 2,
     fx_color = NewColorConfig [],
     fx_diff =
       '''' @
       color_Bold @
       ''diff --git a/README.md b/README.md\<newline>'' @
       ''index 94954abda49de8615a048f8d2e64b5de848e27a1..f3dad9514629b9ff9136283ae331ad1fc95748a8 100644\<newline>'' @
       ''--- a/README.md\<newline>'' @
       ''+++ b/README.md'' @
       reset_seq @
       ''\<newline>'' @
       color_Cyan @
       ''@@ -1,2 +1,2 @@'' @
       reset_seq @
       ''\<newline>'' @
       '' hello\<newline>'' @
       color_Red @
       ''-world'' @
       reset_seq @
       ''\<newline>'' @
       color_Green @
       ''+bug'' @
       reset_seq @
       ''\<newline>'',
     fx_patch =
       \<lparr>tp_message = '''',
        tp_filePatches = [\<lparr>tfp_from = Some \<lparr>tf_path = ''README.md'', tf_mode = filemode_Regular,
             tf_seed = ''hello\<newline>world\<newline>''\<rparr>,
          tfp_to = Some \<lparr>tf_path = ''README.md'', tf_mode = filemode_Regular,
             tf_seed = ''hello\<newline>bug\<newline>''\<rparr>,
          tfp_chunks = [\<lparr>tc_content = ''hello\<newline>'', tc_op = Equal\<rparr>,
             \<lparr>tc_content = ''world\<newline>'', tc_op = Delete\<rparr>,
             \<lparr>tc_content = ''bug\<newline>'', tc_op = Add\<rparr>]\<rparr>]\<rparr>\<rparr>"

definition fx_one_line_change_color :: fixture where
  "fx_one_line_change_color = \<lparr>
     fx_desc = ''one line change with color'',
     fx_context = 1,
     fx_color = NewColorConfig [WithColor Func color_Reverse],
     fx_diff =
       '''' @
       color_Bold @
       ''diff --git a/test.txt b/test.txt\<newline>'' @
       ''index 9daeafb9864cf43055ae93beb0afd6c7d144bfa4..180cf8328022becee9aaa2577a8f84ea2b9f3827 100644\<newline>'' @
       ''--- a/test.txt\<newline>'' @
       ''+++ b/test.txt'' @
       reset_seq @
       ''\<newline>'' @
       color_Cyan @
       ''@@ -1 +1 @@'' @
       reset_seq @
       ''\<newline>'' @
       color_Red @
       ''-test'' @
       reset_seq @
       ''\<newline>'' @
       color_Green @
       ''+test2'' @
       reset_seq @
       ''\<newline>'',
     fx_patch =
       \<lparr>tp_message = '''',
        tp_filePatches = [\<lparr>tfp_from = Some \<lparr>tf_path = ''test.txt'', tf_mode = filemode_Regular,
             tf_seed = ''test\<newline>''\<rparr>,
          tfp_to = Some \<lparr>tf_path = ''test.txt'', tf_mode = filemode_Regular,
             tf_seed = ''test2\<newline>''\<rparr>,
          tfp_chunks = [\<lparr>tc_content = ''test\<newline>'', tc_op = Delete\<rparr>,
             \<lparr>tc_content = ''test2\<newline>'', tc_op = Add\<rparr>]\<rparr>]\<rparr>\<rparr>"

definition fx_deleting_lines_ctx1_color :: fixture where
  "fx_deleting_lines_ctx1_color = \<lparr>
     fx_desc = ''modified deleting lines file with context to 1 with color'',
     fx_context = 1,
     fx_color = NewColorConfig [WithColor Func color_Reverse],
     fx_diff =
       '''' @
       color_Bold @
       ''diff --git a/onechunk.txt b/onechunk.txt\<newline>'' @
       ''index ab5eed5d4a2c33aeef67e0188ee79bed666bde6f..0adddcde4fd38042c354518351820eb06c417c82 100644\<newline>'' @
       ''--- a/onechunk.txt\<newline>'' @
       ''+++ b/onechunk.txt'' @
       reset_seq @
       ''\<newline>'' @
       color_Cyan @
       ''@@ -1,2 +1 @@'' @
       reset_seq @
       ''\<newline>'' @
       color_Red @
       ''-A'' @
       reset_seq @
       ''\<newline>'' @
       '' B\<newline>'' @
       color_Cyan @
       ''@@ -7,3 +6,2 @@'' @
       reset_seq @
       '' '' @
       color_Reverse @
       ''F'' @
       reset_seq @
       ''\<newline>'' @
       '' G\<newline>'' @
       color_Red @
       ''-H'' @
       reset_seq @
       ''\<newline>'' @
       '' I\<newline>'' @
       color_Cyan @
       ''@@ -14,3 +12,2 @@'' @
       reset_seq @
       '' '' @
       color_Reverse @
       ''M'' @
       reset_seq @
       ''\<newline>'' @
       '' N\<newline>'' @
       color_Red @
       ''-'' @ [CHR 0xC3, CHR 0x91] @
       reset_seq @
       ''\<newline>'' @
       '' O\<newline>'' @
       color_Cyan @
       ''@@ -21,3 +18,2 @@'' @
       reset_seq @
       '' '' @
       color_Reverse @
       ''S'' @
       reset_seq @
       ''\<newline>'' @
       '' T\<newline>'' @
       color_Red @
       ''-U'' @
       reset_seq @
       ''\<newline>'' @
       '' V\<newline>'',
     fx_patch =
       oneChunkPatch\<rparr>"

definition fixtures :: "fixture list" where
  "fixtures = [fx_positive_negative_number,
    fx_make_executable,
    fx_rename_file,
    fx_rename_file_with_changes,
    fx_rename_with_file_mode_change,
    fx_one_line_change,
    fx_one_line_change_with_message,
    fx_one_line_change_with_message_no_eol,
    fx_new_file,
    fx_delete_file,
    fx_deleting_lines_ctx1,
    fx_deleting_lines_ctx2,
    fx_deleting_lines_ctx6,
    fx_deleting_lines_ctx3,
    fx_deleting_lines_ctx4,
    fx_deleting_lines_ctx0,
    fx_adding_lines_ctx1,
    fx_adding_lines_ctx2,
    fx_adding_lines_ctx3,
    fx_adding_lines_ctx4,
    fx_adding_lines_ctx0,
    fx_remove_last_letter,
    fx_remove_last_letter_no_eol,
    fx_positive_negative_number_color,
    fx_one_line_change_color,
    fx_deleting_lines_ctx1_color]"

text \<open>\<open>TestEncode\<close>: a fixture passes when encoding its patch into an empty
  \<open>bytes.Buffer\<close> returns no error and leaves exactly the expected bytes.\<close>

definition fixture_passes :: "blob_hasher \<Rightarrow> fixture \<Rightarrow> bool" where
  "fixture_passes H f \<longleftrightarrow>
     Encode (SetColor (fx_color f) (NewUnifiedEncoder (fx_context f))) buffer_write []
       (testPatch_Patch H (fx_patch f)) = Inr (fx_diff f)"

subsection \<open>The tests\<close>

text \<open>\<open>TestBinaryFile\<close> and \<open>TestCustomSrcDstPrefix\<close>: a binary file patch
  (no chunks) with both sides, encoded with context 1, default and custom prefixes.\<close>

definition TestBinaryFile_patch :: testPatch where
  "TestBinaryFile_patch =
     \<lparr>tp_message = '''',
      tp_filePatches = [\<lparr>tfp_from = Some \<lparr>tf_path = ''binary'', tf_mode = filemode_Regular, tf_seed = ''something''\<rparr>,
        tfp_to = Some \<lparr>tf_path = ''binary'', tf_mode = filemode_Regular, tf_seed = ''otherthing''\<rparr>,
        tfp_chunks = []\<rparr>]\<rparr>"

definition TestBinaryFile :: "blob_hasher \<Rightarrow> bool" where
  "TestBinaryFile H \<longleftrightarrow>
     Encode (NewUnifiedEncoder 1) buffer_write [] (testPatch_Patch H TestBinaryFile_patch) =
     Inr (''diff --git a/binary b/binary\<newline>'' @
          ''index a459bc245bdbc45e1bca99e7fe61731da5c48da4..6879395eacf3cc7e5634064ccb617ac7aa62be7d 100644\<newline>'' @
          ''Binary files a/binary and b/binary differ\<newline>'')"

definition TestCustomSrcDstPrefix_patch :: testPatch where
  "TestCustomSrcDstPrefix_patch =
     \<lparr>tp_message = '''',
      tp_filePatches = [\<lparr>tfp_from = Some \<lparr>tf_path = ''binary'', tf_mode = filemode_Regular, tf_seed = ''something''\<rparr>,
        tfp_to = Some \<lparr>tf_path = ''binary'', tf_mode = filemode_Regular, tf_seed = ''otherthing''\<rparr>,
        tfp_chunks = []\<rparr>]\<rparr>"

definition TestCustomSrcDstPrefix :: "blob_hasher \<Rightarrow> bool" where
  "TestCustomSrcDstPrefix H \<longleftrightarrow>
     Encode (SetDstPrefix ''dest/prefix/'' (SetSrcPrefix ''source/prefix/'' (NewUnifiedEncoder 1)))
       buffer_write [] (testPatch_Patch H TestCustomSrcDstPrefix_patch) =
     Inr (''diff --git source/prefix/binary dest/prefix/binary\<newline>'' @
          ''index a459bc245bdbc45e1bca99e7fe61731da5c48da4..6879395eacf3cc7e5634064ccb617ac7aa62be7d 100644\<newline>'' @
          ''Binary files source/prefix/binary and dest/prefix/binary differ\<newline>'')"

text \<open>\<open>TestBothFilesEmpty\<close>: a patch of one file patch with neither side encodes
  without error.\<close>

definition TestBothFilesEmpty :: "blob_hasher \<Rightarrow> bool" where
  "TestBothFilesEmpty H \<longleftrightarrow>
     \<not> isl (Encode (NewUnifiedEncoder 1) buffer_write []
              (testPatch_Patch H \<lparr>tp_message = '''',
                 tp_filePatches = [\<lparr>tfp_from = None, tfp_to = None, tfp_chunks = []\<rparr>]\<rparr>))"

definition TestEncode :: "blob_hasher \<Rightarrow> bool" where
  "TestEncode H \<longleftrightarrow> list_all (fixture_passes H) fixtures"

definition side_seed :: "testFile option \<Rightarrow> bytes" where
  "side_seed f = (case f of None \<Rightarrow> [] | Some t \<Rightarrow> tf_seed t)"

subsection \<open>Evaluating the fixtures\<close>

lemma blob_id_hex:
  assumes "blob_ids_ok H" "s \<in> dom (map_of known_blob_ids)"
  shows "hex_string (H s) = the (map_of known_blob_ids s)"
proof -
  obtain y where y: "map_of known_blob_ids s = Some y" using assms(2) by auto
  then have "(s, y) \<in> set known_blob_ids" by (rule map_of_SomeD)
  with assms(1) have "hex_string (H s) = y" by (auto simp: blob_ids_ok_def list_all_iff)
  with y show ?thesis by simp
qed

lemma blob_id_eq:
  assumes "blob_ids_ok H" "s1 \<in> dom (map_of known_blob_ids)" "s2 \<in> dom (map_of known_blob_ids)"
  shows "(H s1 = H s2) = (the (map_of known_blob_ids s1) = the (map_of known_blob_ids s2))"
  using assms blob_id_hex [of H] hex_string_inj by metis

lemmas fixture_eval_simps = model_defs test_producer_defs blob_id_hex blob_id_eq
  known_blob_ids_def digits_in.simps

lemma fx_positive_negative_number_passes:
  "blob_ids_ok H \<Longrightarrow> fixture_passes H fx_positive_negative_number"
  by (simp add: fixture_passes_def fx_positive_negative_number_def fixture_eval_simps)

lemma fx_make_executable_passes:
  "blob_ids_ok H \<Longrightarrow> fixture_passes H fx_make_executable"
  by (simp add: fixture_passes_def fx_make_executable_def fixture_eval_simps)

lemma fx_rename_file_passes:
  "blob_ids_ok H \<Longrightarrow> fixture_passes H fx_rename_file"
  by (simp add: fixture_passes_def fx_rename_file_def fixture_eval_simps)

lemma fx_rename_file_with_changes_passes:
  "blob_ids_ok H \<Longrightarrow> fixture_passes H fx_rename_file_with_changes"
  by (simp add: fixture_passes_def fx_rename_file_with_changes_def fixture_eval_simps)

lemma fx_rename_with_file_mode_change_passes:
  "blob_ids_ok H \<Longrightarrow> fixture_passes H fx_rename_with_file_mode_change"
  by (simp add: fixture_passes_def fx_rename_with_file_mode_change_def fixture_eval_simps)

lemma fx_one_line_change_passes:
  "blob_ids_ok H \<Longrightarrow> fixture_passes H fx_one_line_change"
  by (simp add: fixture_passes_def fx_one_line_change_def fixture_eval_simps)

lemma fx_one_line_change_with_message_passes:
  "blob_ids_ok H \<Longrightarrow> fixture_passes H fx_one_line_change_with_message"
  by (simp add: fixture_passes_def fx_one_line_change_with_message_def fixture_eval_simps)

lemma fx_one_line_change_with_message_no_eol_passes:
  "blob_ids_ok H \<Longrightarrow> fixture_passes H fx_one_line_change_with_message_no_eol"
  by (simp add: fixture_passes_def fx_one_line_change_with_message_no_eol_def fixture_eval_simps)

lemma fx_new_file_passes:
  "blob_ids_ok H \<Longrightarrow> fixture_passes H fx_new_file"
  by (simp add: fixture_passes_def fx_new_file_def fixture_eval_simps)

lemma fx_delete_file_passes:
  "blob_ids_ok H \<Longrightarrow> fixture_passes H fx_delete_file"
  by (simp add: fixture_passes_def fx_delete_file_def fixture_eval_simps)

lemma fx_deleting_lines_ctx1_passes:
  "blob_ids_ok H \<Longrightarrow> fixture_passes H fx_deleting_lines_ctx1"
  by (simp add: fixture_passes_def fx_deleting_lines_ctx1_def oneChunkPatch_def fixture_eval_simps)

lemma fx_deleting_lines_ctx2_passes:
  "blob_ids_ok H \<Longrightarrow> fixture_passes H fx_deleting_lines_ctx2"
  by (simp add: fixture_passes_def fx_deleting_lines_ctx2_def oneChunkPatch_def fixture_eval_simps)

lemma fx_deleting_lines_ctx6_passes:
  "blob_ids_ok H \<Longrightarrow> fixture_passes H fx_deleting_lines_ctx6"
  by (simp add: fixture_passes_def fx_deleting_lines_ctx6_def oneChunkPatch_def fixture_eval_simps)

lemma fx_deleting_lines_ctx3_passes:
  "blob_ids_ok H \<Longrightarrow> fixture_passes H fx_deleting_lines_ctx3"
  by (simp add: fixture_passes_def fx_deleting_lines_ctx3_def oneChunkPatch_def fixture_eval_simps)

lemma fx_deleting_lines_ctx4_passes:
  "blob_ids_ok H \<Longrightarrow> fixture_passes H fx_deleting_lines_ctx4"
  by (simp add: fixture_passes_def fx_deleting_lines_ctx4_def oneChunkPatch_def fixture_eval_simps)

lemma fx_deleting_lines_ctx0_passes:
  "blob_ids_ok H \<Longrightarrow> fixture_passes H fx_deleting_lines_ctx0"
  by (simp add: fixture_passes_def fx_deleting_lines_ctx0_def oneChunkPatch_def fixture_eval_simps)

lemma fx_adding_lines_ctx1_passes:
  "blob_ids_ok H \<Longrightarrow> fixture_passes H fx_adding_lines_ctx1"
  by (simp add: fixture_passes_def fx_adding_lines_ctx1_def oneChunkPatchInverted_def fixture_eval_simps)

lemma fx_adding_lines_ctx2_passes:
  "blob_ids_ok H \<Longrightarrow> fixture_passes H fx_adding_lines_ctx2"
  by (simp add: fixture_passes_def fx_adding_lines_ctx2_def oneChunkPatchInverted_def fixture_eval_simps)

lemma fx_adding_lines_ctx3_passes:
  "blob_ids_ok H \<Longrightarrow> fixture_passes H fx_adding_lines_ctx3"
  by (simp add: fixture_passes_def fx_adding_lines_ctx3_def oneChunkPatchInverted_def fixture_eval_simps)

lemma fx_adding_lines_ctx4_passes:
  "blob_ids_ok H \<Longrightarrow> fixture_passes H fx_adding_lines_ctx4"
  by (simp add: fixture_passes_def fx_adding_lines_ctx4_def oneChunkPatchInverted_def fixture_eval_simps)

lemma fx_adding_lines_ctx0_passes:
  "blob_ids_ok H \<Longrightarrow> fixture_passes H fx_adding_lines_ctx0"
  by (simp add: fixture_passes_def fx_adding_lines_ctx0_def oneChunkPatchInverted_def fixture_eval_simps)

lemma fx_remove_last_letter_passes:
  "blob_ids_ok H \<Longrightarrow> fixture_passes H fx_remove_last_letter"
  by (simp add: fixture_passes_def fx_remove_last_letter_def fixture_eval_simps)

lemma fx_positive_negative_number_color_passes:
  "blob_ids_ok H \<Longrightarrow> fixture_passes H fx_positive_negative_number_color"
  by (simp add: fixture_passes_def fx_positive_negative_number_color_def fixture_eval_simps)

lemma fx_one_line_change_color_passes:
  "blob_ids_ok H \<Longrightarrow> fixture_passes H fx_one_line_change_color"
  by (simp add: fixture_passes_def fx_one_line_change_color_def fixture_eval_simps)

lemma fx_deleting_lines_ctx1_color_passes:
  "blob_ids_ok H \<Longrightarrow> fixture_passes H fx_deleting_lines_ctx1_color"
  by (simp add: fixture_passes_def fx_deleting_lines_ctx1_color_def oneChunkPatch_def fixture_eval_simps)

lemma table_hasher_ok: "blob_ids_ok table_hasher"
  by code_simp

lemmas fixture_passes_lemmas = fx_positive_negative_number_passes fx_make_executable_passes fx_rename_file_passes fx_rename_file_with_changes_passes fx_rename_with_file_mode_change_passes fx_one_line_change_passes fx_one_line_change_with_message_passes fx_one_line_change_with_message_no_eol_passes fx_new_file_passes fx_delete_file_passes fx_deleting_lines_ctx1_passes fx_deleting_lines_ctx2_passes fx_deleting_lines_ctx6_passes fx_deleting_lines_ctx3_passes fx_deleting_lines_ctx4_passes fx_deleting_lines_ctx0_passes fx_adding_lines_ctx1_passes fx_adding_lines_ctx2_passes fx_adding_lines_ctx3_passes fx_adding_lines_ctx4_passes fx_adding_lines_ctx0_passes fx_remove_last_letter_passes fx_positive_negative_number_color_passes fx_one_line_change_color_passes fx_deleting_lines_ctx1_color_passes

subsection \<open>Properties of the test suite\<close>

text \<open>C2: \<open>TestEncode\<close> against the model: for every hasher that agrees with git on
  the fixtures' seeds, encoding each fixture's patch into an empty buffer returns
  no error and exactly the fixture's expected bytes, for all fixtures but the
  twenty-third ("remove last letter and no newline at end of file").\<close>

theorem TestEncode_holds_but_one:
  assumes "blob_ids_ok H"
  shows "list_all (fixture_passes H) (take 22 fixtures @ drop 23 fixtures)"
  using assms by (simp add: fixtures_def fixture_passes_lemmas)

theorem TestEncode_holds_but_one_witness:
  "blob_ids_ok table_hasher \<and>
   list_all (fixture_passes table_hasher) (take 22 fixtures @ drop 23 fixtures)"
  using table_hasher_ok TestEncode_holds_but_one [OF table_hasher_ok] by simp

text \<open>The twenty-third fixture does not hold of the spec: the spec's rule
  (a hunk starts \<open>|pre_ctx|\<close> lines above the current line numbers, 4.3.2) puts
  the added line \<open>Y\<close> at new line 22, while the fixture expects
  \<open>@@ -22,2 +21 @@ X\<close>; so \<open>TestEncode\<close> as a whole fails against the spec.\<close>

theorem TestEncode_remove_last_letter_diverges:
  assumes "blob_ids_ok H"
  shows "Encode (SetColor (fx_color fx_remove_last_letter_no_eol)
            (NewUnifiedEncoder (fx_context fx_remove_last_letter_no_eol))) buffer_write []
            (testPatch_Patch H (fx_patch fx_remove_last_letter_no_eol)) =
         Inr (''diff --git a/onechunk.txt b/onechunk.txt\<newline>'' @
              ''index 0adddcde4fd38042c354518351820eb06c417c82..d39ae38aad7ba9447b5e7998b2e4714f26c9218d 100644\<newline>'' @
              ''--- a/onechunk.txt\<newline>'' @
              ''+++ b/onechunk.txt\<newline>'' @
              ''@@ -22,2 +22 @@ X\<newline>'' @
              ''-Y\<newline>'' @
              ''-Z\<newline>'' @ [backslash] @ '' No newline at end of file\<newline>'' @
              ''+Y\<newline>'' @ [backslash] @ '' No newline at end of file\<newline>'') \<and>
         \<not> fixture_passes H fx_remove_last_letter_no_eol \<and> \<not> TestEncode H"
proof -
  have run: "Encode (SetColor (fx_color fx_remove_last_letter_no_eol)
            (NewUnifiedEncoder (fx_context fx_remove_last_letter_no_eol))) buffer_write []
            (testPatch_Patch H (fx_patch fx_remove_last_letter_no_eol)) =
         Inr (''diff --git a/onechunk.txt b/onechunk.txt\<newline>'' @
              ''index 0adddcde4fd38042c354518351820eb06c417c82..d39ae38aad7ba9447b5e7998b2e4714f26c9218d 100644\<newline>'' @
              ''--- a/onechunk.txt\<newline>'' @
              ''+++ b/onechunk.txt\<newline>'' @
              ''@@ -22,2 +22 @@ X\<newline>'' @
              ''-Y\<newline>'' @
              ''-Z\<newline>'' @ [backslash] @ '' No newline at end of file\<newline>'' @
              ''+Y\<newline>'' @ [backslash] @ '' No newline at end of file\<newline>'')"
    using assms by (simp add: fx_remove_last_letter_no_eol_def fixture_eval_simps)
  moreover have "\<not> fixture_passes H fx_remove_last_letter_no_eol"
    using run by (simp add: fixture_passes_def fx_remove_last_letter_no_eol_def)
  moreover have "fx_remove_last_letter_no_eol \<in> set fixtures"
    by (simp add: fixtures_def)
  ultimately show ?thesis by (auto simp: TestEncode_def list_all_iff)
qed

theorem TestEncode_remove_last_letter_diverges_witness:
  "blob_ids_ok table_hasher \<and> \<not> TestEncode table_hasher"
  using table_hasher_ok TestEncode_remove_last_letter_diverges [OF table_hasher_ok] by simp

text \<open>\<open>TestBinaryFile\<close> and \<open>TestCustomSrcDstPrefix\<close> hold of the model: a
  content change with no chunks gives the \<open>index\<close> line with the mode and the
  binary sentinel, under the default and under custom prefixes.\<close>

theorem TestBinaryFile_holds:
  assumes "blob_ids_ok H"
  shows "TestBinaryFile H \<and> TestCustomSrcDstPrefix H"
  using assms by (simp add: TestBinaryFile_def TestBinaryFile_patch_def TestCustomSrcDstPrefix_def
      TestCustomSrcDstPrefix_patch_def fixture_eval_simps)

theorem TestBinaryFile_holds_witness:
  "blob_ids_ok table_hasher \<and> TestBinaryFile table_hasher \<and> TestCustomSrcDstPrefix table_hasher"
  using table_hasher_ok TestBinaryFile_holds [OF table_hasher_ok] by simp

text \<open>\<open>TestBothFilesEmpty\<close> holds of the model for every hasher: a file patch
  with neither side writes nothing and returns no error.\<close>

theorem TestBothFilesEmpty_holds:
  "TestBothFilesEmpty H \<and>
   Encode (NewUnifiedEncoder 1) buffer_write []
     (testPatch_Patch H \<lparr>tp_message = '''',
        tp_filePatches = [\<lparr>tfp_from = None, tfp_to = None, tfp_chunks = []\<rparr>]\<rparr>) = Inr []"
  by (simp add: TestBothFilesEmpty_def fixture_eval_simps)

end
