(* ===== verification/FixtureText.thy ===== *)
theory FixtureText
  imports Fixtures
begin

text \<open>
  A reading of the fixtures' expected outputs that does not go through the
  encoder: each expected diff is cut into its \<open>@@\<close> hunks, each header is parsed,
  and the hunk's old side (context and \<open>-\<close> lines) and new side (context and
  \<open>+\<close> lines) are looked up in the fixture's from and to seeds at the lines the
  header names.  This checks the test data against itself: a fixture whose
  header addresses the wrong lines of its own seeds is wrong whatever encoder
  runs against it.  The colour escapes of the three coloured fixtures are
  removed by \<open>strip_esc\<close> (an escape runs from \<open>ESC\<close> to the next \<open>m\<close>).
\<close>

text \<open>Removing SGR escapes: the flag says whether an escape is open.\<close>

fun strip_esc :: "bool \<Rightarrow> bytes \<Rightarrow> bytes" where
  "strip_esc _ [] = []"
| "strip_esc True (c # cs) = strip_esc (c \<noteq> CHR ''m'') cs"
| "strip_esc False (c # cs) = (if c = esc_char then strip_esc True cs else c # strip_esc False cs)"

text \<open>The lines of a file content, without their newlines.\<close>

definition text_lines :: "bytes \<Rightarrow> bytes list" where
  "text_lines s = (let p = split_nl s in if last p = [] then butlast p else p)"

definition is_hunk_header :: "bytes \<Rightarrow> bool" where
  "is_hunk_header l \<longleftrightarrow> take 4 l = ''@@ -''"

definition is_hunk_body :: "bytes \<Rightarrow> bool" where
  "is_hunk_body l \<longleftrightarrow> l \<noteq> [] \<and> hd l \<in> {CHR '' '', CHR ''-'', CHR ''+'', backslash}"

text \<open>The hunks of a diff text: each \<open>@@ -\<close> header line with the body lines
  after it (lines starting with a space, \<open>-\<close>, \<open>+\<close> or a backslash).\<close>

function hunk_blocks :: "bytes list \<Rightarrow> (bytes \<times> bytes list) list" where
  "hunk_blocks [] = []"
| "hunk_blocks (l # ls) =
     (if is_hunk_header l then (l, takeWhile is_hunk_body ls) # hunk_blocks (dropWhile is_hunk_body ls)
      else hunk_blocks ls)"
  by pat_completeness auto
termination
  by (relation "measure length") (auto simp: le_imp_less_Suc length_dropWhile_le)

text \<open>A side of a header: \<open>line,count\<close>, or \<open>line\<close> for a count of 1.\<close>

definition parse_range :: "bytes \<Rightarrow> (nat \<times> nat) option" where
  "parse_range r =
     (let a = takeWhile (\<lambda>c. c \<noteq> CHR '','') r; b = drop (Suc (length a)) r in
      case parse_nat_in 10 a of
        None \<Rightarrow> None
      | Some x \<Rightarrow> if length a = length r then Some (x, 1)
                  else map_option (Pair x) (parse_nat_in 10 b))"

definition parse_hunk_header :: "bytes \<Rightarrow> (nat \<times> nat \<times> nat \<times> nat) option" where
  "parse_hunk_header l =
     (let rest = drop 4 l; r1 = takeWhile (\<lambda>c. c \<noteq> CHR '' '') rest;
          rest2 = drop (length r1) rest in
      if take 2 rest2 \<noteq> '' +'' then None
      else (let r2 = takeWhile (\<lambda>c. c \<noteq> CHR '' '') (drop 2 rest2) in
            case (parse_range r1, parse_range r2) of
              (Some (a, b), Some (c, d)) \<Rightarrow> Some (a, b, c, d)
            | _ \<Rightarrow> None))"

definition side_of :: "char \<Rightarrow> bytes list \<Rightarrow> bytes list" where
  "side_of p body = map tl (filter (\<lambda>l. hd l = CHR '' '' \<or> hd l = p) body)"

text \<open>A side of a hunk matches a file when it has the header's count of lines and,
  for a non-empty side, they are the file's lines from the header's line on.\<close>

definition range_matches :: "nat \<Rightarrow> nat \<Rightarrow> bytes list \<Rightarrow> bytes list \<Rightarrow> bool" where
  "range_matches start cnt side file \<longleftrightarrow>
     length side = cnt \<and> (cnt = 0 \<or> take cnt (drop (start - 1) file) = side)"

definition hunk_text_ok :: "bytes list \<Rightarrow> bytes list \<Rightarrow> bytes \<times> bytes list \<Rightarrow> bool" where
  "hunk_text_ok old new hb =
     (case parse_hunk_header (fst hb) of
        None \<Rightarrow> False
      | Some (a, b, c, d) \<Rightarrow>
          range_matches a b (side_of (CHR ''-'') (snd hb)) old \<and>
          range_matches c d (side_of (CHR ''+'') (snd hb)) new)"

definition diff_text_consistent :: "bytes \<Rightarrow> bytes \<Rightarrow> bytes \<Rightarrow> bool" where
  "diff_text_consistent d old new \<longleftrightarrow>
     list_all (hunk_text_ok (text_lines old) (text_lines new)) (hunk_blocks (split_nl (strip_esc False d)))"

definition fixture_text_consistent :: "fixture \<Rightarrow> bool" where
  "fixture_text_consistent f \<longleftrightarrow>
     (case tp_filePatches (fx_patch f) of
        [fp] \<Rightarrow> diff_text_consistent (fx_diff f) (side_seed (tfp_from fp)) (side_seed (tfp_to fp))
      | _ \<Rightarrow> False)"


subsection \<open>Properties of the test data\<close>

text \<open>The expected outputs address their own seeds: in every fixture but the
  twenty-third, each hunk's old and new sides are the lines of the from and to
  seeds that its \<open>@@\<close> header names; in the twenty-third
  ("remove last letter and no newline at end of file") the header
  \<open>@@ -22,2 +21 @@\<close> puts the added line \<open>Y\<close> at line 21 of the to seed,
  where line 21 is \<open>X\<close> and \<open>Y\<close> is line 22.\<close>

theorem fixtures_address_their_seeds:
  "list_all (\<lambda>f. fx_desc f = ''remove last letter and no newline at end of file'' \<or>
      fixture_text_consistent f) fixtures \<and>
   \<not> fixture_text_consistent fx_remove_last_letter_no_eol \<and>
   drop 20 (text_lines (side_seed (tfp_to (hd (tp_filePatches (fx_patch fx_remove_last_letter_no_eol))))))
     = [''X'', ''Y'']"
  by code_simp

end
