(* ===== verification/HunkSpec.thy ===== *)
theory HunkSpec
  imports Hunks
begin

text \<open>
  A declarative specification of the hunks of a line stream and the proof that
  the streaming hunk builder of \<open>Hunks\<close> computes it
  (\<open>generate_ref\<close>).  The specification (\<open>ref_hunks\<close>) reads as the
  unified-diff format is usually described: the changed lines are grouped, two
  changes falling in one group when at most \<open>2k\<close> Equal lines lie between
  them, and each group is shown with \<open>k\<close> lines of context on either side,
  clipped to the file.  The proof is an invariant of \<open>step_line\<close>
  (\<open>gen_inv\<close>) relating the builder's state after a prefix of the stream to
  the groups of that prefix.  From the specification follow the testable
  properties of spec section 8 on hunks: every hunk is a window of the stream
  whose header addresses both files, successive hunks are separated by at
  least one hidden line, leading and trailing context is at most \<open>k\<close>, a
  context of 0 shows no Equal line, an Equal-only stream has no hunk, and no
  change is lost or repeated.
\<close>


text \<open>The number of lines a line list has on the old side (Equal and Delete
  lines) and on the new side (Equal and Add lines).\<close>

definition old_len :: "line list \<Rightarrow> nat" where
  "old_len ls = length (filter (\<lambda>l. lop l \<noteq> Add) ls)"

definition new_len :: "line list \<Rightarrow> nat" where
  "new_len ls = length (filter (\<lambda>l. lop l \<noteq> Delete) ls)"

text \<open>The positions of the Delete and Add lines of a line stream, in order.\<close>

definition changes :: "line list \<Rightarrow> nat list" where
  "changes ls = filter (\<lambda>i. lop (ls ! i) \<noteq> Equal) [0..<length ls]"

text \<open>Grouping the changes, left to right: a change joins the last group when
  at most \<open>2k\<close> Equal lines separate it from that group's last change, and
  opens a new group otherwise.  A group is the pair of its first and last
  change.\<close>

definition add_change :: "nat \<Rightarrow> (nat \<times> nat) list \<Rightarrow> nat \<Rightarrow> (nat \<times> nat) list" where
  "add_change k gs i =
     (if gs \<noteq> [] \<and> i \<le> snd (last gs) + Suc (2 * k) then butlast gs @ [(fst (last gs), i)]
      else gs @ [(i, i)])"

definition groups :: "nat \<Rightarrow> nat list \<Rightarrow> (nat \<times> nat) list" where
  "groups k cs = foldl (add_change k) [] cs"

text \<open>The hunk of a group: the lines from \<open>k\<close> before its first change to
  \<open>k\<close> after its last one, clipped to the file; its line numbers count the
  old and new lines before it, and its function context is the line just
  above it.\<close>

definition ref_hunk :: "nat \<Rightarrow> line list \<Rightarrow> nat \<times> nat \<Rightarrow> hunk" where
  "ref_hunk k ls g =
     (let s = fst g - k; e = min (length ls) (Suc (snd g) + k) in
      \<lparr>old_line = Suc (old_len (take s ls)), new_line = Suc (new_len (take s ls)),
       func_ctx = (if s = 0 then None else Some (ltext (ls ! (s - 1)))),
       ops = take (e - s) (drop s ls)\<rparr>)"

definition ref_hunks :: "nat \<Rightarrow> line list \<Rightarrow> hunk list" where
  "ref_hunks k ls = map (ref_hunk k ls) (groups k (changes ls))"

text \<open>The invariant of the walk after a prefix \<open>ps\<close> of the stream.  With no
  open hunk, every group of \<open>ps\<close> is flushed as its reference hunk, at least
  \<open>2k + 1\<close> Equal lines follow the last change, and the window holds the last
  \<open>k\<close> lines of \<open>ps\<close> with the line before them as evicted line.  With a
  hunk open, the flushed hunks are those of all groups but the last, the open
  hunk is the reference hunk of the last group extended to the end of \<open>ps\<close>,
  and \<open>esc\<close> counts the lines after the last change.\<close>

definition window_ok :: "nat \<Rightarrow> line list \<Rightarrow> hgen \<Rightarrow> bool" where
  "window_ok k ps st \<longleftrightarrow>
     pre_ctx st = drop (length ps - k) ps \<and>
     evicted st = (if k < length ps then Some (ps ! (length ps - Suc k)) else None)"

abbreviation separated :: "nat \<Rightarrow> nat \<times> nat \<Rightarrow> nat \<times> nat \<Rightarrow> bool" where
  "separated k g g' \<equiv> snd g + 2 * k + 1 < fst g'"

definition gen_inv :: "nat \<Rightarrow> line list \<Rightarrow> hgen \<Rightarrow> bool" where
  "gen_inv k ps st \<longleftrightarrow>
     old_ln st = Suc (old_len ps) \<and> new_ln st = Suc (new_len ps) \<and>
     (let gs = groups k (changes ps) in
      case cur st of
        None \<Rightarrow> flushed st = map (ref_hunk k ps) gs \<and> esc st = 0 \<and> window_ok k ps st \<and>
               (gs \<noteq> [] \<longrightarrow> snd (last gs) + 2 * k + 2 \<le> length ps)
      | Some h \<Rightarrow> gs \<noteq> [] \<and> pre_ctx st = [] \<and> esc st = length ps - Suc (snd (last gs)) \<and>
               esc st \<le> 2 * k \<and> flushed st = map (ref_hunk k ps) (butlast gs) \<and>
               h = (ref_hunk k ps (last gs))\<lparr>ops := drop (fst (last gs) - k) ps\<rparr>)"

subsection \<open>Line counts\<close>

lemma old_len_Nil [simp]: "old_len [] = 0" and new_len_Nil [simp]: "new_len [] = 0"
  by (simp_all add: old_len_def new_len_def)

lemma old_len_append [simp]: "old_len (xs @ ys) = old_len xs + old_len ys"
  by (simp add: old_len_def)

lemma new_len_append [simp]: "new_len (xs @ ys) = new_len xs + new_len ys"
  by (simp add: new_len_def)

lemma old_len_single [simp]: "old_len [l] = (if lop l = Add then 0 else 1)"
  by (simp add: old_len_def)

lemma new_len_single [simp]: "new_len [l] = (if lop l = Delete then 0 else 1)"
  by (simp add: new_len_def)

lemma len_all_equal:
  "\<forall>l\<in>set xs. lop l = Equal \<Longrightarrow> old_len xs = length xs \<and> new_len xs = length xs"
  by (simp add: old_len_def new_len_def)

subsection \<open>Changes\<close>

lemma changes_Nil [simp]: "changes [] = []"
  by (simp add: changes_def)

lemma changes_snoc:
  "changes (ps @ [l]) = changes ps @ (if lop l = Equal then [] else [length ps])"
proof -
  have "filter (\<lambda>i. lop ((ps @ [l]) ! i) \<noteq> Equal) [0..<length ps] =
        filter (\<lambda>i. lop (ps ! i) \<noteq> Equal) [0..<length ps]"
    by (rule filter_cong) (simp_all add: nth_append)
  then show ?thesis by (simp add: changes_def)
qed

lemma set_changes: "set (changes ps) = {i. i < length ps \<and> lop (ps ! i) \<noteq> Equal}"
  by (auto simp: changes_def)

lemma sorted_changes: "sorted (changes ps)"
  unfolding changes_def by (rule sorted_wrt_filter) simp

lemma drop_all_equal:
  assumes "\<forall>c\<in>set (changes ps). c < j"
  shows "\<forall>l\<in>set (drop j ps). lop l = Equal"
proof
  fix l assume "l \<in> set (drop j ps)"
  then obtain i where i: "i < length ps - j" "l = ps ! (j + i)"
    by (auto simp: in_set_conv_nth)
  show "lop l = Equal"
  proof (rule ccontr)
    assume "lop l \<noteq> Equal"
    with i have "j + i \<in> set (changes ps)" by (simp add: set_changes)
    with assms show False by auto
  qed
qed

subsection \<open>Groups of changes\<close>

lemma groups_Nil [simp]: "groups k [] = []"
  by (simp add: groups_def)

lemma groups_snoc: "groups k (cs @ [i]) = add_change k (groups k cs) i"
  by (simp add: groups_def)

lemma add_change_nonempty [simp]: "add_change k gs i \<noteq> []"
  by (simp add: add_change_def)

lemma groups_eq_Nil [simp]: "groups k cs = [] \<longleftrightarrow> cs = []"
  by (induction cs rule: rev_induct) (simp_all add: groups_snoc)

lemma groups_last: "cs \<noteq> [] \<Longrightarrow> snd (last (groups k cs)) = last cs"
  by (induction cs rule: rev_induct) (auto simp: groups_snoc add_change_def)

lemma groups_props:
  "sorted cs \<Longrightarrow>
   (\<forall>g\<in>set (groups k cs). fst g \<le> snd g \<and> fst g \<in> set cs \<and> snd g \<in> set cs) \<and>
   sorted_wrt (separated k) (groups k cs)"
proof (induction cs rule: rev_induct)
  case Nil
  then show ?case by simp
next
  case (snoc i cs)
  let ?gs = "groups k cs"
  from snoc.prems have sc: "sorted cs" and le: "\<forall>c\<in>set cs. c \<le> i"
    by (simp_all add: sorted_append)
  note IH = snoc.IH [OF sc]
  show ?case
  proof (cases "?gs \<noteq> [] \<and> i \<le> snd (last ?gs) + Suc (2 * k)")
    case True
    then have ne: "cs \<noteq> []" and lastin: "last ?gs \<in> set ?gs" by auto
    have ab: "fst (last ?gs) \<le> i" "fst (last ?gs) \<in> set cs"
      using IH lastin le by fastforce+
    have "sorted_wrt (separated k) (butlast ?gs) \<and>
          (\<forall>g\<in>set (butlast ?gs). separated k g (last ?gs))"
      using IH True sorted_wrt_butlast_last [of ?gs "separated k"] by blast
    then have "sorted_wrt (separated k) (butlast ?gs @ [(fst (last ?gs), i)])"
      by (simp add: sorted_wrt_snoc)
    moreover have "\<forall>g\<in>set (butlast ?gs). fst g \<le> snd g \<and> fst g \<in> set (cs @ [i]) \<and> snd g \<in> set (cs @ [i])"
      using IH by (auto dest: in_set_butlastD)
    ultimately show ?thesis
      using True ab by (simp add: groups_snoc add_change_def)
  next
    case False
    have "separated k g (i, i)" if "g \<in> set ?gs" for g
    proof -
      have ne: "cs \<noteq> []" using that by auto
      have "snd g \<le> last cs" using IH that sc by (auto intro: sorted_le_last)
      with groups_last [OF ne, of k] False that show ?thesis by auto
    qed
    then have "sorted_wrt (separated k) (?gs @ [(i, i)])"
      using IH by (simp add: sorted_wrt_append)
    moreover have "\<forall>g\<in>set (?gs @ [(i, i)]). fst g \<le> snd g \<and> fst g \<in> set (cs @ [i]) \<and> snd g \<in> set (cs @ [i])"
      using IH by auto
    moreover have "groups k (cs @ [i]) = ?gs @ [(i, i)]"
      unfolding groups_snoc add_change_def using False by (simp only: if_False)
    ultimately show ?thesis by simp
  qed
qed


subsection \<open>The reference hunk of a group on a growing prefix\<close>

lemma ref_hunk_prefix:
  assumes "fst g' = fst g" "fst g - k \<le> length ps"
  shows "(ref_hunk k (ps @ qs) g')\<lparr>ops := x\<rparr> = (ref_hunk k ps g)\<lparr>ops := x\<rparr>"
  using assms by (simp add: ref_hunk_def Let_def nth_append) arith

lemma ref_hunk_append:
  assumes "fst g \<le> snd g" "Suc (snd g) + k \<le> length ps"
  shows "ref_hunk k (ps @ qs) g = ref_hunk k ps g"
  using assms by (simp add: ref_hunk_def Let_def nth_append min_def) arith

subsection \<open>The window\<close>

lemma push_pre_fields [simp]:
  "old_ln (push_pre k l st) = old_ln st" "new_ln (push_pre k l st) = new_ln st"
  "cur (push_pre k l st) = cur st" "esc (push_pre k l st) = esc st"
  "flushed (push_pre k l st) = flushed st"
  by (simp_all add: push_pre_def Let_def)

lemma fold_push_pre_fields [simp]:
  "old_ln (fold (push_pre k) xs st) = old_ln st" "new_ln (fold (push_pre k) xs st) = new_ln st"
  "cur (fold (push_pre k) xs st) = cur st" "esc (fold (push_pre k) xs st) = esc st"
  "flushed (fold (push_pre k) xs st) = flushed st"
  by (induction xs arbitrary: st) simp_all

lemma advance_fields [simp]:
  "pre_ctx (advance opr st) = pre_ctx st" "evicted (advance opr st) = evicted st"
  "cur (advance opr st) = cur st" "esc (advance opr st) = esc st"
  "flushed (advance opr st) = flushed st"
  by (simp_all add: advance_def)

lemma push_pre_window:
  assumes "window_ok k ps st"
  shows "window_ok k (ps @ [l]) (push_pre k l st)"
proof (cases "k \<le> length ps")
  case True
  have "drop (length ps - k) ps @ [l] = drop (length ps - k) (ps @ [l])" by simp
  also have "\<dots> = (ps @ [l]) ! (length ps - k) # drop (Suc (length ps - k)) (ps @ [l])"
    by (rule Cons_nth_drop_Suc [symmetric]) simp
  also have "Suc (length ps - k) = Suc (length ps) - k" using True by simp
  finally have eq: "drop (length ps - k) ps @ [l] =
      (ps @ [l]) ! (length ps - k) # drop (Suc (length ps) - k) (ps @ [l])" .
  then show ?thesis
    using assms True by (simp add: window_ok_def push_pre_def Let_def eq)
next
  case False
  then show ?thesis
    using assms by (simp add: window_ok_def push_pre_def Let_def)
qed

lemma window_ok_close:
  assumes "k < length qs" "pre_ctx X = tl (drop (length qs - Suc k) qs)"
    "evicted X = Some (hd (drop (length qs - Suc k) qs))"
  shows "window_ok k qs X"
proof -
  have "tl (drop (length qs - Suc k) qs) = drop (Suc (length qs - Suc k)) qs"
    by (simp add: tl_drop drop_Suc)
  also have "Suc (length qs - Suc k) = length qs - k" using assms(1) by simp
  finally have "tl (drop (length qs - Suc k) qs) = drop (length qs - k) qs" .
  moreover have "hd (drop (length qs - Suc k) qs) = qs ! (length qs - Suc k)"
    using assms(1) by (simp add: hd_drop_conv_nth)
  ultimately show ?thesis using assms by (simp add: window_ok_def)
qed

lemma fold_push_fill:
  "length (pre_ctx st) + length xs \<le> k \<Longrightarrow> fold (push_pre k) xs st = st\<lparr>pre_ctx := pre_ctx st @ xs\<rparr>"
  by (induction xs arbitrary: st) (simp_all add: push_pre_def Let_def)

lemma fold_push_close:
  assumes "length xs = Suc k" "pre_ctx st = []"
  shows "pre_ctx (fold (push_pre k) xs st) = tl xs \<and> evicted (fold (push_pre k) xs st) = Some (hd xs)"
proof -
  obtain ys y where xs: "xs = ys @ [y]" and ys: "length ys = k"
    using assms(1) by (cases xs rule: rev_cases) auto
  then have "fold (push_pre k) ys st = st\<lparr>pre_ctx := ys\<rparr>"
    using assms(2) by (simp add: fold_push_fill)
  then show ?thesis
    using xs ys by (cases ys) (simp_all add: push_pre_def Let_def assms(2))
qed

lemma advance_ln [simp]:
  "old_ln (advance opr st) = (if opr = Add then old_ln st else Suc (old_ln st))"
  "new_ln (advance opr st) = (if opr = Delete then new_ln st else Suc (new_ln st))"
  by (simp_all add: advance_def)

lemma window_ok_advance [simp]: "window_ok k ps (advance opr st) = window_ok k ps st"
  by (simp add: window_ok_def)

lemma hunk_ops_self: "ops r = x \<Longrightarrow> r\<lparr>ops := x\<rparr> = r"
  by (cases r) simp

lemma ops_ref_hunk:
  "ops (ref_hunk k ls g) = take (min (length ls) (Suc (snd g) + k) - (fst g - k)) (drop (fst g - k) ls)"
  by (simp add: ref_hunk_def Let_def)

subsection \<open>What the invariant tells of the prefix\<close>

lemma groups_changes:
  assumes ne: "groups k (changes ps) \<noteq> []"
  shows "snd (last (groups k (changes ps))) < length ps"
    "\<forall>g\<in>set (groups k (changes ps)). fst g \<le> snd g \<and> snd g \<le> snd (last (groups k (changes ps)))"
    "\<forall>g\<in>set (butlast (groups k (changes ps))). snd g + 2 * k + 1 < fst (last (groups k (changes ps)))"
    "\<forall>l\<in>set (drop (Suc (snd (last (groups k (changes ps))))) ps). lop l = Equal"
proof -
  let ?cs = "changes ps"
  have cs: "?cs \<noteq> []" using ne by simp
  have lst: "snd (last (groups k ?cs)) = last ?cs" by (rule groups_last [OF cs])
  have P: "(\<forall>g\<in>set (groups k ?cs). fst g \<le> snd g \<and> fst g \<in> set ?cs \<and> snd g \<in> set ?cs) \<and>
           sorted_wrt (separated k) (groups k ?cs)"
    by (rule groups_props [OF sorted_changes])
  have le: "c \<le> last ?cs" if "c \<in> set ?cs" for c
    using sorted_le_last [OF sorted_changes that] .
  show "snd (last (groups k ?cs)) < length ps"
  proof -
    have "last ?cs \<in> set ?cs" using cs by simp
    then show ?thesis using lst by (simp add: set_changes)
  qed
  show "\<forall>g\<in>set (groups k ?cs). fst g \<le> snd g \<and> snd g \<le> snd (last (groups k ?cs))"
    using P le lst by auto
  show "\<forall>g\<in>set (butlast (groups k ?cs)). snd g + 2 * k + 1 < fst (last (groups k ?cs))"
    using sorted_wrt_butlast_last [OF ne, of "separated k"] P by blast
  show "\<forall>l\<in>set (drop (Suc (snd (last (groups k ?cs)))) ps). lop l = Equal"
    using le lst by (intro drop_all_equal) (simp add: less_Suc_eq_le)
qed

lemma no_groups_equal: "groups k (changes ps) = [] \<Longrightarrow> \<forall>l\<in>set ps. lop l = Equal"
  using drop_all_equal [of ps 0] by simp

lemma map_ref_hunk_append:
  assumes "\<forall>g\<in>set gs. fst g \<le> snd g \<and> Suc (snd g) + k \<le> length ps"
  shows "map (ref_hunk k (ps @ qs)) gs = map (ref_hunk k ps) gs"
  using assms by (simp add: ref_hunk_append)


subsection \<open>One step of the walk preserves the invariant\<close>

lemma gen_inv_some:
  assumes "gen_inv k ps st" "cur st = Some h"
  defines "gs \<equiv> groups k (changes ps)"
  shows "gs \<noteq> []" "pre_ctx st = []" "esc st = length ps - Suc (snd (last gs))" "esc st \<le> 2 * k"
    "flushed st = map (ref_hunk k ps) (butlast gs)"
    "h = (ref_hunk k ps (last gs))\<lparr>ops := drop (fst (last gs) - k) ps\<rparr>"
    "old_ln st = Suc (old_len ps)" "new_ln st = Suc (new_len ps)"
    "fst (last gs) \<le> snd (last gs)" "snd (last gs) < length ps"
    "map (ref_hunk k (ps @ qs)) (butlast gs) = map (ref_hunk k ps) (butlast gs)"
proof -
  show ne: "gs \<noteq> []" and "pre_ctx st = []" "esc st = length ps - Suc (snd (last gs))" "esc st \<le> 2 * k"
    "flushed st = map (ref_hunk k ps) (butlast gs)"
    "h = (ref_hunk k ps (last gs))\<lparr>ops := drop (fst (last gs) - k) ps\<rparr>"
    "old_ln st = Suc (old_len ps)" "new_ln st = Suc (new_len ps)"
    using assms by (simp_all add: gen_inv_def Let_def)
  note G = groups_changes [OF ne [unfolded gs_def]]
  show ab: "fst (last gs) \<le> snd (last gs)" and bn: "snd (last gs) < length ps"
    using G(1,2) ne unfolding gs_def by auto
  have "\<forall>g\<in>set (butlast gs). fst g \<le> snd g \<and> Suc (snd g) + k \<le> length ps"
    using G(2,3) ab bn unfolding gs_def by (fastforce dest: in_set_butlastD)
  then show "map (ref_hunk k (ps @ qs)) (butlast gs) = map (ref_hunk k ps) (butlast gs)"
    by (rule map_ref_hunk_append)
qed

lemma step_equal_some:
  assumes inv: "gen_inv k ps st" and cur: "cur st = Some h" and eq: "lop l = Equal"
  shows "gen_inv k (ps @ [l]) (step_line k st l)"
proof -
  let ?gs = "groups k (changes ps)"
  let ?s = "fst (last ?gs) - k" and ?b = "snd (last ?gs)"
  note I = gen_inv_some(1-10) [OF inv cur] gen_inv_some(11) [OF inv cur, where qs = "[l]"]
  have ch: "changes (ps @ [l]) = changes ps" using eq by (simp add: changes_snoc)
  have ops': "ops h @ [l] = drop ?s (ps @ [l])" using I(6,9,10) by simp
  have keep: "(ref_hunk k (ps @ [l]) (last ?gs))\<lparr>ops := x\<rparr> = (ref_hunk k ps (last ?gs))\<lparr>ops := x\<rparr>" for x
    using I(9,10) by (intro ref_hunk_prefix) auto
  show ?thesis
  proof (cases "2 * k < Suc (esc st)")
    case True
    then have n: "length ps = ?b + 2 * k + 1" using I(3,4,10) by simp
    let ?m = "length (ops h @ [l]) - Suc (esc st) + k"
    let ?st0 = "st\<lparr>flushed := flushed st @ [(h\<lparr>ops := ops h @ [l]\<rparr>)\<lparr>ops := take ?m (ops h @ [l])\<rparr>],
                   cur := None, esc := 0\<rparr>"
    have m: "?m = Suc ?b + k - ?s" using n I(3,9) ops' by simp
    have xs: "drop ?m (ops h @ [l]) = drop (length ps - k) (ps @ [l])"
      using ops' m n I(9) by (simp add: add.commute)
    have step: "step_line k st l = advance Equal (fold (push_pre k) (drop ?m (ops h @ [l])) ?st0)"
      using cur eq True by (simp add: step_line_def equal_in_hunk_def Let_def)
    have "pre_ctx (fold (push_pre k) (drop ?m (ops h @ [l])) ?st0) = tl (drop (length ps - k) (ps @ [l])) \<and>
          evicted (fold (push_pre k) (drop ?m (ops h @ [l])) ?st0) = Some (hd (drop (length ps - k) (ps @ [l])))"
      unfolding xs using n I(2) by (intro fold_push_close) simp_all
    then have win: "window_ok k (ps @ [l]) (fold (push_pre k) (drop ?m (ops h @ [l])) ?st0)"
      using n by (intro window_ok_close) simp_all
    have lastf: "(h\<lparr>ops := ops h @ [l]\<rparr>)\<lparr>ops := take ?m (ops h @ [l])\<rparr> = ref_hunk k (ps @ [l]) (last ?gs)"
    proof -
      have o: "ops (ref_hunk k (ps @ [l]) (last ?gs)) = take ?m (ops h @ [l])"
        using m n ops' by (simp add: ops_ref_hunk min_def)
      have "(h\<lparr>ops := ops h @ [l]\<rparr>)\<lparr>ops := take ?m (ops h @ [l])\<rparr> =
            (ref_hunk k ps (last ?gs))\<lparr>ops := take ?m (ops h @ [l])\<rparr>"
        using I(6) by simp
      also have "\<dots> = (ref_hunk k (ps @ [l]) (last ?gs))\<lparr>ops := take ?m (ops h @ [l])\<rparr>"
        by (rule keep [symmetric])
      also have "\<dots> = ref_hunk k (ps @ [l]) (last ?gs)"
        by (rule hunk_ops_self [OF o])
      finally show ?thesis .
    qed
    have fl: "flushed st @ [ref_hunk k (ps @ [l]) (last ?gs)] = map (ref_hunk k (ps @ [l])) ?gs"
      by (simp only: I(5) I(11) [symmetric] map_butlast_last [OF I(1)])
    show ?thesis
      using I(7,8) eq n win fl lastf by (simp add: gen_inv_def Let_def step ch)
  next
    case False
    have step: "step_line k st l = advance Equal (st\<lparr>cur := Some (h\<lparr>ops := ops h @ [l]\<rparr>), esc := Suc (esc st)\<rparr>)"
      using cur eq False by (simp add: step_line_def equal_in_hunk_def Let_def)
    have hh: "h\<lparr>ops := ops h @ [l]\<rparr> = (ref_hunk k (ps @ [l]) (last ?gs))\<lparr>ops := drop ?s (ps @ [l])\<rparr>"
      using keep I(6) ops' by simp
    show ?thesis
      using I(1,2,3,5,7,8,10,11) False eq hh by (simp add: gen_inv_def Let_def step ch)
  qed
qed


lemma gen_inv_none:
  assumes "gen_inv k ps st" "cur st = None"
  defines "gs \<equiv> groups k (changes ps)"
  shows "flushed st = map (ref_hunk k ps) gs" "esc st = 0" "window_ok k ps st"
    "gs \<noteq> [] \<Longrightarrow> snd (last gs) + 2 * k + 2 \<le> length ps"
    "old_ln st = Suc (old_len ps)" "new_ln st = Suc (new_len ps)"
    "map (ref_hunk k (ps @ qs)) gs = map (ref_hunk k ps) gs"
    "\<forall>l\<in>set (drop (length ps - k) ps). lop l = Equal"
proof -
  show "flushed st = map (ref_hunk k ps) gs" "esc st = 0" "window_ok k ps st"
    and gap: "gs \<noteq> [] \<Longrightarrow> snd (last gs) + 2 * k + 2 \<le> length ps"
    and "old_ln st = Suc (old_len ps)" "new_ln st = Suc (new_len ps)"
    using assms by (simp_all add: gen_inv_def Let_def)
  have "\<forall>g\<in>set gs. fst g \<le> snd g \<and> Suc (snd g) + k \<le> length ps"
  proof
    fix g assume g: "g \<in> set gs"
    then have ne: "gs \<noteq> []" by auto
    show "fst g \<le> snd g \<and> Suc (snd g) + k \<le> length ps"
      using groups_changes(2) [OF ne [unfolded gs_def]] g gap [OF ne] unfolding gs_def by fastforce
  qed
  then show "map (ref_hunk k (ps @ qs)) gs = map (ref_hunk k ps) gs"
    by (rule map_ref_hunk_append)
  show "\<forall>l\<in>set (drop (length ps - k) ps). lop l = Equal"
  proof (cases "gs = []")
    case True
    then show ?thesis using no_groups_equal [of k ps] unfolding gs_def by (meson in_set_dropD)
  next
    case False
    have "set (drop (length ps - k) ps) \<subseteq> set (drop (Suc (snd (last gs))) ps)"
      using gap [OF False] by (intro set_drop_subset_set_drop) simp
    then show ?thesis using groups_changes(4) [OF False [unfolded gs_def]] unfolding gs_def by blast
  qed
qed

lemma step_equal_none:
  assumes inv: "gen_inv k ps st" and cur: "cur st = None" and eq: "lop l = Equal"
  shows "gen_inv k (ps @ [l]) (step_line k st l)"
proof -
  note I = gen_inv_none(1-6) [OF inv cur] gen_inv_none(7) [OF inv cur, where qs = "[l]"]
  have ch: "changes (ps @ [l]) = changes ps" using eq by (simp add: changes_snoc)
  have step: "step_line k st l = advance Equal (push_pre k l st)"
    using cur eq by (simp add: step_line_def)
  show ?thesis
    using I cur eq push_pre_window [OF I(3), of l]
    by (auto simp: gen_inv_def Let_def step ch)
qed

lemma step_change_none:
  assumes inv: "gen_inv k ps st" and cur: "cur st = None" and ch: "lop l \<noteq> Equal"
  shows "gen_inv k (ps @ [l]) (step_line k st l)"
proof -
  let ?gs = "groups k (changes ps)" and ?n = "length ps"
  note I = gen_inv_none(1-6,8) [OF inv cur] gen_inv_none(7) [OF inv cur, where qs = "[l]"]
  have gs': "groups k (changes (ps @ [l])) = ?gs @ [(?n, ?n)]"
    using ch I(4) by (auto simp: changes_snoc groups_snoc add_change_def)
  have pre: "pre_ctx st = drop (?n - k) ps" using I(3) by (simp add: window_ok_def)
  have oldl: "old_len ps = old_len (take (?n - k) ps) + length (drop (?n - k) ps)"
    and newl: "new_len ps = new_len (take (?n - k) ps) + length (drop (?n - k) ps)"
    using len_all_equal [OF I(7)] append_take_drop_id [of "?n - k" ps]
    by (metis old_len_append, metis new_len_append)
  have fc: "map_option ltext (evicted st) =
      (if ?n - k = 0 then None else Some (ltext ((ps @ [l]) ! (?n - k - 1))))"
    using I(3) by (auto simp: window_ok_def nth_append)
  have ol: "old_ln st - length (pre_ctx st) = Suc (old_len (take (?n - k) ps))"
    using I(5) pre oldl by (simp only: add_Suc_right [symmetric] add_diff_cancel_right')
  have nl: "new_ln st - length (pre_ctx st) = Suc (new_len (take (?n - k) ps))"
    using I(6) pre newl by (simp only: add_Suc_right [symmetric] add_diff_cancel_right')
  have h: "(open_hunk st)\<lparr>ops := ops (open_hunk st) @ [l]\<rparr> =
           (ref_hunk k (ps @ [l]) (?n, ?n))\<lparr>ops := drop (?n - k) (ps @ [l])\<rparr>"
    unfolding open_hunk_def ol nl using pre fc by (simp add: ref_hunk_def Let_def)
  have step: "step_line k st l = advance (lop l)
      (st\<lparr>pre_ctx := [], cur := Some ((open_hunk st)\<lparr>ops := ops (open_hunk st) @ [l]\<rparr>), esc := 0\<rparr>)"
    using cur ch by (simp add: step_line_def change_line_def Let_def)
  show ?thesis
    using I(1,5,6,8) h ch by (simp add: gen_inv_def Let_def step gs')
qed

lemma step_change_some:
  assumes inv: "gen_inv k ps st" and cur: "cur st = Some h" and ch: "lop l \<noteq> Equal"
  shows "gen_inv k (ps @ [l]) (step_line k st l)"
proof -
  let ?gs = "groups k (changes ps)" and ?n = "length ps"
  let ?s = "fst (last ?gs) - k"
  note I = gen_inv_some(1-10) [OF inv cur] gen_inv_some(11) [OF inv cur, where qs = "[l]"]
  have gs': "groups k (changes (ps @ [l])) = butlast ?gs @ [(fst (last ?gs), ?n)]"
    using ch I(1,3,4,10) by (auto simp: changes_snoc groups_snoc add_change_def)
  have "h\<lparr>ops := ops h @ [l]\<rparr> = (ref_hunk k ps (last ?gs))\<lparr>ops := drop ?s (ps @ [l])\<rparr>"
    using I(6,9,10) by simp
  also have "\<dots> = (ref_hunk k (ps @ [l]) (fst (last ?gs), ?n))\<lparr>ops := drop ?s (ps @ [l])\<rparr>"
    using I(9,10) by (intro ref_hunk_prefix [symmetric]) auto
  finally have h: "h\<lparr>ops := ops h @ [l]\<rparr> =
      (ref_hunk k (ps @ [l]) (fst (last ?gs), ?n))\<lparr>ops := drop ?s (ps @ [l])\<rparr>" .
  have step: "step_line k st l = advance (lop l) (st\<lparr>cur := Some (h\<lparr>ops := ops h @ [l]\<rparr>), esc := 0\<rparr>)"
    using cur ch by (simp add: step_line_def change_line_def)
  show ?thesis
    using I(2,5,7,8,11) h ch by (simp add: gen_inv_def Let_def step gs')
qed


lemma step_line_inv: "gen_inv k ps st \<Longrightarrow> gen_inv k (ps @ [l]) (step_line k st l)"
  by (cases "cur st"; cases "lop l = Equal")
    (simp_all add: step_equal_none step_equal_some step_change_none step_change_some)

lemma gen_inv_init: "gen_inv k [] hgen_init"
  by (simp add: gen_inv_def hgen_init_def window_ok_def)

lemma gen_inv_foldl: "gen_inv k ls (foldl (step_line k) hgen_init ls)"
  by (induction ls rule: rev_induct) (simp_all add: gen_inv_init step_line_inv)

lemma finish_ref:
  assumes inv: "gen_inv k ps st"
  shows "finish k st = ref_hunks k ps"
proof (cases "cur st")
  case None
  then show ?thesis using gen_inv_none(1) [OF inv None] by (simp add: finish_def ref_hunks_def)
next
  case (Some h)
  let ?gs = "groups k (changes ps)"
  note I = gen_inv_some(1-10) [OF inv Some]
  have o: "ops (ref_hunk k ps (last ?gs)) = take (length (ops h) - esc st + min k (esc st)) (ops h)"
    using I(3,6,9,10) by (simp add: ops_ref_hunk min_def)
  have "finish k st = map (ref_hunk k ps) (butlast ?gs) @ [ref_hunk k ps (last ?gs)]"
    using I(5,6) Some hunk_ops_self [OF o] by (simp add: finish_def)
  then show ?thesis
    using I(1) by (simp add: ref_hunks_def map_butlast_last)
qed

theorem generate_ref: "generate k ls = ref_hunks k ls"
  unfolding generate_def by (rule finish_ref [OF gen_inv_foldl])


subsection \<open>Coverage and density of the groups\<close>

lemma groups_cover:
  "sorted cs \<Longrightarrow> c \<in> set cs \<Longrightarrow> \<exists>g\<in>set (groups k cs). fst g \<le> c \<and> c \<le> snd g"
proof (induction cs rule: rev_induct)
  case Nil
  then show ?case by simp
next
  case (snoc i cs)
  let ?gs = "groups k cs"
  from snoc.prems(1) have sc: "sorted cs" and le: "\<forall>c\<in>set cs. c \<le> i"
    by (simp_all add: sorted_append)
  show ?case
  proof (cases "?gs \<noteq> [] \<and> i \<le> snd (last ?gs) + Suc (2 * k)")
    case True
    then have eq: "groups k (cs @ [i]) = butlast ?gs @ [(fst (last ?gs), i)]"
      by (simp add: groups_snoc add_change_def)
    have ab: "fst (last ?gs) \<le> snd (last ?gs)" "snd (last ?gs) \<le> i"
      using groups_props [OF sc, of k] True le by (metis last_in_set)+
    show ?thesis
    proof (cases "c = i")
      case True
      then show ?thesis using eq ab by auto
    next
      case False
      then obtain g where g: "g \<in> set ?gs" "fst g \<le> c" "c \<le> snd g"
        using snoc.IH [OF sc] snoc.prems(2) by auto
      show ?thesis
      proof (cases "g = last ?gs")
        case True
        then show ?thesis using eq g ab by auto
      next
        case False
        have "g \<in> set (butlast ?gs)"
          using g(1) False by (rule in_set_butlastI)
        then show ?thesis using eq g by auto
      qed
    qed
  next
    case False
    then have eq: "groups k (cs @ [i]) = ?gs @ [(i, i)]"
      unfolding groups_snoc add_change_def by (simp only: if_False)
    show ?thesis
      using snoc.IH [OF sc] snoc.prems(2) eq by auto
  qed
qed



lemma groups_dense:
  "sorted cs \<Longrightarrow> g \<in> set (groups k cs) \<Longrightarrow> fst g \<le> j \<Longrightarrow> j \<le> snd g \<Longrightarrow>
   \<exists>c\<in>set cs. c \<le> j \<and> j \<le> c + 2 * k"
proof (induction cs arbitrary: g rule: rev_induct)
  case Nil
  then show ?case by simp
next
  case (snoc i cs)
  let ?gs = "groups k cs"
  from snoc.prems(1) have sc: "sorted cs" by (simp add: sorted_append)
  note IH = snoc.IH [OF sc]
  show ?case
  proof (cases "?gs \<noteq> [] \<and> i \<le> snd (last ?gs) + Suc (2 * k)")
    case True
    then have eq: "groups k (cs @ [i]) = butlast ?gs @ [(fst (last ?gs), i)]"
      by (simp add: groups_snoc add_change_def)
    have lst: "last ?gs \<in> set ?gs" using True by simp
    have bin: "snd (last ?gs) \<in> set cs"
      using groups_props [OF sc, of k] lst by blast
    show ?thesis
    proof (cases "g \<in> set (butlast ?gs)")
      case True
      then show ?thesis using IH [of g] snoc.prems(3,4) by (auto dest: in_set_butlastD)
    next
      case False
      then have g: "g = (fst (last ?gs), i)" using snoc.prems(2) eq by auto
      consider "j \<le> snd (last ?gs)" | "snd (last ?gs) < j" "j < i" | "j = i"
        using snoc.prems(4) g by fastforce
      then show ?thesis
      proof cases
        case 1
        then show ?thesis using IH [OF lst] snoc.prems(3) g by auto
      next
        case 2
        then show ?thesis using bin True by (intro bexI [of _ "snd (last ?gs)"]) auto
      qed simp
    qed
  next
    case False
    then have eq: "groups k (cs @ [i]) = ?gs @ [(i, i)]"
      unfolding groups_snoc add_change_def by (simp only: if_False)
    show ?thesis
      using IH [of g] snoc.prems(2-4) eq by auto
  qed
qed

subsection \<open>Properties of the reference hunks\<close>

lemma group_facts:
  assumes "g \<in> set (groups k (changes ls))"
  shows "fst g \<le> snd g" "snd g < length ls" "lop (ls ! fst g) \<noteq> Equal" "lop (ls ! snd g) \<noteq> Equal"
  using groups_props [OF sorted_changes, of k ls] assms by (auto simp: set_changes)

lemma ref_hunks_Nil_iff: "ref_hunks k ls = [] \<longleftrightarrow> (\<forall>l\<in>set ls. lop l = Equal)"
proof -
  have "changes ls = [] \<longleftrightarrow> set (changes ls) = {}" by simp
  also have "\<dots> \<longleftrightarrow> (\<forall>i<length ls. lop (ls ! i) = Equal)" by (auto simp: set_changes)
  also have "\<dots> \<longleftrightarrow> (\<forall>l\<in>set ls. lop l = Equal)" by (simp add: all_set_conv_all_nth)
  finally have "changes ls = [] \<longleftrightarrow> (\<forall>l\<in>set ls. lop l = Equal)" .
  then show ?thesis by (simp add: ref_hunks_def)
qed

lemma ref_hunk_window:
  assumes "g \<in> set (groups k (changes ls))"
  defines "s \<equiv> fst g - k"
  shows "s + length (ops (ref_hunk k ls g)) \<le> length ls \<and>
    ops (ref_hunk k ls g) = take (length (ops (ref_hunk k ls g))) (drop s ls) \<and>
    old_line (ref_hunk k ls g) = Suc (old_len (take s ls)) \<and>
    new_line (ref_hunk k ls g) = Suc (new_len (take s ls)) \<and>
    func_ctx (ref_hunk k ls g) = (if s = 0 then None else Some (ltext (ls ! (s - 1))))"
  using group_facts(1,2) [OF assms(1)] unfolding s_def by (simp add: ref_hunk_def Let_def min_def)

lemma ref_hunk_context:
  assumes "g \<in> set (groups k (changes ls))"
  shows "length (takeWhile (\<lambda>l. lop l = Equal) (ops (ref_hunk k ls g))) \<le> k \<and>
    length (takeWhile (\<lambda>l. lop l = Equal) (rev (ops (ref_hunk k ls g)))) \<le> k \<and>
    (\<exists>l\<in>set (ops (ref_hunk k ls g)). lop l \<noteq> Equal)"
proof -
  let ?a = "fst g" and ?b = "snd g" and ?s = "fst g - k" and ?e = "min (length ls) (Suc (snd g) + k)"
  note F = group_facts [OF assms]
  have o: "ops (ref_hunk k ls g) = take (?e - ?s) (drop ?s ls)" by (simp add: ops_ref_hunk)
  have e: "Suc ?b \<le> ?e" "?e \<le> length ls" "?s \<le> ?a" using F(1,2) by simp_all
  have len: "length (ops (ref_hunk k ls g)) = ?e - ?s" using o e by simp
  have ia: "?a - ?s < ?e - ?s" using e F(1) by (intro diff_less_mono) auto
  have na: "ops (ref_hunk k ls g) ! (?a - ?s) = ls ! ?a" using o ia e by simp
  have ib: "?e - Suc ?b < ?e - ?s" using e F(1) by (intro diff_less_mono2) auto
  have "rev (ops (ref_hunk k ls g)) ! (?e - Suc ?b) = ops (ref_hunk k ls g) ! (?b - ?s)"
  proof -
    have ar: "\<And>e b s :: nat. Suc b \<le> e \<Longrightarrow> s \<le> b \<Longrightarrow> e - s - Suc (e - Suc b) = b - s"
      by arith
    have "?e - ?s - Suc (?e - Suc ?b) = ?b - ?s" using e F(1) by (intro ar) auto
    then show ?thesis using ib len by (simp add: rev_nth)
  qed
  also have "\<dots> = ls ! ?b" using o e F(1) by simp
  finally have nb: "rev (ops (ref_hunk k ls g)) ! (?e - Suc ?b) = ls ! ?b" .
  show ?thesis
  proof (intro conjI)
    have "length (takeWhile (\<lambda>l. lop l = Equal) (ops (ref_hunk k ls g))) \<le> ?a - ?s"
      using na ia len F(3) by (intro takeWhile_length_le) simp_all
    then show "length (takeWhile (\<lambda>l. lop l = Equal) (ops (ref_hunk k ls g))) \<le> k"
      by linarith
    have "length (takeWhile (\<lambda>l. lop l = Equal) (rev (ops (ref_hunk k ls g)))) \<le> ?e - Suc ?b"
      using nb ib len F(4) by (intro takeWhile_length_le) simp_all
    moreover have "?e - Suc ?b \<le> k" by simp
    ultimately show "length (takeWhile (\<lambda>l. lop l = Equal) (rev (ops (ref_hunk k ls g)))) \<le> k"
      by linarith
    show "\<exists>l\<in>set (ops (ref_hunk k ls g)). lop l \<noteq> Equal"
    proof (rule bexI [of _ "ops (ref_hunk k ls g) ! (?a - ?s)"])
      show "lop (ops (ref_hunk k ls g) ! (?a - ?s)) \<noteq> Equal" using na F(3) by simp
      show "ops (ref_hunk k ls g) ! (?a - ?s) \<in> set (ops (ref_hunk k ls g))"
        using ia len by simp
    qed
  qed
qed

lemma ref_hunk_ctx0:
  assumes g: "g \<in> set (groups 0 (changes ls))" and l: "l \<in> set (ops (ref_hunk 0 ls g))"
  shows "lop l \<noteq> Equal"
proof -
  note F = group_facts [OF g]
  have "ops (ref_hunk 0 ls g) = take (Suc (snd g) - fst g) (drop (fst g) ls)"
    using F(2) by (simp add: ops_ref_hunk min_def)
  with l obtain i where i: "i < Suc (snd g) - fst g" "l = ls ! (fst g + i)"
    using F(2) by (auto simp: in_set_conv_nth)
  moreover have "fst g + i \<le> snd g" using i(1) F(1) by linarith
  ultimately obtain c where "c \<in> set (changes ls)" "c \<le> fst g + i" "fst g + i \<le> c"
    using groups_dense [OF sorted_changes g, of "fst g + i"] by auto
  then show ?thesis using i by (auto simp: set_changes)
qed

lemma between_groups_equal:
  assumes "Suc i < length (groups k (changes ls))"
    "snd (groups k (changes ls) ! i) < j" "j < fst (groups k (changes ls) ! Suc i)" "j < length ls"
  shows "lop (ls ! j) = Equal"
proof (rule ccontr)
  let ?gs = "groups k (changes ls)"
  assume "lop (ls ! j) \<noteq> Equal"
  then have "j \<in> set (changes ls)" using assms(4) by (simp add: set_changes)
  then obtain g where g: "g \<in> set ?gs" "fst g \<le> j" "j \<le> snd g"
    using groups_cover [OF sorted_changes] by blast
  then obtain m where m: "m < length ?gs" "g = ?gs ! m" by (auto simp: in_set_conv_nth)
  have P: "\<forall>g\<in>set ?gs. fst g \<le> snd g" "sorted_wrt (separated k) ?gs"
    using groups_props [OF sorted_changes, of k ls] by auto
  have sep: "separated k (?gs ! p) (?gs ! q)" if "p < q" "q < length ?gs" for p q
    using sorted_wrt_nth_less [OF P(2) that] by simp
  have fs: "fst (?gs ! p) \<le> snd (?gs ! p)" if "p < length ?gs" for p
    using P(1) that by simp
  show False
  proof (cases "m \<le> i")
    case True
    then have "snd g \<le> snd (?gs ! i)"
      using m sep [of m i] fs [of i] assms(1) by (cases "m = i") auto
    then show ?thesis using g assms(2) by simp
  next
    case False
    then have "fst (?gs ! Suc i) \<le> fst g"
      using m sep [of "Suc i" m] fs [of "Suc i"] assms(1) by (cases "m = Suc i") auto
    then show ?thesis using g assms(3) by simp
  qed
qed

lemma old_count_old_len: "old_count h = old_len (ops h)" and new_count_new_len: "new_count h = new_len (ops h)"
  by (simp_all add: old_count_def old_len_def new_count_def new_len_def)

lemma ref_hunks_separated:
  assumes i: "Suc i < length (ref_hunks k ls)"
  shows "old_line (ref_hunks k ls ! i) + old_count (ref_hunks k ls ! i) < old_line (ref_hunks k ls ! Suc i) \<and>
         new_line (ref_hunks k ls ! i) + new_count (ref_hunks k ls ! i) < new_line (ref_hunks k ls ! Suc i)"
proof -
  let ?gs = "groups k (changes ls)"
  define g1 g2 where "g1 = ?gs ! i" and "g2 = ?gs ! Suc i"
  define s1 e1 s2 where "s1 = fst g1 - k" and "e1 = Suc (snd g1) + k" and "s2 = fst g2 - k"
  have i': "Suc i < length ?gs" using i by (simp add: ref_hunks_def)
  have g1: "g1 \<in> set ?gs" and g2: "g2 \<in> set ?gs" using i' by (simp_all add: g1_def g2_def)
  note F1 = group_facts [OF g1] and F2 = group_facts [OF g2]
  have sep: "snd g1 + 2 * k + 1 < fst g2"
  proof -
    have "sorted_wrt (separated k) ?gs" using groups_props [OF sorted_changes, of k ls] by simp
    from sorted_wrt_nth_less [OF this _ i', of i] show ?thesis by (simp add: g1_def g2_def)
  qed
  have lt: "s1 \<le> e1" "e1 < s2" "s2 \<le> length ls"
    using sep F1(1) F2(1,2) unfolding s1_def e1_def s2_def by linarith+
  have h1: "ref_hunks k ls ! i = ref_hunk k ls g1" and h2: "ref_hunks k ls ! Suc i = ref_hunk k ls g2"
    using i' by (simp_all add: ref_hunks_def g1_def g2_def)
  have o1: "ops (ref_hunk k ls g1) = take (e1 - s1) (drop s1 ls)"
    using lt by (simp add: ops_ref_hunk min_def s1_def e1_def s2_def)
  have l1: "old_line (ref_hunk k ls g1) = Suc (old_len (take s1 ls))"
    "new_line (ref_hunk k ls g1) = Suc (new_len (take s1 ls))"
    and l2: "old_line (ref_hunk k ls g2) = Suc (old_len (take s2 ls))"
    "new_line (ref_hunk k ls g2) = Suc (new_len (take s2 ls))"
    by (simp_all add: ref_hunk_def Let_def s1_def e1_def s2_def)
  have eqs: "\<forall>l\<in>set (take (s2 - e1) (drop e1 ls)). lop l = Equal"
  proof
    fix l assume "l \<in> set (take (s2 - e1) (drop e1 ls))"
    then obtain j where j: "j < s2 - e1" "l = ls ! (e1 + j)"
      using lt by (auto simp: in_set_conv_nth)
    have "snd g1 < e1 + j" "e1 + j < fst g2" "e1 + j < length ls"
      using j(1) lt unfolding s1_def e1_def s2_def by linarith+
    then show "lop l = Equal"
      using between_groups_equal [OF i', of "e1 + j"] j(2) by (simp add: g1_def g2_def)
  qed
  have t1: "take e1 ls = take s1 ls @ take (e1 - s1) (drop s1 ls)" by (rule take_split [OF lt(1)])
  have t2: "take s2 ls = take e1 ls @ take (s2 - e1) (drop e1 ls)" using lt(2) by (intro take_split) simp
  have len: "length (take (s2 - e1) (drop e1 ls)) = s2 - e1" using lt by simp
  have "old_len (take s2 ls) = old_len (take s1 ls) + old_len (ops (ref_hunk k ls g1)) + (s2 - e1)"
    "new_len (take s2 ls) = new_len (take s1 ls) + new_len (ops (ref_hunk k ls g1)) + (s2 - e1)"
    using len_all_equal [OF eqs] len by (simp_all only: t1 t2 o1 old_len_append new_len_append)
  then show ?thesis
    using lt(2) by (simp add: h1 h2 l1 l2 old_count_old_len new_count_new_len) linarith
qed

lemma ref_hunks_complete:
  "filter (\<lambda>l. lop l \<noteq> Equal) (concat (map ops (ref_hunks k ls))) = filter (\<lambda>l. lop l \<noteq> Equal) ls"
proof -
  let ?gs = "groups k (changes ls)" and ?n = "length ls"
  let ?w = "\<lambda>g. (fst g - k, min ?n (Suc (snd g) + k))"
  have ops_w: "map ops (ref_hunks k ls) = map (\<lambda>w. take (snd w - fst w) (drop (fst w) ls)) (map ?w ?gs)"
    by (simp add: ref_hunks_def ops_ref_hunk)
  have P: "\<forall>g\<in>set ?gs. fst g \<le> snd g" "sorted_wrt (separated k) ?gs"
    using groups_props [OF sorted_changes, of k ls] by auto
  have sorted: "sorted_wrt (\<lambda>w w'. snd w \<le> fst w') (map ?w ?gs)"
    unfolding sorted_wrt_map by (rule sorted_wrt_mono_rel [OF _ P(2)]) auto
  have valid: "\<forall>w\<in>set (map ?w ?gs). 0 \<le> fst w \<and> fst w \<le> snd w \<and> snd w \<le> ?n"
    using group_facts(1,2) by fastforce
  have cover: "\<forall>j. 0 \<le> j \<longrightarrow> j < ?n \<longrightarrow> (\<forall>w\<in>set (map ?w ?gs). \<not> (fst w \<le> j \<and> j < snd w)) \<longrightarrow>
      \<not> lop (ls ! j) \<noteq> Equal"
  proof (intro allI impI)
    fix j assume j: "j < ?n" and out: "\<forall>w\<in>set (map ?w ?gs). \<not> (fst w \<le> j \<and> j < snd w)"
    show "\<not> lop (ls ! j) \<noteq> Equal"
    proof
      assume "lop (ls ! j) \<noteq> Equal"
      then have "j \<in> set (changes ls)" using j by (simp add: set_changes)
      then obtain g where "g \<in> set ?gs" "fst g \<le> j" "j \<le> snd g"
        using groups_cover [OF sorted_changes] by blast
      with out j show False by fastforce
    qed
  qed
  show ?thesis
    using filter_concat_windows [OF sorted valid cover] ops_w by simp
qed

subsection \<open>The builder's hunks\<close>

lemma generate_window:
  assumes "h \<in> set (generate k ls)"
  shows "\<exists>s. s + length (ops h) \<le> length ls \<and> ops h = take (length (ops h)) (drop s ls) \<and>
    old_line h = Suc (old_len (take s ls)) \<and> new_line h = Suc (new_len (take s ls)) \<and>
    func_ctx h = (if s = 0 then None else Some (ltext (ls ! (s - 1))))"
proof -
  obtain g where g: "g \<in> set (groups k (changes ls))" "h = ref_hunk k ls g"
    using assms by (auto simp: generate_ref ref_hunks_def)
  show ?thesis using ref_hunk_window [OF g(1)] unfolding g(2) by blast
qed

lemma generate_addresses:
  assumes "h \<in> set (generate k ls)"
  shows "take (old_count h) (drop (old_line h - 1) (map ltext (filter (\<lambda>l. lop l \<noteq> Add) ls))) =
           map ltext (filter (\<lambda>l. lop l \<noteq> Add) (ops h)) \<and>
         take (new_count h) (drop (new_line h - 1) (map ltext (filter (\<lambda>l. lop l \<noteq> Delete) ls))) =
           map ltext (filter (\<lambda>l. lop l \<noteq> Delete) (ops h))"
proof -
  obtain s where w: "ops h = take (length (ops h)) (drop s ls)"
    "old_line h = Suc (old_len (take s ls))" "new_line h = Suc (new_len (take s ls))"
    using generate_window [OF assms] by blast
  have "filter P (ops h) =
        take (length (filter P (ops h))) (drop (length (filter P (take s ls))) (filter P ls))" for P
    using filter_take_drop [of P "length (ops h)" s ls] w(1) by simp
  then show ?thesis
    using w(2,3) by (simp add: old_count_def new_count_def old_len_def new_len_def take_map drop_map)
qed

lemma generate_texts:
  assumes "h \<in> set (generate k ls)"
  shows "set (ops h) \<subseteq> set ls \<and> (\<forall>f. func_ctx h = Some f \<longrightarrow> (\<exists>l\<in>set ls. f = ltext l))"
proof -
  obtain s where w: "ops h = take (length (ops h)) (drop s ls)"
    "func_ctx h = (if s = 0 then None else Some (ltext (ls ! (s - 1))))"
    and sl: "s + length (ops h) \<le> length ls"
    using generate_window [OF assms] by blast
  have "set (ops h) \<subseteq> set ls" using w(1) by (metis set_drop_subset set_take_subset subset_trans)
  moreover have "\<exists>l\<in>set ls. f = ltext l" if "func_ctx h = Some f" for f
  proof -
    have "s \<noteq> 0" "f = ltext (ls ! (s - 1))" using w(2) that by (auto split: if_splits)
    moreover have "s - 1 < length ls" using sl \<open>s \<noteq> 0\<close> by linarith
    ultimately show ?thesis using nth_mem by blast
  qed
  ultimately show ?thesis by blast
qed

lemma generate_separated:
  "Suc i < length (generate k ls) \<Longrightarrow>
   old_line (generate k ls ! i) + old_count (generate k ls ! i) < old_line (generate k ls ! Suc i) \<and>
   new_line (generate k ls ! i) + new_count (generate k ls ! i) < new_line (generate k ls ! Suc i)"
  by (simp add: generate_ref ref_hunks_separated)

lemma generate_context:
  assumes "h \<in> set (generate k ls)"
  shows "length (takeWhile (\<lambda>l. lop l = Equal) (ops h)) \<le> k \<and>
    length (takeWhile (\<lambda>l. lop l = Equal) (rev (ops h))) \<le> k \<and>
    (\<exists>l\<in>set (ops h). lop l \<noteq> Equal)"
proof -
  obtain g where g: "g \<in> set (groups k (changes ls))" "h = ref_hunk k ls g"
    using assms by (auto simp: generate_ref ref_hunks_def)
  show ?thesis using ref_hunk_context [OF g(1)] unfolding g(2) .
qed

lemma generate_ctx0:
  assumes "h \<in> set (generate 0 ls)" "l \<in> set (ops h)"
  shows "lop l \<noteq> Equal"
proof -
  obtain g where g: "g \<in> set (groups 0 (changes ls))" "h = ref_hunk 0 ls g"
    using assms(1) by (auto simp: generate_ref ref_hunks_def)
  show ?thesis using ref_hunk_ctx0 [OF g(1)] assms(2) unfolding g(2) by blast
qed

lemma generate_Nil_iff: "generate k ls = [] \<longleftrightarrow> (\<forall>l\<in>set ls. lop l = Equal)"
  by (simp add: generate_ref ref_hunks_Nil_iff)

lemma generate_complete:
  "filter (\<lambda>l. lop l \<noteq> Equal) (concat (map ops (generate k ls))) = filter (\<lambda>l. lop l \<noteq> Equal) ls"
  by (simp add: generate_ref ref_hunks_complete)

end
