(* ===== verification/Layout.thy ===== *)
theory Layout
  imports FixtureText HunkSpec
begin

text \<open>
  What the written bytes look like.  The colour framing of spec 6.2: SGR
  escapes (\<open>is_sgr\<close>), whether an escape is left open (\<open>esc_open\<close>), and the
  lemmas that every piece the encoder writes with an SGR colour configuration
  closes its escapes and strips to the uncoloured piece, up to
  \<open>encode_writes_strip\<close>.  The line structure of a written hunk
  (\<open>header_row\<close>, \<open>hunk_rows\<close>): the reader of \<open>FixtureText\<close> cuts a written hunk
  back into its header and rows and parses the header back to its numbers.
  The rows of a whole encoded patch (\<open>message_rows\<close>, \<open>file_patch_rows\<close>) and
  their kinds (\<open>row_typed\<close>), and the grammar of a file-header block
  (\<open>header_block_ok\<close>).  These definitions are views of the output used
  to state properties; they model no code of their own.
\<close>

subsection \<open>Colour framing\<close>

fun esc_open :: "bool \<Rightarrow> bytes \<Rightarrow> bool" where
  "esc_open b [] = b"
| "esc_open True (c # cs) = esc_open (c \<noteq> CHR ''m'') cs"
| "esc_open False (c # cs) = esc_open (c = esc_char) cs"

definition is_sgr :: "bytes \<Rightarrow> bool" where
  "is_sgr s \<longleftrightarrow> s = [] \<or>
     (take 2 s = [esc_char, CHR ''[''] \<and> last s = CHR ''m'' \<and> CHR ''m'' \<notin> set (butlast (drop 2 s)))"

definition sgr_config :: "color_config \<Rightarrow> bool" where
  "sgr_config cfg \<longleftrightarrow> list_all (\<lambda>r. is_sgr (cfg r)) [Meta, Frag, Old, New, Context, Func]"

text \<open>A file patch whose paths do not hold the character \<open>c\<close>.\<close>

definition paths_avoid :: "char \<Rightarrow> file_patch \<Rightarrow> bool" where
  "paths_avoid c fp \<longleftrightarrow>
     (case from_file fp of None \<Rightarrow> True | Some f \<Rightarrow> c \<notin> set (path f)) \<and>
     (case to_file fp of None \<Rightarrow> True | Some t \<Rightarrow> c \<notin> set (path t))"

definition file_patch_plain :: "file_patch \<Rightarrow> bool" where
  "file_patch_plain fp \<longleftrightarrow>
     paths_avoid esc_char fp \<and> list_all (\<lambda>c. esc_char \<notin> set (content c)) (chunks fp)"

definition patch_plain :: "patch \<Rightarrow> bool" where
  "patch_plain p \<longleftrightarrow> esc_char \<notin> set (message p) \<and> list_all file_patch_plain (file_patches p)"

subsection \<open>The rows of a written hunk\<close>

text \<open>The rows a line is written as, without their newlines: the prefixed text,
  and the marker row after a line that ends the file without a newline.\<close>

definition hunk_rows :: "line \<Rightarrow> bytes list" where
  "hunk_rows l = [op_prefix (lop l) # ltext l] @
     (if leof l then [backslash # '' No newline at end of file''] else [])"

text \<open>The header row of a hunk, without colour and newline.\<close>

definition header_row :: "hunk \<Rightarrow> bytes" where
  "header_row h = ''@@ -'' @ range_string (old_line h) (old_count h) @
     '' +'' @ range_string (new_line h) (new_count h) @ '' @@'' @
     (case func_ctx h of None \<Rightarrow> [] | Some f \<Rightarrow> if f = [] then [] else CHR '' '' # f)"

text \<open>Where a side's line number reads back from: an empty side is written as
  the line before it.\<close>

definition range_start :: "nat \<Rightarrow> nat \<Rightarrow> nat" where
  "range_start ln cnt = (if cnt = 0 then ln - 1 else ln)"

subsection \<open>The rows of an encoded patch\<close>

text \<open>The words a file-header row starts with (spec 4.2), and the three kinds of
  row the encoder writes after the message: header rows, hunk headers and hunk
  body rows, classified as the reader of \<open>FixtureText\<close> classifies them.\<close>

definition header_words :: "bytes list" where
  "header_words = [''diff --git '', ''old mode '', ''new mode '', ''rename from '', ''rename to '',
     ''index '', ''--- '', ''+++ '', ''Binary files '', ''new file mode '', ''deleted file mode '']"

definition is_header_row :: "bytes \<Rightarrow> bool" where
  "is_header_row r \<longleftrightarrow> list_ex (\<lambda>w. prefix w r) header_words"

definition row_typed :: "bytes \<Rightarrow> bool" where
  "row_typed r \<longleftrightarrow> is_header_row r \<or> is_hunk_header r \<or> is_hunk_body r"

text \<open>The rows a message is written as, and the rows of a file patch.\<close>

definition message_rows :: "bytes \<Rightarrow> bytes list" where
  "message_rows m = (if m = [] then [] else split_nl (if last m = nl then butlast m else m))"

definition file_patch_rows :: "encoder \<Rightarrow> file_patch \<Rightarrow> bytes list" where
  "file_patch_rows e fp =
     (if from_file fp = None \<and> to_file fp = None then []
      else header_lines (src_prefix e) (dst_prefix e) fp @
           concat (map (\<lambda>h. header_row h # concat (map hunk_rows (ops h)))
             (hunks_of (context_lines e) (chunks fp))))"

subsection \<open>The file-header block\<close>

text \<open>The order of spec 4.2 as a grammar on rows: the \<open>diff --git\<close> row, an
  optional pair of mode rows, an optional creation or deletion row, an
  optional pair of rename rows, then nothing, or an \<open>index\<close> row followed by
  the two marker rows or by the binary sentinel.\<close>

definition skip_pair :: "bytes \<Rightarrow> bytes \<Rightarrow> bytes list \<Rightarrow> bytes list option" where
  "skip_pair w1 w2 rs =
     (case rs of
        r # r' # rest \<Rightarrow> if prefix w1 r then (if prefix w2 r' then Some rest else None) else Some rs
      | [r] \<Rightarrow> if prefix w1 r then None else Some rs
      | [] \<Rightarrow> Some [])"

definition skip_opt :: "bytes list \<Rightarrow> bytes list \<Rightarrow> bytes list" where
  "skip_opt ws rs = (case rs of r # rest \<Rightarrow> if list_ex (\<lambda>w. prefix w r) ws then rest else rs | [] \<Rightarrow> [])"

fun header_tail_ok :: "bytes list \<Rightarrow> bool" where
  "header_tail_ok [] = True"
| "header_tail_ok [i, b] = (prefix ''index '' i \<and> prefix ''Binary files '' b)"
| "header_tail_ok [i, a, b] = (prefix ''index '' i \<and> prefix ''--- '' a \<and> prefix ''+++ '' b)"
| "header_tail_ok _ = False"

definition header_block_ok :: "bytes list \<Rightarrow> bool" where
  "header_block_ok rs \<longleftrightarrow>
     (case rs of
        [] \<Rightarrow> False
      | d # r0 \<Rightarrow> prefix ''diff --git '' d \<and>
          (case skip_pair ''old mode '' ''new mode '' r0 of
             None \<Rightarrow> False
           | Some r1 \<Rightarrow>
               (case skip_pair ''rename from '' ''rename to '' (skip_opt [''deleted file mode '', ''new file mode ''] r1) of
                  None \<Rightarrow> False
                | Some r3 \<Rightarrow> header_tail_ok r3)))"

subsection \<open>Lemmas: Colour framing\<close>

lemma strip_esc_append:
  "strip_esc b (xs @ ys) = strip_esc b xs @ strip_esc (esc_open b xs) ys"
  by (induction b xs rule: strip_esc.induct) auto

lemma esc_open_append: "esc_open b (xs @ ys) = esc_open (esc_open b xs) ys"
  by (induction b xs rule: esc_open.induct) auto

lemma strip_closed [simp]:
  "\<not> esc_open False a \<Longrightarrow> strip_esc False (a @ b) = strip_esc False a @ strip_esc False b"
  by (simp add: strip_esc_append)

lemma open_closed [simp]:
  "\<not> esc_open False a \<Longrightarrow> esc_open False (a @ b) = esc_open False b"
  by (simp add: esc_open_append)

lemma plain_strip [simp]:
  "esc_char \<notin> set s \<Longrightarrow> strip_esc False s = s \<and> \<not> esc_open False s"
  by (induction s) auto

lemma in_escape: "CHR ''m'' \<notin> set s \<Longrightarrow> strip_esc True s = [] \<and> esc_open True s"
  by (induction s) auto

lemma sgr_strip:
  assumes "is_sgr s"
  shows "strip_esc False s = [] \<and> \<not> esc_open False s"
proof (cases "s = []")
  case False
  have t: "take 2 s = [esc_char, CHR ''['']" and l: "last s = CHR ''m''"
    and m: "CHR ''m'' \<notin> set (butlast (drop 2 s))"
    using assms False unfolding is_sgr_def by simp_all
  obtain r where s: "s = esc_char # CHR ''['' # r"
    using t by (cases s; cases "tl s") auto
  have "r \<noteq> []" using l s by auto
  then have r: "r = butlast r @ [CHR ''m'']" using l s by (metis append_butlast_last_id last_ConsR list.distinct(1))
  have "CHR ''m'' \<notin> set (butlast r)" using m s by simp
  then show ?thesis
  proof -
    have sr: "s = esc_char # CHR ''['' # butlast r @ [CHR ''m'']" using s r by metis
    show ?thesis using in_escape [of "butlast r"] \<open>CHR ''m'' \<notin> set (butlast r)\<close>
      unfolding sr by (simp add: strip_esc_append esc_open_append)
  qed
qed simp

lemma sgr_config_role: "sgr_config cfg \<Longrightarrow> is_sgr (cfg r)"
  by (cases r) (simp_all add: sgr_config_def)

lemma is_sgr_reset: "is_sgr (color_reset cfg r)"
  by (simp add: color_reset_def reset_seq_def sgr_def is_sgr_def)

lemma sgr_pieces:
  assumes "sgr_config cfg"
  shows "strip_esc False (cfg r) = []" "\<not> esc_open False (cfg r)"
    "strip_esc False (color_reset cfg r) = []" "\<not> esc_open False (color_reset cfg r)"
  using sgr_strip [OF sgr_config_role [OF assms]] sgr_strip [OF is_sgr_reset] by simp_all

lemma write_line_strip:
  assumes "sgr_config cfg" "esc_char \<notin> set (ltext l)"
  shows "strip_esc False (write_line cfg l) = write_line no_color l \<and> \<not> esc_open False (write_line cfg l)"
  using sgr_pieces [OF assms(1)] plain_strip [OF assms(2)] op_prefix_plain [of "lop l"]
  by (simp add: write_line_def Let_def no_color_def color_reset_def no_newline_marker_def)

lemma strip_concat:
  "\<forall>x\<in>set xs. \<not> esc_open False x \<Longrightarrow>
   strip_esc False (concat xs) = concat (map (strip_esc False) xs) \<and> \<not> esc_open False (concat xs)"
  by (induction xs) simp_all

lemma esc_free_numbers:
  "esc_char \<notin> set (dec_string n)" "esc_char \<notin> set (mode_octal m)" "esc_char \<notin> set (hex_string bs)"
  "esc_char \<notin> set (range_string ln cnt)"
  by (simp_all add: numbers_avoid range_string_avoids format_chars_not_digits)

lemma hunk_header_strip:
  assumes "sgr_config cfg" "\<forall>f. func_ctx h = Some f \<longrightarrow> esc_char \<notin> set f"
  shows "strip_esc False (hunk_header cfg h) = hunk_header no_color h \<and> \<not> esc_open False (hunk_header cfg h)"
proof -
  have f: "strip_esc False (case func_ctx h of None \<Rightarrow> [] | Some f \<Rightarrow> if f = [] then [] else CHR '' '' # cfg Func @ f @ color_reset cfg Func) =
           (case func_ctx h of None \<Rightarrow> [] | Some f \<Rightarrow> if f = [] then [] else CHR '' '' # f) \<and>
           \<not> esc_open False (case func_ctx h of None \<Rightarrow> [] | Some f \<Rightarrow> if f = [] then [] else CHR '' '' # cfg Func @ f @ color_reset cfg Func)"
    using assms(2) sgr_pieces [OF assms(1)] by (auto split: option.splits)
  show ?thesis
    using sgr_pieces [OF assms(1)] f esc_free_numbers
    by (simp add: hunk_header_def no_color_def color_reset_def split: option.splits)
qed

lemma write_hunk_strip:
  assumes "sgr_config cfg" "h \<in> set (hunks_of k cs)" "list_all (\<lambda>c. esc_char \<notin> set (content c)) cs"
  shows "strip_esc False (write_hunk cfg h) = write_hunk no_color h \<and> \<not> esc_open False (write_hunk cfg h)"
proof -
  have plain: "esc_char \<notin> set (ltext l)" if "l \<in> set (file_lines cs)" for l
    using file_lines_chars [OF that] assms(3) by (auto simp: list_all_iff)
  have t: "set (ops h) \<subseteq> set (file_lines cs)"
    "\<forall>f. func_ctx h = Some f \<longrightarrow> (\<exists>l\<in>set (file_lines cs). f = ltext l)"
    using generate_texts assms(2) unfolding hunks_of_def by blast+
  have "\<forall>f. func_ctx h = Some f \<longrightarrow> esc_char \<notin> set f" using t(2) plain by blast
  note hh = hunk_header_strip [OF assms(1) this]
  have ls: "\<forall>l\<in>set (ops h). strip_esc False (write_line cfg l) = write_line no_color l \<and>
             \<not> esc_open False (write_line cfg l)"
    using t(1) plain write_line_strip [OF assms(1)] by blast
  then have "\<forall>x\<in>set (map (write_line cfg) (ops h)). \<not> esc_open False x" by simp
  note c = strip_concat [OF this]
  have m: "map (strip_esc False) (map (write_line cfg) (ops h)) = map (write_line no_color) (ops h)"
    using ls by simp
  show ?thesis using hh c unfolding m by (simp add: write_hunk_def)
qed

lemma header_lines_plain:
  assumes "esc_char \<notin> set src" "esc_char \<notin> set dst" "file_patch_plain fp"
  shows "\<forall>x\<in>set (header_lines src dst fp). esc_char \<notin> set x"
  using assms
  by (auto simp: header_lines_def path_lines_def diff_git_line_def index_line_def file_patch_plain_def
      paths_avoid_def numbers_avoid format_chars_not_digits split: option.splits)

lemma render_header_strip:
  assumes "sgr_config cfg" "\<forall>x\<in>set ls. esc_char \<notin> set x"
  shows "strip_esc False (render_header cfg ls) = render_header no_color ls \<and>
    \<not> esc_open False (render_header cfg ls)"
proof -
  have "esc_char \<notin> set (join_with nl ls)" using join_with_chars [of nl ls] assms(2) by auto
  then show ?thesis
    using sgr_pieces [OF assms(1)] by (simp add: render_header_def no_color_def color_reset_def)
qed

lemma file_patch_writes_strip:
  assumes "sgr_config cfg" "esc_char \<notin> set (src_prefix e)" "esc_char \<notin> set (dst_prefix e)"
    "file_patch_plain fp"
  shows "map (strip_esc False) (file_patch_writes (SetColor cfg e) fp) = file_patch_writes (SetColor no_color e) fp \<and>
    (\<forall>x\<in>set (file_patch_writes (SetColor cfg e) fp). \<not> esc_open False x)"
proof -
  have cs: "list_all (\<lambda>c. esc_char \<notin> set (content c)) (chunks fp)"
    using assms(4) by (simp add: file_patch_plain_def)
  note hd = render_header_strip [OF assms(1) header_lines_plain [OF assms(2,3,4)]]
  have "\<forall>h\<in>set (hunks_of (context_lines e) (chunks fp)).
      strip_esc False (write_hunk cfg h) = write_hunk no_color h \<and> \<not> esc_open False (write_hunk cfg h)"
    using write_hunk_strip [OF assms(1) _ cs] by blast
  with hd show ?thesis by (simp add: file_patch_writes_def SetColor_def)
qed

lemma encode_writes_strip:
  assumes "sgr_config cfg" "esc_char \<notin> set (src_prefix e)" "esc_char \<notin> set (dst_prefix e)"
    "patch_plain p"
  shows "map (strip_esc False) (encode_writes (SetColor cfg e) p) = encode_writes (SetColor no_color e) p \<and>
    (\<forall>x\<in>set (encode_writes (SetColor cfg e) p). \<not> esc_open False x)"
proof -
  have m: "esc_char \<notin> set (message_bytes (message p))"
    using assms(4) by (simp add: patch_plain_def message_bytes_def)
  have "\<forall>fp\<in>set (file_patches p). file_patch_plain fp" using assms(4) by (simp add: patch_plain_def list_all_iff)
  then have "\<forall>fp\<in>set (file_patches p).
      map (strip_esc False) (file_patch_writes (SetColor cfg e) fp) = file_patch_writes (SetColor no_color e) fp \<and>
      (\<forall>x\<in>set (file_patch_writes (SetColor cfg e) fp). \<not> esc_open False x)"
    using file_patch_writes_strip [OF assms(1-3)] by blast
  moreover from this have eq: "map (map (strip_esc False)) (map (file_patch_writes (SetColor cfg e)) (file_patches p)) =
      map (file_patch_writes (SetColor no_color e)) (file_patches p)" by simp
  ultimately show ?thesis using m unfolding encode_writes_def map_append map_concat eq by simp
qed

subsection \<open>Lemmas: The rows of a written hunk\<close>

lemma write_line_rows:
  "nl \<notin> set (ltext l) \<Longrightarrow>
   split_nl (write_line no_color l @ rest) = hunk_rows l @ split_nl rest"
  using op_prefix_plain [of "lop l"]
  by (simp add: write_line_def hunk_rows_def no_color_def color_reset_def no_newline_marker_def
      Let_def split_nl_line)

lemma write_lines_rows:
  "\<forall>l\<in>set ls. nl \<notin> set (ltext l) \<Longrightarrow>
   split_nl (concat (map (write_line no_color) ls) @ rest) = concat (map hunk_rows ls) @ split_nl rest"
  by (induction ls) (simp_all add: write_line_rows)

lemma write_hunk_rows:
  assumes "\<forall>l\<in>set (ops h). nl \<notin> set (ltext l)"
    "\<forall>f. func_ctx h = Some f \<longrightarrow> nl \<notin> set f"
  shows "split_nl (write_hunk no_color h @ rest) = header_row h # concat (map hunk_rows (ops h)) @ split_nl rest"
proof -
  have "nl \<notin> set (header_row h)"
    using assms(2) by (auto simp: header_row_def range_string_avoids format_chars_not_digits split: option.splits)
  moreover have "hunk_header no_color h = header_row h @ [nl]"
    by (simp add: hunk_header_def header_row_def no_color_def color_reset_def split: option.splits)
  ultimately show ?thesis
    using write_lines_rows [OF assms(1), of rest]
    by (simp add: write_hunk_def split_nl_line)
qed

lemma hunks_of_rows:
  assumes "h \<in> set (hunks_of k cs)"
  shows "split_nl (write_hunk no_color h @ rest) = header_row h # concat (map hunk_rows (ops h)) @ split_nl rest"
proof -
  have t: "set (ops h) \<subseteq> set (file_lines cs)"
    "\<forall>f. func_ctx h = Some f \<longrightarrow> (\<exists>l\<in>set (file_lines cs). f = ltext l)"
    using generate_texts assms unfolding hunks_of_def by blast+
  show ?thesis using t file_lines_no_nl by (blast intro: write_hunk_rows)
qed

lemma hunk_rows_body: "list_all is_hunk_body (hunk_rows l)"
  by (cases "lop l") (simp_all add: hunk_rows_def op_prefix_def is_hunk_body_def)

lemma parse_range_range_string:
  "parse_range (range_string ln cnt) = Some (range_start ln cnt, cnt)"
proof -
  have nc: "\<forall>x\<in>set (dec_string n). x \<noteq> CHR '',''" for n
    using numbers_avoid(1) format_chars_not_digits(4) by fastforce
  have tw: "takeWhile (\<lambda>c. c \<noteq> CHR '','') (dec_string n @ CHR '','' # rest) = dec_string n" for n rest
    using nc [of n] by (simp add: takeWhile_append2 takeWhile_tail)
  have tw1: "takeWhile (\<lambda>c. c \<noteq> CHR '','') (dec_string n) = dec_string n" for n
    using nc [of n] by (simp add: takeWhile_eq_all_conv)
  have z: "dec_string 0 = ''0''"
    by (simp add: dec_string_def digits_in.simps digit_char_def hex_digits_def)
  consider "cnt = 1" | "cnt = 0" | "cnt \<noteq> 0" "cnt \<noteq> 1" by blast
  then show ?thesis
  proof cases
    case 1
    then show ?thesis by (simp add: parse_range_def range_string_def range_start_def tw1 dec_string_roundtrip)
  next
    case 2
    have "parse_nat_in 10 ''0'' = Some 0" using dec_string_roundtrip [of 0] z by simp
    with 2 show ?thesis
      using tw [of "ln - 1" "''0''"]
      by (simp add: parse_range_def range_string_def range_start_def Let_def dec_string_roundtrip)
  next
    case 3
    then show ?thesis
      using tw [of ln "dec_string cnt"]
      by (simp add: parse_range_def range_string_def range_start_def Let_def dec_string_roundtrip)
  qed
qed

lemma parse_hunk_header_row:
  "parse_hunk_header (header_row h) =
     Some (range_start (old_line h) (old_count h), old_count h,
           range_start (new_line h) (new_count h), new_count h)"
proof -
  have ns: "\<forall>x\<in>set (range_string ln cnt). x \<noteq> CHR '' ''" for ln cnt
    using range_string_avoids format_chars_not_digits(3) by fastforce
  let ?R1 = "range_string (old_line h) (old_count h)" and ?R2 = "range_string (new_line h) (new_count h)"
  let ?F = "case func_ctx h of None \<Rightarrow> [] | Some f \<Rightarrow> if f = [] then [] else CHR '' '' # f"
  have "drop 4 (header_row h) = ?R1 @ '' +'' @ ?R2 @ '' @@'' @ ?F" by (simp add: header_row_def)
  moreover have "takeWhile (\<lambda>c. c \<noteq> CHR '' '') (?R1 @ '' +'' @ rest) = ?R1" for rest
    using ns by (simp add: takeWhile_append2 takeWhile_tail)
  moreover have "takeWhile (\<lambda>c. c \<noteq> CHR '' '') (?R2 @ '' @@'' @ ?F) = ?R2"
    using ns by (simp add: takeWhile_append2 takeWhile_tail)
  ultimately show ?thesis
    by (simp add: parse_hunk_header_def Let_def parse_range_range_string)
qed

lemma hunk_blocks_written:
  assumes "h \<in> set (hunks_of k cs)"
  shows "hunk_blocks (split_nl (write_hunk no_color h)) = [(header_row h, concat (map hunk_rows (ops h)))]"
proof -
  have b: "list_all is_hunk_body (concat (map hunk_rows (ops h)))"
    using hunk_rows_body by (auto simp: list_all_iff)
  have "\<not> is_hunk_body []" "\<not> is_hunk_header []" by (simp_all add: is_hunk_body_def is_hunk_header_def)
  moreover have "is_hunk_header (header_row h)" by (simp add: is_hunk_header_def header_row_def)
  moreover have "takeWhile is_hunk_body (concat (map hunk_rows (ops h)) @ [[]]) = concat (map hunk_rows (ops h))"
    "dropWhile is_hunk_body (concat (map hunk_rows (ops h)) @ [[]]) = [[]]"
    using b \<open>\<not> is_hunk_body []\<close> by simp_all
  ultimately show ?thesis using hunks_of_rows [OF assms, of "[]"] by (simp del: takeWhile_append_all dropWhile_append_all)
qed

subsection \<open>Lemmas: The rows of an encoded patch\<close>

lemma header_lines_no_nl:
  assumes "nl \<notin> set src" "nl \<notin> set dst" "paths_avoid nl fp"
  shows "\<forall>x\<in>set (header_lines src dst fp). nl \<notin> set x"
  using assms
  by (auto simp: header_lines_def path_lines_def diff_git_line_def index_line_def
      paths_avoid_def numbers_avoid format_chars_not_digits split: option.splits)

lemma header_lines_typed: "\<forall>r\<in>set (header_lines src dst fp). is_header_row r"
  by (auto simp: header_lines_def path_lines_def diff_git_line_def index_line_def is_header_row_def
      header_words_def split: option.splits)

lemma header_lines_nonempty:
  "from_file fp \<noteq> None \<or> to_file fp \<noteq> None \<Longrightarrow> header_lines src dst fp \<noteq> []"
  by (auto simp: header_lines_def split: option.splits)

lemma write_hunks_rows:
  "\<forall>h\<in>set hs. h \<in> set (hunks_of k cs) \<Longrightarrow>
   split_nl (concat (map (write_hunk no_color) hs) @ rest) =
     concat (map (\<lambda>h. header_row h # concat (map hunk_rows (ops h))) hs) @ split_nl rest"
  by (induction hs) (simp_all add: hunks_of_rows [of _ k cs])

lemma file_patch_writes_rows:
  assumes "color e = no_color" "nl \<notin> set (src_prefix e)" "nl \<notin> set (dst_prefix e)" "paths_avoid nl fp"
  shows "split_nl (concat (file_patch_writes e fp) @ rest) = file_patch_rows e fp @ split_nl rest"
proof (cases "from_file fp = None \<and> to_file fp = None")
  case False
  let ?ls = "header_lines (src_prefix e) (dst_prefix e) fp"
  have ne: "?ls \<noteq> []" using False header_lines_nonempty by blast
  have r: "render_header no_color ?ls = join_with nl ?ls @ [nl]"
    using ne by (simp add: render_header_def no_color_def color_reset_def)
  let ?hs = "hunks_of (context_lines e) (chunks fp)"
  have w: "file_patch_writes e fp = render_header no_color ?ls # map (write_hunk no_color) ?hs"
    using False assms(1) by (simp add: file_patch_writes_def)
  have rw: "file_patch_rows e fp = ?ls @ concat (map (\<lambda>h. header_row h # concat (map hunk_rows (ops h))) ?hs)"
    unfolding file_patch_rows_def if_not_P [OF False] by (rule refl)
  show ?thesis
    using split_nl_join_lines [OF ne header_lines_no_nl [OF assms(2-4)]]
      write_hunks_rows [of ?hs "context_lines e" "chunks fp"]
    unfolding w rw r by simp
qed (simp add: file_patch_writes_def file_patch_rows_def)

lemma file_patch_rows_typed: "list_all row_typed (file_patch_rows e fp)"
proof -
  have "row_typed (header_row h)" for h
    by (simp add: row_typed_def is_hunk_header_def header_row_def)
  moreover have "list_all row_typed (hunk_rows l)" for l
    using hunk_rows_body [of l] by (simp add: row_typed_def list_all_iff)
  ultimately show ?thesis
    using header_lines_typed by (auto simp: file_patch_rows_def row_typed_def list_all_iff)
qed

lemma file_patches_rows:
  assumes "color e = no_color" "nl \<notin> set (src_prefix e)" "nl \<notin> set (dst_prefix e)"
    "list_all (paths_avoid nl) fps"
  shows "split_nl (concat (concat (map (file_patch_writes e) fps)) @ rest) =
    concat (map (file_patch_rows e) fps) @ split_nl rest"
  using assms(4) by (induction fps) (simp_all add: file_patch_writes_rows [OF assms(1-3)])

lemma encoded_rows:
  assumes "list_all (paths_avoid nl) (file_patches p)"
  shows "split_nl (encoded (NewUnifiedEncoder k) p) =
    message_rows (message p) @ concat (map (file_patch_rows (NewUnifiedEncoder k)) (file_patches p)) @ [[]]"
proof -
  let ?e = "NewUnifiedEncoder k"
  have f: "split_nl (concat (concat (map (file_patch_writes ?e) (file_patches p)))) =
      concat (map (file_patch_rows ?e) (file_patches p)) @ [[]]"
    using file_patches_rows [of ?e "file_patches p" "[]"] assms by (simp add: NewUnifiedEncoder_def no_color_def)
  show ?thesis
  proof (cases "message p = []")
    case False
    let ?m = "message_bytes (message p)"
    have "?m \<noteq> []" "last ?m = nl" using False by (simp_all add: message_bytes_def)
    then have "?m = butlast ?m @ [nl]" by (metis append_butlast_last_id)
    then have "split_nl (?m @ rest) = split_nl (butlast ?m) @ split_nl rest" for rest
      by (metis append.assoc append_Cons append_Nil split_nl_append_nl)
    moreover have "butlast ?m = (if last (message p) = nl then butlast (message p) else message p)"
      by (simp add: message_bytes_def)
    ultimately show ?thesis using False f by (simp add: encoded_def encode_writes_def message_rows_def)
  qed (simp add: encoded_def encode_writes_def message_rows_def f)
qed

end
