(* ===== verification/Worktree.thy ===== *)
theory Worktree
  imports Prelude "HOL-Library.Signed_Division"
begin

text \<open>
  \<open>worktree_linux.go\<close>: the Linux hook that copies file-system metadata from a
  \<open>syscall.Stat_t\<close> into an index entry (\<open>fillSystemInfo\<close>), and the Windows
  symlink probe that is constantly false on Linux.  On linux/amd64 \<open>Stat_t\<close>
  has 64-bit \<open>Dev\<close> and \<open>Ino\<close>, 32-bit \<open>Uid\<close> and \<open>Gid\<close>, and a
  \<open>Timespec\<close> of two \<open>int64\<close>; the index entry stores 32-bit \<open>Dev\<close>,
  \<open>Inode\<close>, \<open>UID\<close>, \<open>GID\<close>, so the two conversions \<open>uint32(...)\<close> keep the
  low 32 bits (\<open>ucast\<close>).  The \<open>sys\<close> argument is an \<open>interface{}\<close>: the type
  assertion succeeds only for a \<open>*syscall.Stat_t\<close>, modelled by the datatype
  \<open>sys_value\<close>.  \<open>time.Unix(sec, nsec)\<close>, the library call that builds
  \<open>CreatedAt\<close>, is modelled by \<open>go_time_Unix\<close> with Go's normalisation of
  the nanoseconds into \<open>[0, 10^9)\<close> on \<open>int64\<close> words.
\<close>

record timespec =
  tv_sec :: "64 word"
  tv_nsec :: "64 word"

record stat_t =
  st_dev :: "64 word"
  st_ino :: "64 word"
  st_uid :: "32 word"
  st_gid :: "32 word"
  st_size :: "64 word"
  st_ctim :: timespec
  st_mtim :: timespec

datatype sys_value = StatT stat_t | OtherSys

text \<open>A \<open>time.Time\<close> read as its Unix seconds and the nanoseconds within the second.\<close>

record go_time =
  unix_sec :: "64 word"
  unix_nsec :: "64 word"

record entry =
  Name :: bytes
  CreatedAt :: go_time
  ModifiedAt :: go_time
  Dev :: "32 word"
  Inode :: "32 word"
  Mode :: "32 word"
  UID :: "32 word"
  GID :: "32 word"
  Size :: "32 word"

text \<open>Go's \<open>int64\<close> division, truncating toward zero.\<close>

definition int64_div :: "64 word \<Rightarrow> 64 word \<Rightarrow> 64 word" where
  "int64_div a b = word_of_int (sint a sdiv sint b)"

text \<open>\<open>time.Unix(sec, nsec)\<close>: \<open>nsec\<close> outside \<open>[0, 1e9)\<close> is folded into the
  seconds with truncating division, then a negative remainder is borrowed.\<close>

definition go_time_Unix :: "64 word \<Rightarrow> 64 word \<Rightarrow> go_time" where
  "go_time_Unix sec nsec =
     (if nsec <s 0 \<or> 1000000000 \<le>s nsec then
        (let n = int64_div nsec 1000000000; sec1 = sec + n; nsec1 = nsec - n * 1000000000 in
         if nsec1 <s 0 then \<lparr>unix_sec = sec1 - 1, unix_nsec = nsec1 + 1000000000\<rparr>
         else \<lparr>unix_sec = sec1, unix_nsec = nsec1\<rparr>)
      else \<lparr>unix_sec = sec, unix_nsec = nsec\<rparr>)"

text \<open>\<open>(*Timespec).Unix()\<close>: the two fields as \<open>int64\<close>.\<close>

definition Timespec_Unix :: "timespec \<Rightarrow> 64 word \<times> 64 word" where
  "Timespec_Unix ts = (tv_sec ts, tv_nsec ts)"

definition fillSystemInfo :: "'a entry_scheme \<Rightarrow> sys_value \<Rightarrow> 'a entry_scheme" where
  "fillSystemInfo e sys =
     (case sys of
        StatT os \<Rightarrow>
          e\<lparr>CreatedAt := case_prod go_time_Unix (Timespec_Unix (st_ctim os)),
            Dev := ucast (st_dev os),
            Inode := ucast (st_ino os),
            GID := st_gid os,
            UID := st_uid os\<rparr>
      | OtherSys \<Rightarrow> e)"

definition isSymlinkWindowsNonAdmin :: "'err \<Rightarrow> bool" where
  "isSymlinkWindowsNonAdmin _ = False"

subsection \<open>Arithmetic of the time normalisation\<close>

lemma sint_word_of_int_small:
  "- (2 ^ 63) \<le> k \<Longrightarrow> k < 2 ^ 63 \<Longrightarrow> sint (word_of_int k :: 64 word) = k"
  by (simp add: sint_sbintrunc' signed_take_bit_int_eq_self)

lemma sint_billion [simp]: "sint (1000000000 :: 64 word) = 1000000000"
  using sint_word_of_int_small [of 1000000000] by simp

lemma int64_div_billion:
  "int64_div n 1000000000 = word_of_int (sint n sdiv 1000000000)"
  by (simp add: int64_div_def)

lemma sdiv_billion_range:
  "\<bar>sint (n :: 64 word) sdiv 1000000000\<bar> \<le> 2 ^ 34"
proof -
  have "\<bar>sint n\<bar> \<le> 2 ^ 63" using sint_ge [of n] sint_lt [of n] by simp
  then have "\<bar>sint n\<bar> div 1000000000 \<le> 2 ^ 63 div 1000000000"
    by (simp add: zdiv_mono1)
  also have "\<dots> \<le> 2 ^ 34" by simp
  finally show ?thesis
    by (simp add: signed_divide_int_def abs_mult abs_sgn_eq split: if_splits)
qed

text \<open>The remainder left in the nanoseconds is the truncating remainder \<open>smod\<close>.\<close>

lemma nsec_remainder:
  "n - int64_div n 1000000000 * 1000000000 = (word_of_int (sint n smod 1000000000) :: 64 word)"
proof -
  have "(word_of_int (sint n - sint n sdiv 1000000000 * 1000000000) :: 64 word) =
        n - int64_div n 1000000000 * 1000000000"
    by (simp add: int64_div_billion)
  then show ?thesis by (simp add: minus_sdiv_mult_eq_smod)
qed

lemma smod_billion_range:
  "- 1000000000 < (k :: int) smod 1000000000" "k smod 1000000000 < 1000000000"
  "0 \<le> k \<Longrightarrow> 0 \<le> k smod 1000000000"
  using smod_int_range [of 1000000000 k] smod_int_compares(2) [of k 1000000000] by auto

lemma word_add_sint_small:
  "- (2 ^ 63) \<le> sint (a :: 64 word) + k \<Longrightarrow> sint a + k < 2 ^ 63 \<Longrightarrow>
   sint (a + word_of_int k) = sint a + k"
proof -
  assume "- (2 ^ 63) \<le> sint a + k" "sint a + k < 2 ^ 63"
  then have "sint (word_of_int (sint a + k) :: 64 word) = sint a + k"
    by (rule sint_word_of_int_small)
  moreover have "a + word_of_int k = word_of_int (sint a + k)" by simp
  ultimately show ?thesis by metis
qed

text \<open>\<open>time.Unix\<close> leaves the nanoseconds in \<open>[0, 10^9)\<close>, and, away from
  the \<open>int64\<close> limits of the seconds, denotes the same instant as its arguments.\<close>

lemma go_time_Unix_normalised:
  fixes s n :: "64 word"
  defines "t \<equiv> go_time_Unix s n"
  shows "0 \<le> sint (unix_nsec t) \<and> sint (unix_nsec t) < 1000000000 \<and>
         (\<bar>sint s\<bar> < 2 ^ 62 \<longrightarrow>
          sint (unix_sec t) * 1000000000 + sint (unix_nsec t) = sint s * 1000000000 + sint n)"
proof (cases "n <s 0 \<or> 1000000000 \<le>s n")
  case False
  then show ?thesis by (simp add: t_def go_time_Unix_def word_sle_eq word_sless_alt not_less)
next
  case True
  define q where "q = sint n sdiv 1000000000"
  define r where "r = sint n smod 1000000000"
  have qr: "q * 1000000000 + r = sint n"
    unfolding q_def r_def by (rule sdiv_mult_smod_eq)
  have rr: "- 1000000000 < r" "r < 1000000000"
    unfolding r_def by (rule smod_billion_range)+
  have q: "\<bar>q\<bar> \<le> 2 ^ 34"
    unfolding q_def by (rule sdiv_billion_range)
  have div: "int64_div n 1000000000 = word_of_int q"
    by (simp add: q_def int64_div_billion)
  have nsec1: "n - word_of_int q * 1000000000 = word_of_int r"
    using nsec_remainder [of n] by (simp add: div r_def)
  have sr: "sint (word_of_int r :: 64 word) = r"
    using rr by (intro sint_word_of_int_small) auto
  have sr_neg: "sint (word_of_int r + 1000000000 :: 64 word) = r + 1000000000"
    using rr word_add_sint_small [of "word_of_int r" 1000000000] sr by simp
  have secs: "sint (s + word_of_int q) = sint s + q" "sint (s + word_of_int q - 1) = sint s + q - 1"
    if "\<bar>sint s\<bar> < 2 ^ 62"
  proof -
    show sq: "sint (s + word_of_int q) = sint s + q"
      using that q by (intro word_add_sint_small) auto
    have "s + word_of_int q - 1 = (s + word_of_int q) + word_of_int (- 1)" by simp
    then show "sint (s + word_of_int q - 1) = sint s + q - 1"
      using that q sq word_add_sint_small [of "s + word_of_int q" "- 1"] by simp
  qed
  show ?thesis
  proof (cases "r < 0")
    case True
    with \<open>n <s 0 \<or> 1000000000 \<le>s n\<close> have "t = \<lparr>unix_sec = s + word_of_int q - 1,
        unix_nsec = word_of_int r + 1000000000\<rparr>"
      by (simp add: t_def go_time_Unix_def Let_def div nsec1 word_sless_alt sr)
    show ?thesis
    proof (intro conjI impI)
      assume "\<bar>sint s\<bar> < 2 ^ 62"
      then have "sint (s + word_of_int q - 1) = sint s + q - 1" by (rule secs(2))
      with \<open>t = _\<close> sr_neg qr show "sint (unix_sec t) * 1000000000 + sint (unix_nsec t) =
          sint s * 1000000000 + sint n"
        by (simp add: algebra_simps)
    qed (use \<open>t = _\<close> True rr sr_neg in simp_all)
  next
    case False
    with \<open>n <s 0 \<or> 1000000000 \<le>s n\<close> have "t = \<lparr>unix_sec = s + word_of_int q,
        unix_nsec = word_of_int r\<rparr>"
      by (simp add: t_def go_time_Unix_def Let_def div nsec1 word_sless_alt sr)
    show ?thesis
    proof (intro conjI impI)
      assume "\<bar>sint s\<bar> < 2 ^ 62"
      then have "sint (s + word_of_int q) = sint s + q" by (rule secs(1))
      with \<open>t = _\<close> sr qr show "sint (unix_sec t) * 1000000000 + sint (unix_nsec t) =
          sint s * 1000000000 + sint n"
        by (simp add: algebra_simps)
    qed (use \<open>t = _\<close> False rr sr in simp_all)
  qed
qed

subsection \<open>Properties of fillSystemInfo\<close>

text \<open>C5: the device and inode numbers of a \<open>Stat_t\<close> reach the index entry as
  their low 32 bits (\<open>uint32(os.Dev)\<close>, \<open>uint32(os.Ino)\<close>): the stored value is
  the 64-bit value modulo \<open>2^32\<close>.\<close>

theorem fillSystemInfo_truncates:
  "unat (Dev (fillSystemInfo e (StatT os))) = unat (st_dev os) mod 2 ^ 32 \<and>
   unat (Inode (fillSystemInfo e (StatT os))) = unat (st_ino os) mod 2 ^ 32"
  by (simp add: fillSystemInfo_def unsigned_ucast_eq take_bit_eq_mod)

text \<open>C7: \<open>fillSystemInfo\<close> writes only the five metadata fields: for a
  \<open>Stat_t\<close> it copies the owner ids, keeps every other field of the entry
  (name, modification time, mode, size and any extension), and applying it
  twice is applying it once; for any other value the type assertion fails and
  the entry is left as it was.\<close>

theorem fillSystemInfo_frame:
  "fillSystemInfo e OtherSys = e \<and>
   UID (fillSystemInfo e (StatT os)) = st_uid os \<and>
   GID (fillSystemInfo e (StatT os)) = st_gid os \<and>
   Name (fillSystemInfo e (StatT os)) = Name e \<and>
   ModifiedAt (fillSystemInfo e (StatT os)) = ModifiedAt e \<and>
   Mode (fillSystemInfo e (StatT os)) = Mode e \<and>
   Size (fillSystemInfo e (StatT os)) = Size e \<and>
   entry.more (fillSystemInfo e (StatT os)) = entry.more e \<and>
   fillSystemInfo (fillSystemInfo e (StatT os)) (StatT os) = fillSystemInfo e (StatT os)"
  by (simp add: fillSystemInfo_def)

text \<open>C6: the creation time stored is the change time of the \<open>Stat_t\<close>
  normalised by \<open>time.Unix\<close>: its nanoseconds lie in \<open>[0, 10^9)\<close>, it denotes
  the same instant as \<open>Ctim\<close> (seconds away from the \<open>int64\<close> limits), and a
  \<open>Ctim\<close> whose nanoseconds are already in range, as Linux reports them, is
  stored unchanged.\<close>

theorem fillSystemInfo_CreatedAt:
  "0 \<le> sint (unix_nsec (CreatedAt (fillSystemInfo e (StatT os)))) \<and>
   sint (unix_nsec (CreatedAt (fillSystemInfo e (StatT os)))) < 1000000000 \<and>
   (\<bar>sint (tv_sec (st_ctim os))\<bar> < 2 ^ 62 \<longrightarrow>
      sint (unix_sec (CreatedAt (fillSystemInfo e (StatT os)))) * 1000000000 +
      sint (unix_nsec (CreatedAt (fillSystemInfo e (StatT os)))) =
      sint (tv_sec (st_ctim os)) * 1000000000 + sint (tv_nsec (st_ctim os))) \<and>
   (0 \<le> sint (tv_nsec (st_ctim os)) \<and> sint (tv_nsec (st_ctim os)) < 1000000000 \<longrightarrow>
      CreatedAt (fillSystemInfo e (StatT os)) =
      \<lparr>unix_sec = tv_sec (st_ctim os), unix_nsec = tv_nsec (st_ctim os)\<rparr>)"
proof -
  have created: "CreatedAt (fillSystemInfo e (StatT os)) =
      go_time_Unix (tv_sec (st_ctim os)) (tv_nsec (st_ctim os))"
    by (simp add: fillSystemInfo_def Timespec_Unix_def)
  have "go_time_Unix (tv_sec (st_ctim os)) (tv_nsec (st_ctim os)) =
        \<lparr>unix_sec = tv_sec (st_ctim os), unix_nsec = tv_nsec (st_ctim os)\<rparr>"
    if "0 \<le> sint (tv_nsec (st_ctim os))" "sint (tv_nsec (st_ctim os)) < 1000000000"
    using that by (simp add: go_time_Unix_def word_sle_eq word_sless_alt)
  then show ?thesis
    using go_time_Unix_normalised [of "tv_sec (st_ctim os)" "tv_nsec (st_ctim os)"]
    by (simp add: created)
qed

text \<open>A witness: a change time with negative nanoseconds, as \<open>time.Unix\<close>
  accepts, is borrowed from the seconds.\<close>

theorem fillSystemInfo_CreatedAt_witness:
  "\<bar>sint (5 :: 64 word)\<bar> < 2 ^ 62 \<and>
   CreatedAt (fillSystemInfo \<lparr>Name = [], CreatedAt = \<lparr>unix_sec = 0, unix_nsec = 0\<rparr>,
      ModifiedAt = \<lparr>unix_sec = 0, unix_nsec = 0\<rparr>, Dev = 0, Inode = 0, Mode = 0, UID = 0, GID = 0,
      Size = 0\<rparr> (StatT \<lparr>st_dev = 1, st_ino = 2, st_uid = 0, st_gid = 0,
      st_size = 0, st_ctim = \<lparr>tv_sec = 5, tv_nsec = - 1\<rparr>, st_mtim = \<lparr>tv_sec = 0, tv_nsec = 0\<rparr>\<rparr>)) =
     \<lparr>unix_sec = 4, unix_nsec = 999999999\<rparr> \<and>
   sint (4 :: 64 word) * 1000000000 + sint (999999999 :: 64 word) =
   sint (5 :: 64 word) * 1000000000 + sint (- 1 :: 64 word)"
proof -
  let ?e = "\<lparr>Name = [], CreatedAt = \<lparr>unix_sec = 0, unix_nsec = 0\<rparr>,
      ModifiedAt = \<lparr>unix_sec = 0, unix_nsec = 0\<rparr>, Dev = 0, Inode = 0, Mode = 0, UID = 0, GID = 0,
      Size = 0\<rparr>"
  let ?os = "\<lparr>st_dev = 1, st_ino = 2, st_uid = 0, st_gid = 0, st_size = 0,
      st_ctim = \<lparr>tv_sec = 5 :: 64 word, tv_nsec = - 1\<rparr>, st_mtim = \<lparr>tv_sec = 0, tv_nsec = 0\<rparr>\<rparr>"
  have c: "CreatedAt (fillSystemInfo ?e (StatT ?os)) = \<lparr>unix_sec = 4, unix_nsec = 999999999\<rparr>"
    by (simp add: fillSystemInfo_def Timespec_Unix_def go_time_Unix_def int64_div_def
        signed_divide_int_def)
  have "\<bar>sint (5 :: 64 word)\<bar> < 2 ^ 62" by simp
  with fillSystemInfo_CreatedAt [of ?e ?os] c show ?thesis by simp
qed

end
