(* ===== verification/Symmetry.thy ===== *)
theory Symmetry
  imports Fixtures HunkSpec
begin

text \<open>
  Symmetry of the hunk builder under exchanging the two sides of a diff.
  Inverting every line (Add for Delete and back) inverts the hunks: the line
  numbers of the two sides change places and the function context stays
  (\<open>generate_inv\<close>, through the reference hunks of \<open>HunkSpec\<close>), and the
  hunks of an inverted producer patch are the swapped hunks.
\<close>

text \<open>Swapping the two sides of a diff: Add and Delete exchange, Equal stays.\<close>

definition invert_op :: "operation \<Rightarrow> operation" where
  "invert_op opr = (case opr of Equal \<Rightarrow> Equal | Add \<Rightarrow> Delete | Delete \<Rightarrow> Add)"

definition inv_line :: "line \<Rightarrow> line" where
  "inv_line l = l\<lparr>lop := invert_op (lop l)\<rparr>"

text \<open>The hunk seen from the other side: line numbers exchanged, lines inverted.\<close>

definition swap_hunk :: "hunk \<Rightarrow> hunk" where
  "swap_hunk h = \<lparr>old_line = new_line h, new_line = old_line h, func_ctx = func_ctx h,
                  ops = map inv_line (ops h)\<rparr>"

text \<open>The inverse of a producer patch: each file patch with its sides exchanged and
  its chunks inverted.\<close>

definition invert_testChunk :: "testChunk \<Rightarrow> testChunk" where
  "invert_testChunk c = c\<lparr>tc_op := invert_op (tc_op c)\<rparr>"

definition invert_testFilePatch :: "testFilePatch \<Rightarrow> testFilePatch" where
  "invert_testFilePatch fp = \<lparr>tfp_from = tfp_to fp, tfp_to = tfp_from fp,
     tfp_chunks = map invert_testChunk (tfp_chunks fp)\<rparr>"

lemma lop_inv_line [simp]: "lop (inv_line l) = invert_op (lop l)" and ltext_inv_line [simp]: "ltext (inv_line l) = ltext l"
  by (simp_all add: inv_line_def)

lemma invert_op_Equal [simp]: "invert_op o' = Equal \<longleftrightarrow> o' = Equal"
  and invert_op_Add [simp]: "invert_op o' = Add \<longleftrightarrow> o' = Delete"
  and invert_op_Delete [simp]: "invert_op o' = Delete \<longleftrightarrow> o' = Add"
  by (cases o'; simp add: invert_op_def)+

lemma old_len_inv [simp]: "old_len (map inv_line ls) = new_len ls"
  and new_len_inv [simp]: "new_len (map inv_line ls) = old_len ls"
  by (simp_all add: old_len_def new_len_def filter_map comp_def)

lemma changes_inv [simp]: "changes (map inv_line ls) = changes ls"
  by (auto simp: changes_def intro!: filter_cong)

lemma ref_hunk_inv:
  "fst g < length ls \<Longrightarrow> ref_hunk k (map inv_line ls) g = swap_hunk (ref_hunk k ls g)"
  by (simp add: ref_hunk_def Let_def swap_hunk_def take_map drop_map)

lemma generate_inv: "generate k (map inv_line ls) = map swap_hunk (generate k ls)"
proof -
  have "ref_hunk k (map inv_line ls) g = swap_hunk (ref_hunk k ls g)"
    if "g \<in> set (groups k (changes ls))" for g
    using group_facts(1,2) [OF that] by (intro ref_hunk_inv) simp
  then show ?thesis by (simp add: generate_ref ref_hunks_def)
qed

lemma chunk_lines_inv:
  "chunk_lines (c\<lparr>ctype := invert_op (ctype c)\<rparr>) = map inv_line (chunk_lines c)"
  by (simp add: chunk_lines_def Let_def inv_line_def)

subsection \<open>Properties\<close>

text \<open>For every file patch of the producer, the hunks of its inverse are its
  own hunks seen from the other side: old and new line numbers exchanged, each
  line's Add and Delete exchanged, the function context unchanged.\<close>

theorem hunks_of_inverted:
  "hunks_of k (testFilePatch_Chunks (invert_testFilePatch fp)) =
   map swap_hunk (hunks_of k (testFilePatch_Chunks fp))"
proof -
  have c: "chunk_lines (testChunk_Chunk (invert_testChunk c)) = map inv_line (chunk_lines (testChunk_Chunk c))"
    for c using chunk_lines_inv [of "testChunk_Chunk c"]
    by (simp add: testChunk_Chunk_def invert_testChunk_def testChunk_Content_def testChunk_Type_def)
  have "file_lines (testFilePatch_Chunks (invert_testFilePatch fp)) =
        map inv_line (file_lines (testFilePatch_Chunks fp))"
    by (simp add: file_lines_def testFilePatch_Chunks_def invert_testFilePatch_def map_concat comp_def c)
  then show ?thesis by (simp add: hunks_of_def generate_inv)
qed

end
