(* ===== verification/Spec2Isabelle.thy ===== *)
theory Spec2Isabelle
  imports Layout Worktree Symmetry
begin

text \<open>
  \<^bold>\<open>A verification development of the unified-diff encoder of go-git and of its
  Linux worktree hook.\<close>

  \<^bold>\<open>What the repository holds.\<close>  Two source files: the encoder's test suite
  \<^verbatim>\<open>src/plumbing/format/diff/unified_encoder_test.go\<close> (an in-memory producer of
  patches and twenty-six fixtures with the exact bytes expected) and
  \<^verbatim>\<open>src/worktree_linux.go\<close> (\<open>fillSystemInfo\<close>, which copies
  \<open>syscall.Stat_t\<close> metadata into an index entry, and
  \<open>isSymlinkWindowsNonAdmin\<close>).  The encoder itself,
  \<^verbatim>\<open>unified_encoder.go\<close>, is not among the sources: it is modelled from the
  specification (\<^verbatim>\<open>spec.md\<close>), and the test suite is then run against that
  model inside the logic.

  \<^bold>\<open>The encoder's parts and how they interact\<close> (spec section 2).  Data flows
  downward: a patch is a message and a list of file patches; the patch driver
  (C1) writes the message and, per file patch, the header (C2) and the hunks,
  which the hunk builder (C3) cuts out of the file patch's chunks and the line
  writer (C4) renders, with optional colour, to the sink.

  \<^bold>\<open>Theories and the parts they model.\<close>
  \<^item> \<open>Prelude\<close>: byte strings, the characters of the format, \<open>join_with\<close>
    (\<open>strings.Join\<close>), shared list lemmas, the collection \<open>model_defs\<close> that
    concrete evaluations unfold.
  \<^item> \<open>Format\<close>: the number renderers of the wire format (spec 6.3):
    \<open>dec_string\<close> (\<open>strconv.Itoa\<close>), \<open>mode_octal\<close> (a file mode as the six
    octal digits spec 6.3 fixes; Go's \<open>%o\<close> agrees for modes of six digits), \<open>hex_string\<close> (an object id as forty lowercase hex digits),
    each with a parser and a round-trip theorem.
  \<^item> \<open>Lines\<close>: \<open>operation\<close>, \<open>chunk\<close>, logical \<open>line\<close>; \<open>chunk_lines\<close>
    splits a chunk on newlines and flags an unterminated last line (4.3.1);
    \<open>chunk_lines_roundtrip\<close> shows no byte is lost.
  \<^item> \<open>Hunks\<close>: the hunk builder C3 (4.3.2).  Its state record \<open>hgen\<close> holds
    the spec's \<open>old_ln\<close>, \<open>new_ln\<close>, bounded window \<open>pre_ctx\<close>, the last
    evicted line (function context, 4.3.4), the open hunk \<open>cur\<close>, the count
    \<open>esc\<close> of Equal lines since its last change, and the flushed hunks;
    \<open>step_line\<close> is one iteration, \<open>finish\<close> the end-of-stream flush,
    \<open>generate\<close> the walk, \<open>hunks_of\<close> the walk over a chunk list; the walk
    is also a transition relation \<open>gen_step\<close> on configurations
    (\<open>Running\<close> state and lines left, \<open>Done\<close> hunks).
  \<^item> \<open>Render\<close>: C4, colour roles and configurations (\<open>NewColorConfig\<close>,
    \<open>WithColor\<close>), \<open>write_line\<close> with the "no newline" marker (4.3.5),
    \<open>hunk_header\<close> with the count rules of 4.3.3, \<open>write_hunk\<close>.
  \<^item> \<open>Header\<close>: C2, the file sides (\<open>diff_file\<close>, \<open>file_patch\<close>) and
    \<open>header_lines\<close>, the lines of 4.2 in their order; \<open>render_header\<close>
    frames them in the Meta colour.
  \<^item> \<open>Encoder\<close>: C1, the encoder configuration (\<open>NewUnifiedEncoder\<close> and the
    setters), \<open>encode_writes\<close> (the writes of \<open>Encode\<close> in order), the sink
    interface (\<open>('s, 'e) sink\<close>: a write either appends or fails),
    \<open>write_all\<close> (stop at the first failure) and \<open>Encode\<close>; \<open>buffer_write\<close>
    is \<open>bytes.Buffer\<close>.
  \<^item> \<open>HunkSpec\<close>: a declarative specification of the hunks of a line
    stream (\<open>ref_hunks\<close>: changes grouped when at most \<open>2k\<close> Equal lines
    separate them, each group shown with \<open>k\<close> lines of context) and the proof
    that the builder computes it (\<open>generate_ref\<close>), by an invariant
    \<open>gen_inv\<close> of \<open>step_line\<close> over the prefix walked so far; then the hunk
    properties of spec section 8 as consequences.
  \<^item> \<open>Producer\<close>: the test file's producer of patches (lines 1000 to 1077 of
    the test file): \<open>testPatch\<close>, \<open>testFilePatch\<close>, \<open>testFile\<close>,
    \<open>testChunk\<close> and their methods (\<open>testPatch_FilePatches\<close>,
    \<open>testFilePatch_Files\<close>, ...), which implement the interface the encoder
    consumes.  \<open>Files()\<close> returns Go interface values (\<open>go_iface\<close>: \<open>nil\<close>,
    or a possibly nil \<open>*testFile\<close>), and \<open>file_side\<close> reads one through the
    \<open>File\<close> methods, a nil pointer inside panicking.
  \<^item> \<open>Fixtures\<close>: the two shared patches and the twenty-six fixtures of the
    test file as generated from the Go literals, and the tests
    \<open>TestEncode\<close>, \<open>TestBinaryFile\<close>, \<open>TestCustomSrcDstPrefix\<close>,
    \<open>TestBothFilesEmpty\<close>.
  \<^item> \<open>FixtureText\<close>: the fixtures' expected outputs read without the encoder:
    each \<open>@@\<close> header is parsed and its sides looked up in the fixture's seeds.
  \<^item> \<open>Layout\<close>: views of the written bytes used to state properties (no
    code of their own): SGR escapes and whether one is left open
    (\<open>is_sgr\<close>, \<open>esc_open\<close>, \<open>sgr_config\<close>), the rows of a written hunk
    (\<open>header_row\<close>, \<open>hunk_rows\<close>) and of a whole encoding
    (\<open>message_rows\<close>, \<open>file_patch_rows\<close>) and their kinds (\<open>row_typed\<close>),
    the grammar of a file-header block (\<open>header_block_ok\<close>).
  \<^item> \<open>Symmetry\<close>: inverting a diff (Add and Delete exchanged, sides exchanged)
    and the builder's symmetry under it.
  \<^item> \<open>Worktree\<close>: \<open>worktree_linux.go\<close>: \<open>Stat_t\<close>, the index entry,
    \<open>fillSystemInfo\<close> with its \<open>uint32\<close> truncations and the \<open>time.Unix\<close>
    normalisation of the change time, \<open>isSymlinkWindowsNonAdmin\<close>.

  \<^bold>\<open>The claims.\<close>  Seven theorems are the development's claims, C1 to C7;
  the others are lemmas and theorems they rest on or that document the model.
  \<^item> C1 \<open>hunks_refine_reference\<close> (this theory, over \<open>HunkSpec\<close>): for every
    file patch of the producer, the builder's hunks are the reference hunks.
  \<^item> C2 \<open>TestEncode_holds_but_one\<close> (\<open>Fixtures\<close>): twenty-five of the
    twenty-six fixtures of \<open>TestEncode\<close> encode to exactly their expected
    bytes, for every hasher agreeing with git's blob ids on the seeds.
  \<^item> C3 \<open>colour_strips_to_plain\<close> (this theory, over \<open>Layout\<close>): with any SGR
    colour configuration, the coloured encoding of an \<open>ESC\<close>-free producer
    patch strips to the uncoloured one and leaves no escape open.
  \<^item> C4 \<open>Files_no_typed_nil\<close> (\<open>Producer\<close>): \<open>Files()\<close> never yields a typed
    nil, so reading its sides never panics; without its switch, reading
    panics exactly for the file patches with an absent side.
  \<^item> C5 to C7 (\<open>Worktree\<close>): the 32-bit truncations of \<open>Dev\<close> and \<open>Ino\<close>,
    the normalised creation time, and the frame of \<open>fillSystemInfo\<close>.

  \<^bold>\<open>The other theorems.\<close>  \<open>Format\<close>: the renderers round-trip and have
  the widths of the wire format.  \<open>Lines\<close>: splitting is lossless and
  well-formed.  This theory, over \<open>HunkSpec\<close>: each hunk is a window of the
  file patch whose header addresses both files (\<open>hunk_addresses_files\<close>);
  successive hunks leave a hidden line, context is at most \<open>k\<close> and each hunk
  holds a change (\<open>hunks_separated_bounded\<close>); no change is lost or repeated
  (\<open>hunks_complete\<close>); context 0 shows no Equal line and an Equal-only file
  patch has no hunk (\<open>hunks_context0_equal_only\<close>); every hunk the builder
  opens is eventually emitted at the line numbers it opened at
  (\<open>opened_hunks_emitted\<close>, on the transition relation \<open>gen_step\<close>).
  \<open>Symmetry\<close>: the hunks of an inverted file patch are the swapped hunks
  (\<open>hunks_of_inverted\<close>).  \<open>Fixtures\<close>: \<open>TestBinaryFile\<close> and
  \<open>TestCustomSrcDstPrefix\<close> hold of the model; the twenty-third fixture
  ("remove last letter and no newline at end of file") expects
  \<open>@@ -22,2 +21 @@\<close> where the spec's numbering gives \<open>+22\<close>
  (\<open>TestEncode_remove_last_letter_diverges\<close>), and \<open>FixtureText\<close> shows,
  without the encoder, that this header names line 21 of its own to seed for
  an added line that is line 22 (\<open>fixtures_address_their_seeds\<close>, the
  evidence of the finding).  This theory, over \<open>Layout\<close>: into a sink of
  bounded capacity \<open>Encode\<close> either writes the whole encoding or stops at the
  first failing write with a prefix of it in the sink
  (\<open>Encode_capacity\<close>); the encoded bytes split into typed rows
  (\<open>encoded_rows_typed\<close>); written hunks read back through the fixture
  reader (\<open>written_hunks_read_back\<close>); the header lines follow the order of
  spec 4.2 (\<open>header_lines_ordered\<close>).

  \<^bold>\<open>Choices and bounds.\<close>  Every definition is executable; the fixture
  theorems are closed evaluations by \<open>simp\<close> or \<open>code_simp\<close>.  No fuel is needed: every loop
  of the encoder is a structural recursion or fold over a finite list.  The
  context size is a \<open>nat\<close> (the spec: non-negative).  SHA-1 is not modelled:
  a test file's object id is \<open>H seed\<close> for a hasher parameter \<open>H\<close>, and the
  fixture theorems assume only that \<open>H\<close> matches the fourteen ids printed in
  the fixtures (\<open>blob_ids_ok\<close>; \<open>table_hasher\<close> shows such an \<open>H\<close> exists).
  The close rule of 4.3.2 is read as: the surplus Equal lines beyond the
  first \<open>k\<close> go through the window, the reading under which the fixtures hold.

  \<^bold>\<open>Not modelled.\<close>  SHA-1 and the object store, file I/O, the CLI and the
  diff computation (the encoder consumes chunks), all out of the spec's scope;
  the callers of the package variable \<open>fillSystemInfo\<close>, which are not
  among the sources, and the other platform files of the package whose
  \<open>init\<close> functions also assign it; lines 1 and 2 of \<open>worktree_linux.go\<close>,
  build constraints whose meaning is the Go toolchain's file selection, not
  behaviour of the program; the \<open>init\<close> of lines 13 and 23, which only
  stores \<open>fillSystemInfo\<close> (modelled as the function itself); lines 4 to 11,
  the package clause and the imports.  \<open>sys_value\<close> has no typed-nil
  \<open>*syscall.Stat_t\<close> (for which the assertion succeeds and \<open>os.Ctim\<close>
  panics): \<open>os.FileInfo.Sys()\<close> on Linux returns a non-nil pointer.  File
  modes are written as six octal digits, as spec 6.3 fixes them.

  \<^bold>\<open>Further work.\<close>  Relating the written hunks to the text of the two
  file versions, so that the fixture reader's consistency check holds of the
  encoder's output for chunk lists whose chunks end at line boundaries.
\<close>

text \<open>A small file patch of the producer, for the witnesses: two Equal lines and
  a deleted line.\<close>

definition small_fp :: testFilePatch where
  "small_fp = \<lparr>tfp_from = None, tfp_to = None,
     tfp_chunks = [\<lparr>tc_content = ''A'' @ [nl] @ ''B'' @ [nl], tc_op = Equal\<rparr>,
                   \<lparr>tc_content = ''C'' @ [nl], tc_op = Delete\<rparr>]\<rparr>"

text \<open>A small test patch for the witnesses: one file whose only line is deleted.\<close>

definition small_tp :: testPatch where
  "small_tp = \<lparr>tp_message = ''m'',
     tp_filePatches = [\<lparr>tfp_from = Some \<lparr>tf_path = ''f'', tf_mode = filemode_Regular, tf_seed = ''A'' @ [nl]\<rparr>,
                        tfp_to = Some \<lparr>tf_path = ''f'', tf_mode = filemode_Regular, tf_seed = []\<rparr>,
                        tfp_chunks = [\<lparr>tc_content = ''A'' @ [nl], tc_op = Delete\<rparr>]\<rparr>]\<rparr>"

subsection \<open>The hunk builder on the producer's file patches\<close>

lemma small_fp_hunks:
  "hunks_of (Suc 0) (testFilePatch_Chunks small_fp) =
     [\<lparr>old_line = 2, new_line = 2, func_ctx = Some ''A'',
       ops = [\<lparr>lop = Equal, ltext = ''B'', leof = False\<rparr>, \<lparr>lop = Delete, ltext = ''C'', leof = False\<rparr>]\<rparr>]"
  by (simp add: small_fp_def test_producer_defs model_defs chunk_lines_def split_nl.simps file_lines_def)

text \<open>C1: the hunk builder refines the declarative specification of hunks: for
  every file patch of the producer and every context size, the hunks the
  streaming walk of spec 4.3.2 cuts out of its chunks are the reference hunks
  (changes grouped when at most 2k Equal lines separate them, each group shown
  with k lines of context, clipped to the file).\<close>

theorem hunks_refine_reference:
  "hunks_of k (testFilePatch_Chunks fp) = ref_hunks k (file_lines (testFilePatch_Chunks fp))"
  by (simp add: hunks_of_def generate_ref)

text \<open>Every hunk is a contiguous window of the file patch's lines whose function
  context is the line just above it, and its @@ header addresses both files:
  the old_count lines of the old file from line old_line are the hunk's context
  and deleted lines, and the new_count lines of the new file from line new_line
  its context and added lines.\<close>

theorem hunk_addresses_files:
  assumes "h \<in> set (hunks_of k (testFilePatch_Chunks fp))"
  defines "ls \<equiv> file_lines (testFilePatch_Chunks fp)"
  shows "(\<exists>s. ops h = take (length (ops h)) (drop s ls) \<and>
            func_ctx h = (if s = 0 then None else Some (ltext (ls ! (s - 1))))) \<and>
    take (old_count h) (drop (old_line h - 1) (map ltext (filter (\<lambda>l. lop l \<noteq> Add) ls))) =
      map ltext (filter (\<lambda>l. lop l \<noteq> Add) (ops h)) \<and>
    take (new_count h) (drop (new_line h - 1) (map ltext (filter (\<lambda>l. lop l \<noteq> Delete) ls))) =
      map ltext (filter (\<lambda>l. lop l \<noteq> Delete) (ops h))"
  using generate_window [OF assms(1) [unfolded hunks_of_def]]
    generate_addresses [OF assms(1) [unfolded hunks_of_def]] unfolding ls_def by blast

text \<open>The hunk invariants of spec section 8 (items 2 and 3): successive hunks
  leave at least one line hidden on both sides, every hunk holds a change, and
  its leading and trailing context are at most k lines.\<close>

theorem hunks_separated_bounded:
  "(\<forall>i. Suc i < length (hunks_of k (testFilePatch_Chunks fp)) \<longrightarrow>
      old_line (hunks_of k (testFilePatch_Chunks fp) ! i) + old_count (hunks_of k (testFilePatch_Chunks fp) ! i)
        < old_line (hunks_of k (testFilePatch_Chunks fp) ! Suc i) \<and>
      new_line (hunks_of k (testFilePatch_Chunks fp) ! i) + new_count (hunks_of k (testFilePatch_Chunks fp) ! i)
        < new_line (hunks_of k (testFilePatch_Chunks fp) ! Suc i)) \<and>
   (\<forall>h\<in>set (hunks_of k (testFilePatch_Chunks fp)).
      length (takeWhile (\<lambda>l. lop l = Equal) (ops h)) \<le> k \<and>
      length (takeWhile (\<lambda>l. lop l = Equal) (rev (ops h))) \<le> k \<and>
      (\<exists>l\<in>set (ops h). lop l \<noteq> Equal))"
  unfolding hunks_of_def using generate_separated generate_context by blast

text \<open>No change is lost or repeated: the Delete and Add lines of the hunks, in
  order, are exactly those of the file patch.\<close>

theorem hunks_complete:
  "filter (\<lambda>l. lop l \<noteq> Equal) (concat (map ops (hunks_of k (testFilePatch_Chunks fp)))) =
   filter (\<lambda>l. lop l \<noteq> Equal) (file_lines (testFilePatch_Chunks fp))"
  by (simp add: hunks_of_def generate_complete)

text \<open>With context 0 no hunk shows an Equal line (spec 8, item 5), and a file
  patch has no hunk exactly when each of its chunks is an Equal chunk or empty
  (item 6: an Equal-only file patch emits its header but no hunk).\<close>

theorem hunks_context0_equal_only:
  "(\<forall>h\<in>set (hunks_of 0 (testFilePatch_Chunks fp)). \<forall>l\<in>set (ops h). lop l \<noteq> Equal) \<and>
   (hunks_of k (testFilePatch_Chunks fp) = [] \<longleftrightarrow>
      (\<forall>t\<in>set (tfp_chunks fp). testChunk_Type t = Equal \<or> testChunk_Content t = []))"
proof -
  have "(\<forall>l\<in>set (file_lines (testFilePatch_Chunks fp)). lop l = Equal) \<longleftrightarrow>
        (\<forall>t\<in>set (tfp_chunks fp). testChunk_Type t = Equal \<or> testChunk_Content t = [])"
    by (simp add: file_lines_all_equal testFilePatch_Chunks_def testChunk_Chunk_def
        testChunk_Type_def testChunk_Content_def)
  then show ?thesis
    unfolding hunks_of_def using generate_ctx0 generate_Nil_iff by blast
qed

text \<open>Witnesses: the theorems above at the small file patch.\<close>

theorem hunk_addresses_files_witness:
  "hd (hunks_of 1 (testFilePatch_Chunks small_fp)) \<in> set (hunks_of 1 (testFilePatch_Chunks small_fp)) \<and>
   take 2 (drop 1 (map ltext (filter (\<lambda>l. lop l \<noteq> Add) (file_lines (testFilePatch_Chunks small_fp))))) =
     [''B'', ''C'']"
proof -
  have mem: "hd (hunks_of 1 (testFilePatch_Chunks small_fp)) \<in> set (hunks_of 1 (testFilePatch_Chunks small_fp))"
    by (simp add: small_fp_hunks One_nat_def)
  show ?thesis
    using hunk_addresses_files [OF mem] mem by (simp add: small_fp_hunks old_count_def One_nat_def numeral_2_eq_2)
qed

theorem hunks_separated_bounded_witness:
  "length (hunks_of 1 (testFilePatch_Chunks small_fp)) = 1 \<and>
   length (takeWhile (\<lambda>l. lop l = Equal) (ops (hd (hunks_of 1 (testFilePatch_Chunks small_fp))))) \<le> 1"
  using hunks_separated_bounded [of 1 small_fp] by (simp add: small_fp_hunks One_nat_def)

theorem hunks_context0_equal_only_witness:
  "hunks_of 1 (testFilePatch_Chunks small_fp) \<noteq> [] \<and>
   \<not> (\<forall>t\<in>set (tfp_chunks small_fp). testChunk_Type t = Equal \<or> testChunk_Content t = [])"
  using hunks_context0_equal_only [of small_fp 1]
  by (simp add: small_fp_hunks One_nat_def small_fp_def testChunk_Type_def testChunk_Content_def)

subsection \<open>Encoding into a failing sink\<close>

text \<open>The error path of \<open>Encode\<close> (spec 5 and 7): writing a producer patch
  into a sink of capacity \<open>n\<close>, either no write fails and the sink holds exactly
  the encoded patch, within the capacity, or the first failing write stops the
  encoding, the error is returned with the sink holding a prefix of the
  encoded patch (nothing is rolled back, nothing written after the failure),
  and the encoded patch does exceed the capacity.\<close>

theorem Encode_capacity:
  "case Encode e (cap_write n) [] (testPatch_Patch H p) of
     Inr s \<Rightarrow> s = encoded e (testPatch_Patch H p) \<and> length s \<le> n
   | Inl (_, s) \<Rightarrow> prefix s (encoded e (testPatch_Patch H p)) \<and> n < length (encoded e (testPatch_Patch H p))"
  using write_all_cap [of "[]" n "encode_writes e (testPatch_Patch H p)"]
  by (simp add: Encode_def encoded_def split: sum.splits prod.splits)

subsection \<open>The shape of the output\<close>

text \<open>The output is made of typed rows (spec 4.2, 4.3.3 and 7): for every
  patch whose paths hold no newline, the encoded bytes split into the
  message's rows, then rows each of which is a file-header row (starting with
  one of the words of spec 4.2), a hunk header (\<open>@@ -\<close>) or a hunk body row
  (starting with a space, \<open>-\<close>, \<open>+\<close> or the backslash of the marker), and
  nothing after the final newline; in particular no blank row.\<close>

theorem encoded_rows_typed:
  assumes "list_all (paths_avoid nl) (file_patches (testPatch_Patch H p))"
  shows "\<exists>rs. split_nl (encoded (NewUnifiedEncoder k) (testPatch_Patch H p)) =
      message_rows (testPatch_Message p) @ rs @ [[]] \<and>
    list_all row_typed rs"
  using encoded_rows [OF assms] file_patch_rows_typed by (auto simp: list_all_iff testPatch_Patch_def)

text \<open>A written hunk reads back: the reader of the expected outputs
  (\<open>FixtureText\<close>) cuts the bytes of every hunk of a producer file patch into
  exactly one block, its header row and the rows of its lines, and parses the
  header back to the hunk's line numbers and counts (an empty side's number
  being the line before it).\<close>

theorem written_hunks_read_back:
  assumes "h \<in> set (hunks_of k (testFilePatch_Chunks fp))"
  shows "hunk_blocks (split_nl (write_hunk no_color h)) = [(header_row h, concat (map hunk_rows (ops h)))] \<and>
    parse_hunk_header (header_row h) =
      Some (range_start (old_line h) (old_count h), old_count h,
            range_start (new_line h) (new_count h), new_count h)"
  using hunk_blocks_written [OF assms] parse_hunk_header_row by simp

text \<open>C3: colour only adds escapes (spec 8, item 4, and 6.2): for every colour
  configuration whose entries are SGR sequences and every patch free of
  \<open>ESC\<close> bytes, removing the escapes from the coloured encoding gives the
  uncoloured encoding, and the coloured encoding leaves no escape open.\<close>

theorem colour_strips_to_plain:
  assumes "sgr_config cfg" "patch_plain (testPatch_Patch H p)"
  shows "strip_esc False (encoded (SetColor cfg (NewUnifiedEncoder k)) (testPatch_Patch H p)) =
      encoded (NewUnifiedEncoder k) (testPatch_Patch H p) \<and>
    \<not> esc_open False (encoded (SetColor cfg (NewUnifiedEncoder k)) (testPatch_Patch H p))"
proof -
  have e: "SetColor no_color (NewUnifiedEncoder k) = NewUnifiedEncoder k"
    by (simp add: SetColor_def NewUnifiedEncoder_def)
  have "esc_char \<notin> set (src_prefix (NewUnifiedEncoder k))" "esc_char \<notin> set (dst_prefix (NewUnifiedEncoder k))"
    by (simp_all add: NewUnifiedEncoder_def)
  note w = encode_writes_strip [OF assms(1) this assms(2)]
  show ?thesis using strip_concat [of "encode_writes (SetColor cfg (NewUnifiedEncoder k)) (testPatch_Patch H p)"] w
    unfolding e by (simp add: encoded_def)
qed

text \<open>Every hunk the walk opens is eventually emitted: whenever a state
  reached by the run of the builder over a producer file patch's lines holds
  an open hunk, the hunks of the file patch contain one that starts at the
  same old and new line numbers (the open hunk, with its trailing context
  trimmed or grown).\<close>

theorem opened_hunks_emitted:
  assumes "(gen_step k)\<^sup>*\<^sup>* (Running hgen_init (file_lines (testFilePatch_Chunks fp))) (Running st ls)"
    "cur st = Some h"
  shows "\<exists>h'\<in>set (hunks_of k (testFilePatch_Chunks fp)). old_line h' = old_line h \<and> new_line h' = new_line h"
proof -
  have "(gen_step k)\<^sup>*\<^sup>* (Running st ls) (Done (hunks_of k (testFilePatch_Chunks fp)))"
    using gen_run_confluent [OF assms(1)] gen_run by (simp add: hunks_of_def generate_def)
  then have e: "hunks_of k (testFilePatch_Chunks fp) = finish k (foldl (step_line k) st ls)"
    using gen_run gen_done_unique by blast
  have "hstart h \<in> open_starts st" using assms(2) by (simp add: open_starts_def)
  then have "hstart h \<in> hstart ` set (hunks_of k (testFilePatch_Chunks fp))"
    unfolding e using foldl_open_starts finish_open_starts by blast
  then show ?thesis by (auto simp: hstart_def)
qed

text \<open>The file header follows the order of spec 4.2: for every file patch
  of the producer and any prefixes, the header lines are a \<open>diff --git\<close> line,
  then the mode pair, the creation or deletion line, the rename pair, each
  when it applies, then nothing or an \<open>index\<close> line followed by the marker
  lines or the binary sentinel; only a file patch with neither side has no
  header.\<close>

theorem header_lines_ordered:
  "header_block_ok (header_lines src dst (testFilePatch_FilePatch H t)) \<or>
   (tfp_from t = None \<and> tfp_to t = None \<and> header_lines src dst (testFilePatch_FilePatch H t) = [])"
  by (auto simp: header_block_ok_def header_lines_def path_lines_def diff_git_line_def index_line_def
      skip_pair_def skip_opt_def testFilePatch_FilePatch_def side_file_Files split: option.splits)

theorem encoded_rows_typed_witness:
  "list_all (paths_avoid nl) (file_patches (testPatch_Patch char_bytes small_tp)) \<and>
   (\<exists>rs. split_nl (encoded (NewUnifiedEncoder 1) (testPatch_Patch char_bytes small_tp)) = [''m''] @ rs @ [[]] \<and>
      list_all row_typed rs)"
proof -
  have a: "list_all (paths_avoid nl) (file_patches (testPatch_Patch char_bytes small_tp))"
    by (simp add: small_tp_def test_producer_defs paths_avoid_def)
  have "message_rows (testPatch_Message small_tp) = [''m'']"
    by (simp add: small_tp_def testPatch_Message_def message_rows_def)
  then show ?thesis using encoded_rows_typed [OF a, of 1] a by simp
qed

theorem written_hunks_read_back_witness:
  "hd (hunks_of 1 (testFilePatch_Chunks small_fp)) \<in> set (hunks_of 1 (testFilePatch_Chunks small_fp)) \<and>
   hunk_blocks (split_nl (write_hunk no_color (hd (hunks_of 1 (testFilePatch_Chunks small_fp))))) =
     [(''@@ -2,2 +2 @@ A'', [CHR '' '' # ''B'', CHR ''-'' # ''C''])] \<and>
   parse_hunk_header ''@@ -2,2 +2 @@ A'' = Some (2, 2, 2, 1)"
proof -
  have mem: "hd (hunks_of 1 (testFilePatch_Chunks small_fp)) \<in> set (hunks_of 1 (testFilePatch_Chunks small_fp))"
    by (simp add: small_fp_hunks One_nat_def)
  have r: "header_row (hd (hunks_of 1 (testFilePatch_Chunks small_fp))) = ''@@ -2,2 +2 @@ A''"
    by (simp add: small_fp_hunks One_nat_def header_row_def range_string_def old_count_def new_count_def
        dec_string_def digits_in.simps digit_char_def hex_digits_def)
  show ?thesis
    using written_hunks_read_back [OF mem] mem unfolding r
    by (simp add: small_fp_hunks One_nat_def hunk_rows_def op_prefix_def range_start_def old_count_def
        new_count_def)
qed

theorem colour_strips_to_plain_witness:
  "sgr_config default_color \<and> patch_plain (testPatch_Patch char_bytes small_tp) \<and>
   strip_esc False (encoded (SetColor default_color (NewUnifiedEncoder 1)) (testPatch_Patch char_bytes small_tp)) =
     encoded (NewUnifiedEncoder 1) (testPatch_Patch char_bytes small_tp)"
proof -
  have c: "sgr_config default_color"
    by (simp add: sgr_config_def is_sgr_def default_color_def color_Bold_def color_Cyan_def color_Red_def
        color_Green_def sgr_def)
  have p: "patch_plain (testPatch_Patch char_bytes small_tp)"
    by (simp add: patch_plain_def file_patch_plain_def paths_avoid_def small_tp_def test_producer_defs)
  show ?thesis using colour_strips_to_plain [OF c p, of 1] c p by simp
qed

theorem opened_hunks_emitted_witness:
  "(gen_step 1)\<^sup>*\<^sup>* (Running hgen_init (file_lines (testFilePatch_Chunks small_fp)))
     (Running (foldl (step_line 1) hgen_init (file_lines (testFilePatch_Chunks small_fp))) []) \<and>
   cur (foldl (step_line 1) hgen_init (file_lines (testFilePatch_Chunks small_fp))) =
     Some \<lparr>old_line = 2, new_line = 2, func_ctx = Some ''A'',
       ops = [\<lparr>lop = Equal, ltext = ''B'', leof = False\<rparr>, \<lparr>lop = Delete, ltext = ''C'', leof = False\<rparr>]\<rparr> \<and>
   (\<exists>h'\<in>set (hunks_of 1 (testFilePatch_Chunks small_fp)). old_line h' = 2 \<and> new_line h' = 2)"
proof -
  let ?L = "file_lines (testFilePatch_Chunks small_fp)"
  have r: "(gen_step 1)\<^sup>*\<^sup>* (Running hgen_init ?L) (Running (foldl (step_line 1) hgen_init ?L) [])"
    using gen_run_prefix [of 1 hgen_init ?L "[]"] by simp
  have c: "cur (foldl (step_line 1) hgen_init ?L) =
     Some \<lparr>old_line = 2, new_line = 2, func_ctx = Some ''A'',
       ops = [\<lparr>lop = Equal, ltext = ''B'', leof = False\<rparr>, \<lparr>lop = Delete, ltext = ''C'', leof = False\<rparr>]\<rparr>"
    by (simp add: small_fp_def test_producer_defs model_defs chunk_lines_def split_nl.simps file_lines_def)
  show ?thesis using opened_hunks_emitted [OF r c] r c by simp
qed

end
